theory Spec2Isabelle
  imports Complex_Main
begin
section \<open>Industrial IoT data generators\<close>

text \<open>
  A shallow embedding of the three generators of the workshop repository:
  \<^verbatim>\<open>Industrial-IoT-Workshop/generate_iot_data.py\<close> (the full generator),
  \<^verbatim>\<open>Industrial-IoT-Workshop/generate_sample_data.py\<close> (the CSV variant) and
  \<^verbatim>\<open>Industrial-IoT-Workshop2/generate_simple_data.py\<close> (the simplified variant).

  Conventions of the embedding.
  \<^item> A Python float is a \<^typ>\<open>real\<close>. The function \<open>fl\<close> rounds a real to the nearest float
    (IEEE 754 binary64, ties to the even mantissa), as every float operation of Python does.
    The constants that a value or a draw is compared with are the floats that Python compares
    with: \<^verbatim>\<open>upper * 1.1\<close> is the float product of the upper bound and the float \<open>1.1\<close>, which
    is not \<open>11/10\<close>, and \<^verbatim>\<open>random() < 0.95\<close> compares with the float \<open>0.95\<close>. The sampled
    quality-control measurements are computed in floats, operation by operation. The sums and
    products that build a sensor value, a production metric, a duration or a cost are exact:
    there the rounding of each operation is left out, and the properties proved are bounds
    that rounding to the nearest float preserves, or hold whatever the value is.
  \<^item> A \<^verbatim>\<open>datetime\<close> is the number of microseconds since 0001-01-01 00:00:00 (a Monday);
    a \<^verbatim>\<open>timedelta\<close> is a number of microseconds. The range limit of \<^verbatim>\<open>datetime\<close> is
    not modelled.
  \<^item> The generators draw from Python's \<^verbatim>\<open>random\<close> module. Each call site receives the
    outcome of its draw as an argument: the outcome of \<^verbatim>\<open>random.random()\<close> is a real
    \<open>u\<close> with \<open>0 \<le> u < 1\<close>, that of \<^verbatim>\<open>random.randint(a, b)\<close> an integer between
    \<open>a\<close> and \<open>b\<close>, that of \<^verbatim>\<open>random.gauss\<close> a standard normal variate (any real),
    that of \<^verbatim>\<open>random.choice\<close> the chosen element. The range of a draw is a hypothesis
    of the theorems that need it.
  \<^item> A \<^verbatim>\<open>while\<close> loop whose termination depends on its inputs is a
    \<^theory_text>\<open>partial_function\<close> into \<^typ>\<open>'a option\<close>: \<open>None\<close> is a loop that never ends.
\<close>

subsection \<open>Dates and times\<close>

type_synonym datetime = int
type_synonym timedelta = int

definition timedelta :: "int \<Rightarrow> int \<Rightarrow> int \<Rightarrow> timedelta" where
  \<comment> \<open>\<^verbatim>\<open>timedelta(days=d, hours=h, minutes=m)\<close>\<close>
  "timedelta d h m = d * 86400000000 + h * 3600000000 + m * 60000000"

definition td_days :: "timedelta \<Rightarrow> int" where
  \<comment> \<open>the \<^verbatim>\<open>.days\<close> attribute of a normalised \<^verbatim>\<open>timedelta\<close>\<close>
  "td_days d = d div 86400000000"

definition hour :: "datetime \<Rightarrow> int" where
  "hour t = (t div 3600000000) mod 24"

definition weekday :: "datetime \<Rightarrow> int" where
  \<comment> \<open>Monday is 0, Sunday is 6\<close>
  "weekday t = (t div 86400000000) mod 7"

subsection \<open>Rounding\<close>

definition round_half_even :: "real \<Rightarrow> int" where
  "round_half_even y =
     (let f = \<lfloor>y\<rfloor>; d = y - of_int f
      in if d < 1 / 2 then f else if 1 / 2 < d then f + 1
         else if even f then f else f + 1)"

definition py_round :: "real \<Rightarrow> nat \<Rightarrow> real" where
  \<comment> \<open>\<^verbatim>\<open>round(x, n)\<close>: to \<open>n\<close> decimals, a tie to the even neighbour\<close>
  "py_round x n = of_int (round_half_even (x * 10 ^ n)) / 10 ^ n"

subsection \<open>Floats\<close>

fun ilog2 :: "nat \<Rightarrow> nat" where
  \<comment> \<open>the position of the leading bit\<close>
  "ilog2 n = (if n < 2 then 0 else Suc (ilog2 (n div 2)))"

declare ilog2.simps [simp del]

definition exponent :: "real \<Rightarrow> int" where
  \<comment> \<open>the binary exponent \<open>e\<close> of a non-zero number: \<open>2\<^sup>e \<le> \<bar>x\<bar> < 2\<^sup>e\<^sup>+\<^sup>1\<close>\<close>
  "exponent x =
     (if 1 \<le> \<bar>x\<bar> then int (ilog2 (nat \<lfloor>\<bar>x\<bar>\<rfloor>))
      else - int (Suc (ilog2 (nat (\<lceil>1 / \<bar>x\<bar>\<rceil> - 1)))))"

definition fl :: "real \<Rightarrow> real" where
  \<comment> \<open>the binary64 float nearest to \<open>x\<close>, a tie to the even mantissa: 53 significant bits.
      Overflow and subnormal numbers are left out (the generators stay far from both).\<close>
  "fl x =
     (if x = 0 then 0
      else let q = 2 powi (exponent x - 52) in of_int (round_half_even (x / q)) * q)"

subsection \<open>Random draws\<close>

definition uniform :: "real \<Rightarrow> real \<Rightarrow> real \<Rightarrow> real" where
  \<comment> \<open>\<^verbatim>\<open>random.uniform(a, b)\<close> is \<^verbatim>\<open>a + (b - a) * random()\<close>; \<open>u\<close> is the outcome of \<^verbatim>\<open>random()\<close>\<close>
  "uniform a b u = a + (b - a) * u"

definition float_uniform :: "real \<Rightarrow> real \<Rightarrow> real \<Rightarrow> real" where
  \<comment> \<open>\<^verbatim>\<open>a + (b - a) * random()\<close> on floats: each operation is rounded\<close>
  "float_uniform a b u = fl (a + fl (fl (b - a) * u))"

definition gauss :: "real \<Rightarrow> real \<Rightarrow> real \<Rightarrow> real" where
  \<comment> \<open>\<^verbatim>\<open>random.gauss(mu, sigma)\<close>; \<open>z\<close> is the standard normal variate drawn\<close>
  "gauss mu sigma z = mu + z * sigma"

definition unit_draw :: "real \<Rightarrow> bool" where
  \<comment> \<open>the range of \<^verbatim>\<open>random.random()\<close>\<close>
  "unit_draw u = (0 \<le> u \<and> u < 1)"

subsection \<open>Equipment catalog\<close>

record config =
  eq_type :: string
  line :: string
  temp_range :: "real \<times> real"
  vib_range :: "real \<times> real"
  pressure :: "(real \<times> real) option"

definition mk_config ::
  "string \<Rightarrow> string \<Rightarrow> real \<times> real \<Rightarrow> real \<times> real \<Rightarrow> (real \<times> real) option \<Rightarrow> config" where
  "mk_config ty li tr vr pr =
     \<lparr>eq_type = ty, line = li, temp_range = tr, vib_range = vr, pressure = pr\<rparr>"

definition EQUIPMENT_IDS :: "string list" where
  "EQUIPMENT_IDS =
     [''MOTOR_001'', ''MOTOR_002'', ''PUMP_001'', ''PUMP_002'', ''CONV_001'',
      ''CONV_002'', ''ROBOT_001'', ''ROBOT_002'', ''COMP_001'', ''HVAC_001'']"

definition EQUIPMENT_CONFIG :: "(string \<times> config) list" where
  \<comment> \<open>the dictionary of \<^verbatim>\<open>generate_iot_data.py\<close>, in insertion order\<close>
  "EQUIPMENT_CONFIG =
     [(''MOTOR_001'', mk_config ''motor'' ''Line 1'' (45, 75) (2, 12) None),
      (''MOTOR_002'', mk_config ''motor'' ''Line 1'' (45, 75) (2, 12) None),
      (''PUMP_001'', mk_config ''pump'' ''Line 1'' (40, 65) (5, 18) (Some (180, 240))),
      (''PUMP_002'', mk_config ''pump'' ''Line 2'' (40, 65) (5, 18) (Some (180, 240))),
      (''CONV_001'', mk_config ''conveyor'' ''Line 1'' (25, 55) (1, 8) None),
      (''CONV_002'', mk_config ''conveyor'' ''Line 2'' (25, 55) (1, 8) None),
      (''ROBOT_001'', mk_config ''robot'' ''Line 1'' (35, 60) (1, 6) None),
      (''ROBOT_002'', mk_config ''robot'' ''Line 2'' (35, 60) (1, 6) None),
      (''COMP_001'', mk_config ''compressor'' ''Utility'' (60, 85) (8, 22) (Some (6, 7.5))),
      (''HVAC_001'', mk_config ''hvac'' ''Factory Floor'' (18, 24) (1, 4) None)]"

definition mean2 :: "real \<times> real \<Rightarrow> real" where
  \<comment> \<open>\<^verbatim>\<open>np.mean\<close> of a pair\<close>
  "mean2 r = (fst r + snd r) / 2"

subsection \<open>Sensor readings of the full generator\<close>

record sensor_row =
  sr_time :: datetime
  sr_equipment_id :: string
  sr_sensor_type :: string
  sr_value :: real
  sr_unit :: string
  sr_status :: string

definition mk_row :: "datetime \<Rightarrow> string \<Rightarrow> string \<Rightarrow> real \<Rightarrow> string \<Rightarrow> string \<Rightarrow> sensor_row" where
  "mk_row t e k v u s =
     \<lparr>sr_time = t, sr_equipment_id = e, sr_sensor_type = k, sr_value = v, sr_unit = u,
      sr_status = s\<rparr>"

record state =
  temp_drift :: real
  vib_drift :: real
  maintenance_factor :: real
  fault_probability :: real

definition init_state :: "real \<times> real \<Rightarrow> state" where
  \<comment> \<open>the two arguments are the outcomes of \<^verbatim>\<open>random()\<close> behind the two \<^verbatim>\<open>uniform\<close> calls\<close>
  "init_state us =
     \<lparr>temp_drift = uniform (- 0.1) 0.1 (fst us), vib_drift = uniform (- 0.05) 0.05 (snd us),
      maintenance_factor = 1.0, fault_probability = 0.001\<rparr>"

record reading_draws =
  temp_z :: real
  vib_z :: real
  pressure_z :: real
  humidity_u :: real

definition operating_factor :: "datetime \<Rightarrow> real" where
  "operating_factor t =
     (if weekday t \<ge> 5 then 0.3
      else if hour t < 6 \<or> hour t > 22 then 0.6
      else 1.0)"

definition temp_value :: "datetime \<Rightarrow> datetime \<Rightarrow> config \<Rightarrow> state \<Rightarrow> real \<Rightarrow> real" where
  "temp_value start_time current_time cfg st z =
     (let temp_base = mean2 (temp_range cfg);
          temp_variation = (snd (temp_range cfg) - fst (temp_range cfg)) * 0.3;
          daily_cycle = 3 * sin (2 * pi * of_int (hour current_time) / 24)
      in temp_base + daily_cycle + gauss 0 temp_variation z
         + temp_drift st * of_int (td_days (current_time - start_time)))"

definition temp_status :: "config \<Rightarrow> real \<Rightarrow> string" where
  "temp_status cfg v =
     (let s = ''normal'';
          s = (if v > snd (temp_range cfg) then ''warning'' else s);
          s = (if v > fl (snd (temp_range cfg) * fl 1.1) then ''critical'' else s)
      in s)"

definition vib_value :: "datetime \<Rightarrow> datetime \<Rightarrow> config \<Rightarrow> state \<Rightarrow> real \<Rightarrow> real" where
  "vib_value start_time current_time cfg st z =
     (let vib_base = mean2 (vib_range cfg);
          vib_variation = (snd (vib_range cfg) - fst (vib_range cfg)) * 0.4;
          v = vib_base * operating_factor current_time + gauss 0 vib_variation z
              + vib_drift st * of_int (td_days (current_time - start_time))
      in max 0 v)"

definition vib_status :: "config \<Rightarrow> real \<Rightarrow> string" where
  "vib_status cfg v =
     (let s = ''normal'';
          s = (if v > snd (vib_range cfg) then ''warning'' else s);
          s = (if v > fl (snd (vib_range cfg) * fl 1.2) then ''critical'' else s)
      in s)"

definition pressure_value :: "datetime \<Rightarrow> real \<times> real \<Rightarrow> real \<Rightarrow> real" where
  "pressure_value current_time pr z =
     (let pressure_base = mean2 pr;
          pressure_variation = (snd pr - fst pr) * 0.2
      in pressure_base * operating_factor current_time + gauss 0 pressure_variation z)"

definition pressure_status :: "real \<times> real \<Rightarrow> real \<Rightarrow> string" where
  "pressure_status pr v =
     (let s = ''normal'';
          s = (if v > snd pr then ''warning'' else s);
          s = (if v > fl (snd pr * fl 1.05) then ''critical'' else s)
      in s)"

definition humidity_status :: "real \<Rightarrow> string" where
  "humidity_status v =
     (let s = ''normal'';
          s = (if v > 70 \<or> v < 40 then ''warning'' else s)
      in s)"

definition equipment_readings ::
  "datetime \<Rightarrow> datetime \<Rightarrow> string \<Rightarrow> config \<Rightarrow> state \<Rightarrow> reading_draws \<Rightarrow> sensor_row list" where
  \<comment> \<open>the body of the loop over \<^verbatim>\<open>EQUIPMENT_IDS\<close> in \<^verbatim>\<open>generate_sensor_data\<close>\<close>
  "equipment_readings start_time current_time equipment_id cfg st dr =
     (let tv = temp_value start_time current_time cfg st (temp_z dr);
          vv = vib_value start_time current_time cfg st (vib_z dr)
      in [mk_row current_time equipment_id ''temperature'' (py_round tv 1) ''celsius''
            (temp_status cfg tv),
          mk_row current_time equipment_id ''vibration'' (py_round vv 2) ''hz''
            (vib_status cfg vv)]
         @ (case pressure cfg of
              None \<Rightarrow> []
            | Some pr \<Rightarrow>
                (let pv = pressure_value current_time pr (pressure_z dr)
                 in [mk_row current_time equipment_id ''pressure'' (py_round pv 1) ''bar''
                       (pressure_status pr pv)]))
         @ (if equipment_id = ''HVAC_001''
            then (let hv = uniform 45 65 (humidity_u dr)
                  in [mk_row current_time equipment_id ''humidity'' (py_round hv 1) ''percent''
                        (humidity_status hv)])
            else []))"

definition tick_rows ::
  "(string \<times> config) list \<Rightarrow> state list \<Rightarrow> datetime \<Rightarrow> datetime \<Rightarrow> (nat \<Rightarrow> reading_draws)
   \<Rightarrow> sensor_row list" where
  \<comment> \<open>one pass of \<^verbatim>\<open>for equipment_id in EQUIPMENT_IDS\<close>; \<open>dr j\<close> are the draws for the
      \<open>j\<close>-th equipment\<close>
  "tick_rows catalog states start_time current_time dr =
     concat (map (\<lambda>j. equipment_readings start_time current_time (fst (catalog ! j))
                          (snd (catalog ! j)) (states ! j) (dr j))
               [0..<length catalog])"

partial_function (option) sensor_loop ::
  "(string \<times> config) list \<Rightarrow> state list \<Rightarrow> (nat \<Rightarrow> nat \<Rightarrow> reading_draws) \<Rightarrow> datetime
   \<Rightarrow> datetime \<Rightarrow> int \<Rightarrow> datetime \<Rightarrow> nat \<Rightarrow> sensor_row list \<Rightarrow> sensor_row list option" where
  "sensor_loop catalog states draws start_time end_time interval_minutes current_time k data =
     (if current_time \<le> end_time
      then sensor_loop catalog states draws start_time end_time interval_minutes
             (current_time + timedelta 0 0 interval_minutes) (Suc k)
             (data @ tick_rows catalog states start_time current_time (draws k))
      else Some data)"

definition generate_sensor_data ::
  "(string \<times> config) list \<Rightarrow> (nat \<Rightarrow> real \<times> real) \<Rightarrow> (nat \<Rightarrow> nat \<Rightarrow> reading_draws)
   \<Rightarrow> datetime \<Rightarrow> datetime \<Rightarrow> int \<Rightarrow> sensor_row list option" where
  \<comment> \<open>\<open>init j\<close> are the draws for the drift state of the \<open>j\<close>-th equipment, \<open>draws k j\<close> those
      of its readings at the \<open>k\<close>-th tick\<close>
  "generate_sensor_data catalog init draws start_time end_time interval_minutes =
     sensor_loop catalog (map (\<lambda>j. init_state (init j)) [0..<length catalog]) draws
       start_time end_time interval_minutes start_time 0 []"

subsection \<open>Sensor readings of the CSV variant\<close>

text \<open>
  \<^verbatim>\<open>generate_sensor_data_csv\<close> iterates over the same catalog (a missing \<^verbatim>\<open>'pressure'\<close> key
  is \<open>None\<close>). Its noise is uniform, it has no drift and no humidity, and its pressure status
  has no critical level. The text format of the time column is not modelled.
\<close>

record csv_draws =
  csv_temp_u :: real
  csv_vib_u :: real
  csv_pressure_u :: real

definition temp_value_csv :: "datetime \<Rightarrow> config \<Rightarrow> real \<Rightarrow> real" where
  "temp_value_csv current_time cfg u =
     (let temp_base = (fst (temp_range cfg) + snd (temp_range cfg)) / 2;
          daily_cycle = 3 * sin (2 * pi * of_int (hour current_time) / 24);
          temp_variation = (snd (temp_range cfg) - fst (temp_range cfg)) * 0.3
      in temp_base + daily_cycle + uniform (- temp_variation) temp_variation u)"

definition vib_value_csv :: "datetime \<Rightarrow> config \<Rightarrow> real \<Rightarrow> real" where
  "vib_value_csv current_time cfg u =
     (let vib_base = (fst (vib_range cfg) + snd (vib_range cfg)) / 2;
          vib_variation = (snd (vib_range cfg) - fst (vib_range cfg)) * 0.4
      in max 0 (vib_base * operating_factor current_time
                + uniform (- vib_variation) vib_variation u))"

definition pressure_value_csv :: "datetime \<Rightarrow> real \<times> real \<Rightarrow> real \<Rightarrow> real" where
  "pressure_value_csv current_time pr u =
     (let pressure_base = (fst pr + snd pr) / 2;
          pressure_variation = (snd pr - fst pr) * 0.2
      in pressure_base * operating_factor current_time
         + uniform (- pressure_variation) pressure_variation u)"

definition pressure_status_csv :: "real \<times> real \<Rightarrow> real \<Rightarrow> string" where
  "pressure_status_csv pr v =
     (let s = ''normal'';
          s = (if v > snd pr then ''warning'' else s)
      in s)"

definition equipment_readings_csv ::
  "datetime \<Rightarrow> string \<Rightarrow> config \<Rightarrow> csv_draws \<Rightarrow> sensor_row list" where
  \<comment> \<open>the rows written for one equipment at one tick\<close>
  "equipment_readings_csv current_time equipment_id cfg dr =
     (let tv = temp_value_csv current_time cfg (csv_temp_u dr);
          vv = vib_value_csv current_time cfg (csv_vib_u dr)
      in [mk_row current_time equipment_id ''temperature'' (py_round tv 1) ''celsius''
            (temp_status cfg tv),
          mk_row current_time equipment_id ''vibration'' (py_round vv 2) ''hz''
            (vib_status cfg vv)]
         @ (case pressure cfg of
              None \<Rightarrow> []
            | Some pr \<Rightarrow>
                (let pv = pressure_value_csv current_time pr (csv_pressure_u dr)
                 in [mk_row current_time equipment_id ''pressure'' (py_round pv 1) ''bar''
                       (pressure_status_csv pr pv)])))"

subsection \<open>Sensor readings of the simplified variant\<close>

record equipment =
  e_id :: string
  e_type :: string
  e_temp_range :: "real \<times> real"
  e_vib_range :: "real \<times> real"

definition mk_equipment :: "string \<Rightarrow> string \<Rightarrow> real \<times> real \<Rightarrow> real \<times> real \<Rightarrow> equipment" where
  "mk_equipment i ty tr vr = \<lparr>e_id = i, e_type = ty, e_temp_range = tr, e_vib_range = vr\<rparr>"

definition EQUIPMENT :: "equipment list" where
  "EQUIPMENT =
     [mk_equipment ''MOTOR_001'' ''motor'' (45, 75) (2, 12),
      mk_equipment ''MOTOR_002'' ''motor'' (45, 75) (2, 12),
      mk_equipment ''PUMP_001'' ''pump'' (40, 70) (5, 18),
      mk_equipment ''PUMP_002'' ''pump'' (40, 70) (5, 18),
      mk_equipment ''CONV_001'' ''conveyor'' (25, 60) (1, 8),
      mk_equipment ''ROBOT_001'' ''robot'' (35, 65) (1, 6)]"

definition determine_status :: "real \<Rightarrow> real \<Rightarrow> real \<Rightarrow> real \<Rightarrow> string" where
  "determine_status temp_val temp_max vib_val vib_max =
     (if temp_val > temp_max \<or> vib_val > vib_max then ''critical''
      else if temp_val > fl (temp_max * fl 0.9) \<or> vib_val > fl (vib_max * fl 0.9)
      then ''warning''
      else ''normal'')"

record simple_state =
  s_temp_drift :: real
  s_base_temp :: real
  s_base_vib :: real

definition simple_init_state :: "equipment \<Rightarrow> real \<Rightarrow> simple_state" where
  "simple_init_state eq u =
     \<lparr>s_temp_drift = uniform (- 0.1) 0.1 u,
      s_base_temp = (fst (e_temp_range eq) + snd (e_temp_range eq)) / 2,
      s_base_vib = (fst (e_vib_range eq) + snd (e_vib_range eq)) / 2\<rparr>"

record simple_draws =
  sd_temp_z :: real
  sd_vib_z :: real
  sd_vib_u :: real
  sd_spike_u :: real
  sd_spike_size_u :: real

record simple_row =
  sw_time :: datetime
  sw_equipment_id :: string
  sw_temperature :: real
  sw_vibration :: real
  sw_status :: string

definition simple_operating_factor :: "datetime \<Rightarrow> real" where
  "simple_operating_factor t =
     (if weekday t \<ge> 5 then 0.4
      else if hour t < 6 \<or> hour t > 22 then 0.7
      else 1.0)"

definition simple_temperature ::
  "datetime \<Rightarrow> datetime \<Rightarrow> equipment \<Rightarrow> simple_state \<Rightarrow> simple_draws \<Rightarrow> real" where
  \<comment> \<open>the temperature of a row, the spike included when it is drawn\<close>
  "simple_temperature start_time current_time eq st dr =
     (let operating_factor = simple_operating_factor current_time;
          daily_cycle = 4 * sin (2 * pi * of_int (hour current_time) / 24);
          temp_variation = (snd (e_temp_range eq) - fst (e_temp_range eq)) * 0.2;
          days_elapsed = td_days (current_time - start_time);
          temperature = s_base_temp st + daily_cycle + gauss 0 temp_variation (sd_temp_z dr)
                        + s_temp_drift st * of_int days_elapsed
                        + (operating_factor - 0.7) * 5
      in if sd_spike_u dr < fl 0.005 then temperature + uniform 5 15 (sd_spike_size_u dr)
         else temperature)"

definition simple_vibration :: "datetime \<Rightarrow> equipment \<Rightarrow> simple_state \<Rightarrow> simple_draws \<Rightarrow> real" where
  "simple_vibration current_time eq st dr =
     (let operating_factor = simple_operating_factor current_time;
          vib_variation = (snd (e_vib_range eq) - fst (e_vib_range eq)) * 0.3;
          vibration = s_base_vib st * operating_factor + gauss 0 vib_variation (sd_vib_z dr)
                      + uniform (- 1) 1 (sd_vib_u dr)
      in max 0.1 vibration)"

definition simple_reading ::
  "datetime \<Rightarrow> datetime \<Rightarrow> equipment \<Rightarrow> simple_state \<Rightarrow> simple_draws \<Rightarrow> simple_row" where
  \<comment> \<open>the body of the loop over \<^verbatim>\<open>EQUIPMENT\<close>: the status is derived once more after a spike,
      so it is the status of the final temperature\<close>
  "simple_reading start_time current_time eq st dr =
     (let temperature = simple_temperature start_time current_time eq st dr;
          vibration = simple_vibration current_time eq st dr;
          temp_max = snd (e_temp_range eq);
          vib_max = snd (e_vib_range eq);
          status = determine_status temperature temp_max vibration vib_max
      in \<lparr>sw_time = current_time, sw_equipment_id = e_id eq,
          sw_temperature = py_round temperature 1, sw_vibration = py_round vibration 2,
          sw_status = status\<rparr>)"

subsection \<open>Production metrics\<close>

datatype py_error = AttributeError

record production_row =
  pm_time :: datetime
  pm_line_id :: string
  pm_equipment_id :: string
  pm_cycle_time :: real
  pm_throughput :: real
  pm_efficiency_score :: real
  pm_energy_consumption :: real
  pm_downtime_duration :: real
  pm_defect_rate :: real

definition LINES :: "string list" where
  "LINES = [''Line 1'', ''Line 2'']"

record line_draws =
  ld_efficiency_u :: real
  ld_throughput_u :: real

record prod_draws =
  pd_cycle_u :: real
  pd_throughput_u :: real
  pd_efficiency_u :: real
  pd_energy_u :: real
  pd_downtime_trigger_u :: real
  pd_downtime_u :: real
  pd_defect_u :: real

definition base_efficiency :: "datetime \<Rightarrow> real \<Rightarrow> real" where
  "base_efficiency t u =
     (if weekday t \<ge> 5 then uniform 30 50 u
      else if hour t < 6 \<or> hour t > 22 then uniform 60 80 u
      else uniform 80 95 u)"

definition base_throughput :: "datetime \<Rightarrow> real \<Rightarrow> real" where
  "base_throughput t u =
     (if weekday t \<ge> 5 then uniform 10 30 u
      else if hour t < 6 \<or> hour t > 22 then uniform 40 70 u
      else uniform 70 120 u)"

definition production_record ::
  "datetime \<Rightarrow> string \<Rightarrow> string \<Rightarrow> real \<Rightarrow> real \<Rightarrow> prod_draws \<Rightarrow> py_error + production_row" where
  \<comment> \<open>the body of \<^verbatim>\<open>for equipment_id in line_equipment\<close> in \<^verbatim>\<open>generate_production_metrics\<close>.
      Python's \<^verbatim>\<open>random\<close> module has no attribute \<^verbatim>\<open>exponential\<close>: when the downtime
      trial succeeds, evaluating \<^verbatim>\<open>random.exponential\<close> raises \<^verbatim>\<open>AttributeError\<close>.\<close>
  "production_record current_time line_id equipment_id base_eff base_thr dr =
     (let cycle_time = uniform 35 55 (pd_cycle_u dr) * (100 / max base_eff 50);
          throughput = base_thr * uniform 0.8 1.2 (pd_throughput_u dr);
          efficiency = base_eff * uniform 0.9 1.1 (pd_efficiency_u dr);
          efficiency = max 0 (min 100 efficiency);
          energy_base = (if line_id = ''Line 1'' then 8.0 else 7.5);
          energy_consumption = energy_base + (throughput / 100) * 5
                               + uniform (- 1) 1 (pd_energy_u dr);
          downtime_prob = (100 - efficiency) / 100 * 0.3
      in if pd_downtime_trigger_u dr < downtime_prob then Inl AttributeError
         else (let downtime = 0;
                   defect_rate = max 0 ((100 - efficiency) / 10 + uniform (- 1) 1 (pd_defect_u dr))
               in Inr \<lparr>pm_time = current_time, pm_line_id = line_id,
                        pm_equipment_id = equipment_id,
                        pm_cycle_time = py_round cycle_time 1,
                        pm_throughput = py_round throughput 1,
                        pm_efficiency_score = py_round efficiency 1,
                        pm_energy_consumption = py_round energy_consumption 2,
                        pm_downtime_duration = py_round downtime 1,
                        pm_defect_rate = py_round defect_rate 2\<rparr>))"

definition production_record_csv ::
  "datetime \<Rightarrow> string \<Rightarrow> string \<Rightarrow> real \<Rightarrow> real \<Rightarrow> prod_draws \<Rightarrow> production_row" where
  \<comment> \<open>the same body in \<^verbatim>\<open>generate_production_metrics_csv\<close>, where the downtime is uniform\<close>
  "production_record_csv current_time line_id equipment_id base_eff base_thr dr =
     (let cycle_time = uniform 35 55 (pd_cycle_u dr) * (100 / max base_eff 50);
          throughput = base_thr * uniform 0.8 1.2 (pd_throughput_u dr);
          efficiency = max 0 (min 100 (base_eff * uniform 0.9 1.1 (pd_efficiency_u dr)));
          energy_base = (if line_id = ''Line 1'' then 8.0 else 7.5);
          energy_consumption = energy_base + (throughput / 100) * 5
                               + uniform (- 1) 1 (pd_energy_u dr);
          downtime_prob = (100 - efficiency) / 100 * 0.3;
          downtime = (if pd_downtime_trigger_u dr < downtime_prob
                      then uniform 0 15 (pd_downtime_u dr) * downtime_prob else 0);
          defect_rate = max 0 ((100 - efficiency) / 10 + uniform (- 1) 1 (pd_defect_u dr))
      in \<lparr>pm_time = current_time, pm_line_id = line_id, pm_equipment_id = equipment_id,
          pm_cycle_time = py_round cycle_time 1, pm_throughput = py_round throughput 1,
          pm_efficiency_score = py_round efficiency 1,
          pm_energy_consumption = py_round energy_consumption 2,
          pm_downtime_duration = py_round downtime 1,
          pm_defect_rate = py_round defect_rate 2\<rparr>)"

fun collect :: "('e + 'a) list \<Rightarrow> 'e + 'a list" where
  \<comment> \<open>the first exception ends the run\<close>
  "collect [] = Inr []"
| "collect (x # xs) =
     (case x of
        Inl e \<Rightarrow> Inl e
      | Inr a \<Rightarrow> (case collect xs of Inl e \<Rightarrow> Inl e | Inr as \<Rightarrow> Inr (a # as)))"

definition line_equipment :: "(string \<times> config) list \<Rightarrow> string \<Rightarrow> string list" where
  "line_equipment catalog line_id = map fst (filter (\<lambda>p. line (snd p) = line_id) catalog)"

definition line_records ::
  "(string \<times> config) list \<Rightarrow> datetime \<Rightarrow> string \<Rightarrow> line_draws \<Rightarrow> (nat \<Rightarrow> prod_draws)
   \<Rightarrow> (py_error + production_row) list" where
  \<comment> \<open>the body of \<^verbatim>\<open>for line_id in LINES\<close>; \<open>dr i\<close> are the draws of the \<open>i\<close>-th equipment of
      the line\<close>
  "line_records catalog current_time line_id ld dr =
     (let eqs = line_equipment catalog line_id;
          base_eff = base_efficiency current_time (ld_efficiency_u ld);
          base_thr = base_throughput current_time (ld_throughput_u ld)
      in map (\<lambda>i. production_record current_time line_id (eqs ! i) base_eff base_thr (dr i))
           [0..<length eqs])"

definition tick_records ::
  "(string \<times> config) list \<Rightarrow> datetime \<Rightarrow> (nat \<Rightarrow> line_draws) \<Rightarrow> (nat \<Rightarrow> nat \<Rightarrow> prod_draws)
   \<Rightarrow> py_error + production_row list" where
  "tick_records catalog current_time ld dr =
     collect (concat (map (\<lambda>l. line_records catalog current_time (LINES ! l) (ld l) (dr l))
                        [0..<length LINES]))"

partial_function (option) production_loop ::
  "(string \<times> config) list \<Rightarrow> (nat \<Rightarrow> nat \<Rightarrow> line_draws) \<Rightarrow> (nat \<Rightarrow> nat \<Rightarrow> nat \<Rightarrow> prod_draws)
   \<Rightarrow> datetime \<Rightarrow> int \<Rightarrow> datetime \<Rightarrow> nat \<Rightarrow> production_row list
   \<Rightarrow> (py_error + production_row list) option" where
  "production_loop catalog ld dr end_time interval_minutes current_time k data =
     (if current_time \<le> end_time
      then (case tick_records catalog current_time (ld k) (dr k) of
              Inl e \<Rightarrow> Some (Inl e)
            | Inr rows \<Rightarrow>
                production_loop catalog ld dr end_time interval_minutes
                  (current_time + timedelta 0 0 interval_minutes) (Suc k) (data @ rows))
      else Some (Inr data))"

definition generate_production_metrics ::
  "(string \<times> config) list \<Rightarrow> (nat \<Rightarrow> nat \<Rightarrow> line_draws) \<Rightarrow> (nat \<Rightarrow> nat \<Rightarrow> nat \<Rightarrow> prod_draws)
   \<Rightarrow> datetime \<Rightarrow> datetime \<Rightarrow> int \<Rightarrow> (py_error + production_row list) option" where
  "generate_production_metrics catalog ld dr start_time end_time interval_minutes =
     production_loop catalog ld dr end_time interval_minutes start_time 0 []"

subsection \<open>Quality control\<close>

definition PRODUCT_IDS :: "string list" where
  "PRODUCT_IDS = [''PROD_A001'', ''PROD_B002'', ''PROD_C003'', ''PROD_D004'']"

definition TEST_TYPES :: "string list" where
  "TEST_TYPES = [''dimensional'', ''visual'', ''functional'', ''electrical'']"

definition INSPECTOR_IDS :: "string list" where
  "INSPECTOR_IDS = [''INSP_001'', ''INSP_002'', ''INSP_003'', ''INSP_004'']"

fun decimal :: "nat \<Rightarrow> string" where
  \<comment> \<open>the decimal digits of a number\<close>
  "decimal n =
     (if n < 10 then [''0123456789'' ! n] else decimal (n div 10) @ [''0123456789'' ! (n mod 10)])"

declare decimal.simps [simp del]

definition format_06d :: "nat \<Rightarrow> string" where
  \<comment> \<open>the format \<^verbatim>\<open>:06d\<close>: zeros in front up to six characters\<close>
  "format_06d n = replicate (6 - length (decimal n)) (CHR ''0'') @ decimal n"

definition batch_id_of :: "nat \<Rightarrow> string" where
  \<comment> \<open>\<^verbatim>\<open>f"BATCH_{batch_counter:06d}"\<close>\<close>
  "batch_id_of batch_counter = ''BATCH_'' @ format_06d batch_counter"

record qc_row =
  qc_time :: datetime
  qc_batch_id :: string
  qc_line_id :: string
  qc_product_id :: string
  qc_test_type :: string
  qc_test_result :: string
  qc_measurement :: "real option"
  qc_tolerance_min :: "real option"
  qc_tolerance_max :: "real option"
  qc_inspector_id :: string

record qc_draws =
  qd_test_u :: real
  qd_product :: string
  qd_test_type :: string
  qd_inspector :: string
  qd_result_u :: real
  qd_side_u :: real
  qd_measure_u :: real

definition measurement ::
  "string \<Rightarrow> string \<Rightarrow> real \<Rightarrow> real \<Rightarrow> real option \<times> real option \<times> real option" where
  \<comment> \<open>the measurement and the tolerance band of a test: \<open>side_u\<close> is the draw that picks the
      side of a failing measurement, \<open>u\<close> the draw behind \<^verbatim>\<open>random.uniform\<close>; the ends of the
      sampled interval and the sample are floats\<close>
  "measurement test_type test_result side_u u =
     (if test_type = ''dimensional''
      then (let tolerance_min = 10.0; tolerance_max = 10.5
            in (Some (if test_result = ''pass''
                      then float_uniform (fl (tolerance_min + fl 0.05))
                             (fl (tolerance_max - fl 0.05)) u
                      else if side_u < 0.5
                      then float_uniform (fl (tolerance_min - fl 0.2)) tolerance_min u
                      else float_uniform tolerance_max (fl (tolerance_max + fl 0.2)) u),
                Some tolerance_min, Some tolerance_max))
      else if test_type = ''electrical''
      then (let tolerance_min = 45.0; tolerance_max = 55.0
            in (Some (if test_result = ''pass''
                      then float_uniform (fl (tolerance_min + 1)) (fl (tolerance_max - 1)) u
                      else if side_u < 0.5
                      then float_uniform (fl (tolerance_min - 5)) tolerance_min u
                      else float_uniform tolerance_max (fl (tolerance_max + 5)) u),
                Some tolerance_min, Some tolerance_max))
      else (None, None, None))"

definition qc_record :: "datetime \<Rightarrow> string \<Rightarrow> string \<Rightarrow> qc_draws \<Rightarrow> qc_row" where
  \<comment> \<open>one record of \<^verbatim>\<open>generate_quality_control_data\<close>\<close>
  "qc_record next_test batch_id line_id dr =
     (let product_id = qd_product dr;
          test_type = qd_test_type dr;
          inspector_id = qd_inspector dr;
          test_result = (if qd_result_u dr < fl 0.95 then ''pass'' else ''fail'');
          m = measurement test_type test_result (qd_side_u dr) (qd_measure_u dr)
      in \<lparr>qc_time = next_test, qc_batch_id = batch_id, qc_line_id = line_id,
          qc_product_id = product_id, qc_test_type = test_type, qc_test_result = test_result,
          qc_measurement = fst m, qc_tolerance_min = fst (snd m),
          qc_tolerance_max = snd (snd m), qc_inspector_id = inspector_id\<rparr>)"

definition written_measurement :: "real option \<Rightarrow> real option" where
  \<comment> \<open>\<^verbatim>\<open>round(measurement_value, 2) if measurement_value else None\<close>: the decimal number
      that the file shows\<close>
  "written_measurement m =
     (case m of None \<Rightarrow> None | Some v \<Rightarrow> if v = 0 then None else Some (py_round v 2))"

definition qc_record_csv :: "datetime \<Rightarrow> string \<Rightarrow> string \<Rightarrow> qc_draws \<Rightarrow> qc_row" where
  \<comment> \<open>one record of \<^verbatim>\<open>generate_quality_control_csv\<close>: the measurement is written rounded\<close>
  "qc_record_csv next_test batch_id line_id dr =
     (let product_id = qd_product dr;
          test_type = qd_test_type dr;
          inspector_id = qd_inspector dr;
          test_result = (if qd_result_u dr < fl 0.95 then ''pass'' else ''fail'');
          m = measurement test_type test_result (qd_side_u dr) (qd_measure_u dr)
      in \<lparr>qc_time = next_test, qc_batch_id = batch_id, qc_line_id = line_id,
          qc_product_id = product_id, qc_test_type = test_type, qc_test_result = test_result,
          qc_measurement = written_measurement (fst m), qc_tolerance_min = fst (snd m),
          qc_tolerance_max = snd (snd m), qc_inspector_id = inspector_id\<rparr>)"

fun qc_lines ::
  "datetime \<Rightarrow> string list \<Rightarrow> (nat \<Rightarrow> qc_draws) \<Rightarrow> nat \<Rightarrow> nat \<Rightarrow> nat \<times> qc_row list" where
  \<comment> \<open>\<^verbatim>\<open>for line_id in LINES\<close> at one test time: the batch counter goes in and comes out;
      \<open>dr i\<close> are the draws for the \<open>i\<close>-th line\<close>
  "qc_lines next_test [] dr i batch_counter = (batch_counter, [])"
| "qc_lines next_test (line_id # ls) dr i batch_counter =
     (if qd_test_u (dr i) < fl 0.7
      then (let row = qc_record next_test (batch_id_of batch_counter) line_id (dr i);
                rest = qc_lines next_test ls dr (Suc i) (batch_counter + 1)
            in (fst rest, row # snd rest))
      else qc_lines next_test ls dr (Suc i) batch_counter)"

partial_function (option) qc_loop ::
  "datetime \<Rightarrow> (nat \<Rightarrow> int) \<Rightarrow> (nat \<Rightarrow> nat \<Rightarrow> qc_draws) \<Rightarrow> datetime \<Rightarrow> nat \<Rightarrow> nat
   \<Rightarrow> qc_row list \<Rightarrow> qc_row list option" where
  \<comment> \<open>\<open>gap k\<close> is the outcome of \<^verbatim>\<open>random.randint(30, 180)\<close> in the \<open>k\<close>-th pass\<close>
  "qc_loop end_time gap dr current_time batch_counter k data =
     (if current_time \<le> end_time
      then (if current_time + timedelta 0 0 (gap k) > end_time then Some data
            else qc_loop end_time gap dr (current_time + timedelta 0 0 (gap k))
                   (fst (qc_lines (current_time + timedelta 0 0 (gap k)) LINES (dr k) 0
                           batch_counter))
                   (Suc k)
                   (data @ snd (qc_lines (current_time + timedelta 0 0 (gap k)) LINES (dr k) 0
                                  batch_counter)))
      else Some data)"

definition generate_quality_control_data ::
  "(nat \<Rightarrow> int) \<Rightarrow> (nat \<Rightarrow> nat \<Rightarrow> qc_draws) \<Rightarrow> datetime \<Rightarrow> datetime \<Rightarrow> qc_row list option" where
  "generate_quality_control_data gap dr start_time end_time =
     qc_loop end_time gap dr start_time 1000 0 []"

subsection \<open>Maintenance events\<close>

definition TECHNICIAN_IDS :: "string list" where
  "TECHNICIAN_IDS = [''TECH_001'', ''TECH_002'', ''TECH_003'', ''TECH_004'', ''TECH_005'']"

record maint_row =
  mt_time :: datetime
  mt_equipment_id :: string
  mt_event_type :: string
  mt_maintenance_type :: string
  mt_duration :: real
  mt_cost :: real
  mt_technician_id :: string
  mt_description :: string
  mt_parts_replaced :: "string list option"

record fault_draws =
  fd_trial_u :: real
  fd_hour :: int
  fd_day :: int
  fd_duration_u :: real
  fd_cost_u :: real
  fd_technician :: string
  fd_fault_desc :: string
  fd_parts_u :: real
  fd_parts :: "string list"

record 'i pass_draws =
  ps_interval :: int
  ps_duration_u :: real
  ps_cost_u :: real
  ps_technician :: string
  ps_parts_u :: real
  ps_faults :: "'i \<Rightarrow> fault_draws"

definition preventive_event :: "datetime \<Rightarrow> string \<Rightarrow> 'i pass_draws \<Rightarrow> maint_row" where
  "preventive_event maint_time equipment_id ps =
     (let duration = uniform 2 6 (ps_duration_u ps);
          cost = uniform 500 2000 (ps_cost_u ps);
          technician = ps_technician ps;
          description = ''Scheduled preventive maintenance for '' @ equipment_id;
          parts = (if ps_parts_u ps < fl 0.7 then Some [''filters'', ''lubricants''] else None)
      in \<lparr>mt_time = maint_time, mt_equipment_id = equipment_id, mt_event_type = ''scheduled'',
          mt_maintenance_type = ''preventive'', mt_duration = py_round duration 1,
          mt_cost = py_round cost 2, mt_technician_id = technician,
          mt_description = description, mt_parts_replaced = parts\<rparr>)"

definition corrective_event :: "datetime \<Rightarrow> string \<Rightarrow> fault_draws \<Rightarrow> maint_row" where
  "corrective_event fault_time equipment_id fd =
     (let duration = uniform 1 8 (fd_duration_u fd);
          cost = uniform 200 5000 (fd_cost_u fd);
          technician = fd_technician fd;
          description = ''Unscheduled repair: '' @ fd_fault_desc fd;
          parts = (if fd_parts_u fd < fl 0.8 then Some (fd_parts fd) else None)
      in \<lparr>mt_time = fault_time, mt_equipment_id = equipment_id, mt_event_type = ''unscheduled'',
          mt_maintenance_type = ''corrective'', mt_duration = py_round duration 1,
          mt_cost = py_round cost 2, mt_technician_id = technician,
          mt_description = description, mt_parts_replaced = parts\<rparr>)"

definition trial_days :: "datetime \<Rightarrow> datetime \<Rightarrow> int list" where
  \<comment> \<open>\<^verbatim>\<open>range(days_passed, days_passed + 30)\<close>\<close>
  "trial_days start_time current_time =
     (let days_passed = td_days (current_time - start_time)
      in [days_passed..days_passed + 29])"

definition fault_scan ::
  "datetime \<Rightarrow> datetime \<Rightarrow> string \<Rightarrow> datetime \<Rightarrow> (int \<Rightarrow> fault_draws) \<Rightarrow> maint_row list" where
  \<comment> \<open>the loop over the days of one pass; \<open>fd day\<close> are the draws of the trial of \<open>day\<close>\<close>
  "fault_scan start_time end_time equipment_id current_time fd =
     concat (map (\<lambda>day.
                    if fd_trial_u (fd day) < fl 0.02
                    then (let fault_time = start_time + timedelta day (fd_hour (fd day)) 0
                          in if fault_time \<le> end_time
                             then [corrective_event fault_time equipment_id (fd day)] else [])
                    else [])
               (trial_days start_time current_time))"

definition pass_events ::
  "datetime \<Rightarrow> datetime \<Rightarrow> string \<Rightarrow> datetime \<Rightarrow> int pass_draws \<Rightarrow> maint_row list" where
  \<comment> \<open>the events of one pass of the \<^verbatim>\<open>while\<close> loop of \<^verbatim>\<open>generate_maintenance_events\<close>\<close>
  "pass_events start_time end_time equipment_id current_time ps =
     (let maint_time = current_time + timedelta (ps_interval ps) 0 0
      in (if maint_time \<le> end_time then [preventive_event maint_time equipment_id ps] else [])
         @ fault_scan start_time end_time equipment_id current_time (ps_faults ps))"

partial_function (option) maint_loop ::
  "datetime \<Rightarrow> datetime \<Rightarrow> string \<Rightarrow> (nat \<Rightarrow> int pass_draws) \<Rightarrow> datetime \<Rightarrow> nat
   \<Rightarrow> maint_row list \<Rightarrow> maint_row list option" where
  "maint_loop start_time end_time equipment_id ps current_time k data =
     (if current_time \<le> end_time
      then maint_loop start_time end_time equipment_id ps
             (current_time + timedelta (ps_interval (ps k)) 0 0) (Suc k)
             (data @ pass_events start_time end_time equipment_id current_time (ps k))
      else Some data)"

fun maint_all ::
  "datetime \<Rightarrow> datetime \<Rightarrow> string list \<Rightarrow> (nat \<Rightarrow> nat \<Rightarrow> int pass_draws) \<Rightarrow> nat
   \<Rightarrow> maint_row list \<Rightarrow> maint_row list option" where
  \<comment> \<open>\<^verbatim>\<open>for equipment_id in EQUIPMENT_IDS\<close>; \<open>ps j\<close> are the draws for the \<open>j\<close>-th equipment\<close>
  "maint_all start_time end_time [] ps j data = Some data"
| "maint_all start_time end_time (equipment_id # ids) ps j data =
     (case maint_loop start_time end_time equipment_id (ps j) start_time 0 data of
        None \<Rightarrow> None
      | Some data' \<Rightarrow> maint_all start_time end_time ids ps (Suc j) data')"

definition generate_maintenance_events ::
  "string list \<Rightarrow> (nat \<Rightarrow> nat \<Rightarrow> int pass_draws) \<Rightarrow> datetime \<Rightarrow> datetime
   \<Rightarrow> maint_row list option" where
  "generate_maintenance_events ids ps start_time end_time =
     maint_all start_time end_time ids ps 0 []"

text \<open>
  The CSV variant schedules the preventive events in the same way; its unscheduled events
  come from four weekly trials, each placed at a random day of its week. Its parts column is
  a text, modelled here by the list it spells.
\<close>

definition corrective_event_csv :: "datetime \<Rightarrow> string \<Rightarrow> fault_draws \<Rightarrow> maint_row" where
  "corrective_event_csv fault_time equipment_id fd =
     (let duration = uniform 1 8 (fd_duration_u fd);
          cost = uniform 200 5000 (fd_cost_u fd);
          technician = fd_technician fd;
          description = ''Unscheduled repair: '' @ fd_fault_desc fd;
          parts = Some (fd_parts fd)
      in \<lparr>mt_time = fault_time, mt_equipment_id = equipment_id, mt_event_type = ''unscheduled'',
          mt_maintenance_type = ''corrective'', mt_duration = py_round duration 1,
          mt_cost = py_round cost 2, mt_technician_id = technician,
          mt_description = description, mt_parts_replaced = parts\<rparr>)"

definition fault_scan_csv ::
  "datetime \<Rightarrow> string \<Rightarrow> datetime \<Rightarrow> (nat \<Rightarrow> fault_draws) \<Rightarrow> maint_row list" where
  \<comment> \<open>\<^verbatim>\<open>for week in range(4)\<close>: \<open>week_start\<close> is \<open>current_time\<close> plus \<open>week\<close> weeks\<close>
  "fault_scan_csv end_time equipment_id current_time fd =
     concat (map (\<lambda>week.
                    if fd_trial_u (fd week) < fl 0.02
                    then (let week_start = current_time + timedelta (7 * int week) 0 0;
                              fault_time = week_start
                                + timedelta (fd_day (fd week)) (fd_hour (fd week)) 0
                          in if fault_time \<le> end_time
                             then [corrective_event_csv fault_time equipment_id (fd week)]
                             else [])
                    else [])
               [0..<4])"

definition pass_events_csv ::
  "datetime \<Rightarrow> string \<Rightarrow> datetime \<Rightarrow> nat pass_draws \<Rightarrow> maint_row list" where
  "pass_events_csv end_time equipment_id current_time ps =
     (let maint_time = current_time + timedelta (ps_interval ps) 0 0
      in (if maint_time \<le> end_time then [preventive_event maint_time equipment_id ps] else [])
         @ fault_scan_csv end_time equipment_id current_time (ps_faults ps))"

partial_function (option) maint_loop_csv ::
  "datetime \<Rightarrow> string \<Rightarrow> (nat \<Rightarrow> nat pass_draws) \<Rightarrow> datetime \<Rightarrow> nat
   \<Rightarrow> maint_row list \<Rightarrow> maint_row list option" where
  "maint_loop_csv end_time equipment_id ps current_time k data =
     (if current_time \<le> end_time
      then maint_loop_csv end_time equipment_id ps
             (current_time + timedelta (ps_interval (ps k)) 0 0) (Suc k)
             (data @ pass_events_csv end_time equipment_id current_time (ps k))
      else Some data)"

fun maint_all_csv ::
  "datetime \<Rightarrow> datetime \<Rightarrow> string list \<Rightarrow> (nat \<Rightarrow> nat \<Rightarrow> nat pass_draws) \<Rightarrow> nat
   \<Rightarrow> maint_row list \<Rightarrow> maint_row list option" where
  "maint_all_csv start_time end_time [] ps j data = Some data"
| "maint_all_csv start_time end_time (equipment_id # ids) ps j data =
     (case maint_loop_csv end_time equipment_id (ps j) start_time 0 data of
        None \<Rightarrow> None
      | Some data' \<Rightarrow> maint_all_csv start_time end_time ids ps (Suc j) data')"

definition generate_maintenance_events_csv ::
  "string list \<Rightarrow> (nat \<Rightarrow> nat \<Rightarrow> nat pass_draws) \<Rightarrow> datetime \<Rightarrow> maint_row list option" where
  \<comment> \<open>\<open>end_time\<close> is \<^verbatim>\<open>datetime.now()\<close>; the window is the 90 days before it\<close>
  "generate_maintenance_events_csv ids ps end_time =
     maint_all_csv (end_time - timedelta 90 0 0) end_time ids ps 0 []"

subsection \<open>Definitions used to state the properties\<close>




definition tick_count :: "datetime \<Rightarrow> datetime \<Rightarrow> int \<Rightarrow> nat" where
  \<comment> \<open>the number of ticks from \<open>current_time\<close> up to and including \<open>end_time\<close>\<close>
  "tick_count current_time end_time interval_minutes =
     (if current_time \<le> end_time
      then nat ((end_time - current_time) div timedelta 0 0 interval_minutes + 1) else 0)"

definition readings_per_tick :: "string \<times> config \<Rightarrow> nat" where
  \<comment> \<open>temperature and vibration, pressure when the profile has a range, humidity for the HVAC unit\<close>
  "readings_per_tick p =
     2 + (case pressure (snd p) of None \<Rightarrow> 0 | Some pr \<Rightarrow> 1)
       + (if fst p = ''HVAC_001'' then 1 else 0)"

definition row_of ::
  "(string \<times> config) list \<Rightarrow> state list \<Rightarrow> (nat \<Rightarrow> nat \<Rightarrow> reading_draws) \<Rightarrow> datetime
   \<Rightarrow> sensor_row \<Rightarrow> bool" where
  \<comment> \<open>\<open>r\<close> is a reading of some equipment of the catalog at some tick\<close>
  "row_of c sts dr s r =
     (\<exists>t i j. j < length c \<and>
        r \<in> set (equipment_readings s t (fst (c ! j)) (snd (c ! j)) (sts ! j) (dr i j)))"

definition example_motor :: "string \<times> config" where
  "example_motor = (''MOTOR_001'', mk_config ''motor'' ''Line 1'' (45, 75) (2, 12) None)"

definition example_pump :: "string \<times> config" where
  "example_pump = (''PUMP_001'', mk_config ''pump'' ''Line 1'' (40, 65) (5, 18) (Some (180, 240)))"

definition example_hvac :: "string \<times> config" where
  "example_hvac = (''HVAC_001'', mk_config ''hvac'' ''Factory Floor'' (18, 24) (1, 4) None)"

definition example_draws :: "real \<Rightarrow> real \<Rightarrow> reading_draws" where
  \<comment> \<open>draws with the given temperature and pressure variates and no other noise\<close>
  "example_draws tz pz = \<lparr>temp_z = tz, vib_z = 0, pressure_z = pz, humidity_u = 0\<rparr>"

definition saturday :: datetime where
  \<comment> \<open>0001-01-06 00:00:00\<close>
  "saturday = timedelta 5 0 0"

definition production_ok :: "production_row \<Rightarrow> bool" where
  \<comment> \<open>the invariant of a production record\<close>
  "production_ok r =
     (0 \<le> pm_efficiency_score r \<and> pm_efficiency_score r \<le> 100
      \<and> 0 \<le> pm_downtime_duration r \<and> 0 \<le> pm_defect_rate r)"

definition example_prod_draws :: "real \<Rightarrow> prod_draws" where
  \<comment> \<open>every draw in the middle of its range, the downtime trial as given\<close>
  "example_prod_draws trigger =
     \<lparr>pd_cycle_u = 0.5, pd_throughput_u = 0.5, pd_efficiency_u = 0.5, pd_energy_u = 0.5,
      pd_downtime_trigger_u = trigger, pd_downtime_u = 0.5, pd_defect_u = 0.5\<rparr>"

definition example_line_draws :: line_draws where
  "example_line_draws = \<lparr>ld_efficiency_u = 0.5, ld_throughput_u = 0.5\<rparr>"

definition band_test :: "(real \<Rightarrow> real \<Rightarrow> real \<Rightarrow> bool) \<Rightarrow> qc_row \<Rightarrow> bool" where
  \<comment> \<open>the record has a measurement and a tolerance band, and they satisfy \<open>P\<close>\<close>
  "band_test P r =
     (case (qc_measurement r, qc_tolerance_min r, qc_tolerance_max r) of
        (Some m, Some lo, Some hi) \<Rightarrow> P m lo hi
      | _ \<Rightarrow> False)"

definition strictly_within :: "qc_row \<Rightarrow> bool" where
  "strictly_within = band_test (\<lambda>m lo hi. lo < m \<and> m < hi)"

definition strictly_outside :: "qc_row \<Rightarrow> bool" where
  "strictly_outside = band_test (\<lambda>m lo hi. m < lo \<or> hi < m)"

definition not_inside :: "qc_row \<Rightarrow> bool" where
  \<comment> \<open>at an end of the band or outside it\<close>
  "not_inside = band_test (\<lambda>m lo hi. m \<le> lo \<or> hi \<le> m)"

definition example_qc_draws :: "string \<Rightarrow> real \<Rightarrow> real \<Rightarrow> real \<Rightarrow> qc_draws" where
  \<comment> \<open>a test of the given type that takes place, with the given outcome, side and
      measurement draws\<close>
  "example_qc_draws ty result_u side_u u =
     \<lparr>qd_test_u = 0, qd_product = ''PROD_A001'', qd_test_type = ty, qd_inspector = ''INSP_001'',
      qd_result_u = result_u, qd_side_u = side_u, qd_measure_u = u\<rparr>"

definition digit_val :: "char \<Rightarrow> nat" where
  \<comment> \<open>the value of a decimal digit\<close>
  "digit_val c = of_char c - 48"

definition parse_digits :: "nat \<Rightarrow> string \<Rightarrow> nat" where
  "parse_digits acc s = foldl (\<lambda>a c. 10 * a + digit_val c) acc s"

definition batch_number :: "string \<Rightarrow> nat" where
  \<comment> \<open>the counter a batch id spells after its prefix \<^verbatim>\<open>BATCH_\<close>\<close>
  "batch_number batch_id = parse_digits 0 (drop 6 batch_id)"

definition example_gap :: "nat \<Rightarrow> int" where
  \<comment> \<open>every test follows the one before after 60 minutes\<close>
  "example_gap k = 60"

definition preventive_times :: "maint_row list \<Rightarrow> datetime list" where
  \<comment> \<open>the timestamps of the preventive events, in emission order\<close>
  "preventive_times rows =
     map mt_time (filter (\<lambda>r. mt_maintenance_type r = ''preventive'') rows)"

definition events_of :: "string \<Rightarrow> maint_row list \<Rightarrow> maint_row list" where
  \<comment> \<open>the events of one equipment, in emission order\<close>
  "events_of equipment_id rows = filter (\<lambda>r. mt_equipment_id r = equipment_id) rows"

definition gap_ok :: "datetime \<Rightarrow> datetime \<Rightarrow> bool" where
  \<comment> \<open>the second time is between 28 and 35 days after the first\<close>
  "gap_ok a b = (timedelta 28 0 0 \<le> b - a \<and> b - a \<le> timedelta 35 0 0)"

definition chain_from :: "datetime \<Rightarrow> maint_row list \<Rightarrow> bool" where
  \<comment> \<open>consecutive preventive events are 28 to 35 days apart, and so is the first one from
      the cursor\<close>
  "chain_from current_time rows =
     (successively gap_ok (preventive_times rows)
      \<and> (preventive_times rows \<noteq> [] \<longrightarrow> gap_ok current_time (hd (preventive_times rows))))"

definition pass_row ::
  "datetime \<Rightarrow> datetime \<Rightarrow> string \<Rightarrow> (nat \<Rightarrow> int pass_draws) \<Rightarrow> maint_row \<Rightarrow> bool" where
  \<comment> \<open>\<open>r\<close> is an event of a pass whose cursor is the start time plus whole days\<close>
  "pass_row s e eq ps r =
     (\<exists>n k. r \<in> set (pass_events s e eq (s + timedelta n 0 0) (ps k)))"

definition example_faults :: "int \<Rightarrow> int \<Rightarrow> fault_draws" where
  \<comment> \<open>the trial of \<open>hit_day\<close> succeeds and places the fault at 8 o'clock, no other trial
      succeeds\<close>
  "example_faults hit_day day =
     \<lparr>fd_trial_u = (if day = hit_day then 0 else 1 / 2), fd_hour = 8, fd_day = 0,
      fd_duration_u = 0, fd_cost_u = 0, fd_technician = ''TECH_001'',
      fd_fault_desc = ''bearing failure'', fd_parts_u = 0, fd_parts = [''bearings'', ''seals'']\<rparr>"

definition example_pass :: "nat \<Rightarrow> int pass_draws" where
  \<comment> \<open>every preventive interval is 28 days; in the first pass the trial of day 29 succeeds\<close>
  "example_pass k =
     \<lparr>ps_interval = 28, ps_duration_u = 0, ps_cost_u = 0, ps_technician = ''TECH_001'',
      ps_parts_u = 0, ps_faults = (if k = 0 then example_faults 29 else example_faults (- 1))\<rparr>"

definition example_pass_csv :: "nat \<Rightarrow> nat pass_draws" where
  \<comment> \<open>every preventive interval is 30 days and no weekly trial succeeds\<close>
  "example_pass_csv k =
     \<lparr>ps_interval = 30, ps_duration_u = 0, ps_cost_u = 0, ps_technician = ''TECH_001'',
      ps_parts_u = 0, ps_faults = (\<lambda>week. example_faults (- 1) 0)\<rparr>"

section \<open>Floats\<close>

subsection \<open>Rounding to the nearest float\<close>

lemma ilog2_bounds: "0 < n \<Longrightarrow> 2 ^ ilog2 n \<le> n \<and> n < 2 ^ Suc (ilog2 n)"
proof (induction n rule: ilog2.induct)
  case (1 n)
  show ?case
  proof (cases "n < 2")
    case True
    with 1(2) show ?thesis by (subst (1 2) ilog2.simps) simp
  next
    case False
    then have "0 < n div 2" by simp
    with 1(1) False have "2 ^ ilog2 (n div 2) \<le> n div 2 \<and> n div 2 < 2 ^ Suc (ilog2 (n div 2))"
      by simp
    then show ?thesis using False by (subst (1 2) ilog2.simps) auto
  qed
qed

lemma exponent_bounds:
  assumes "x \<noteq> 0"
  shows "2 powi exponent x \<le> \<bar>x\<bar>" "\<bar>x\<bar> < 2 powi (exponent x + 1)"
proof -
  let ?a = "\<bar>x\<bar>"
  have pos: "0 < ?a" using assms by simp
  have "2 powi exponent x \<le> ?a \<and> ?a < 2 powi (exponent x + 1)"
  proof (cases "1 \<le> ?a")
    case True
    let ?n = "nat \<lfloor>?a\<rfloor>"
    have n: "0 < ?n" using True by simp
    have e: "exponent x = int (ilog2 ?n)" using True by (simp add: exponent_def)
    from ilog2_bounds [OF n] have b: "2 ^ ilog2 ?n \<le> ?n" "?n < 2 ^ Suc (ilog2 ?n)" by simp_all
    have fn: "0 \<le> \<lfloor>?a\<rfloor>" using True by simp
    have rn: "real ?n = of_int \<lfloor>?a\<rfloor>" using fn by (simp only: of_nat_nat)
    have "real ?n \<le> ?a" unfolding rn by (rule of_int_floor_le)
    moreover have "real (2 ^ ilog2 ?n) \<le> real ?n" using b(1) by (rule iffD2 [OF of_nat_le_iff])
    ultimately have "real (2 ^ ilog2 ?n) \<le> ?a" by (rule order_trans [rotated])
    then have lo: "2 ^ ilog2 ?n \<le> ?a" by simp
    have "?n + 1 \<le> 2 ^ Suc (ilog2 ?n)" using b(2) by simp
    then have "real (?n + 1) \<le> real (2 ^ Suc (ilog2 ?n))" by (rule iffD2 [OF of_nat_le_iff])
    moreover have "?a < real (?n + 1)" using rn by simp linarith
    ultimately have "?a < real (2 ^ Suc (ilog2 ?n))" by (rule order_less_le_trans [rotated])
    then have hi: "?a < 2 ^ Suc (ilog2 ?n)" by simp
    show ?thesis unfolding e using lo hi by (simp add: power_int_add)
  next
    case False
    let ?c = "\<lceil>1 / ?a\<rceil>"
    let ?n = "nat (?c - 1)"
    let ?k = "Suc (ilog2 ?n)"
    have inv: "1 < 1 / ?a" using False pos by simp
    then have c: "2 \<le> ?c" by linarith
    then have n: "0 < ?n" by simp
    have e: "exponent x = - int ?k" using False by (simp add: exponent_def)
    from ilog2_bounds [OF n] have b: "2 ^ ilog2 ?n \<le> ?n" "?n < 2 ^ ?k" by simp_all
    have c1: "0 \<le> ?c - 1" using c by linarith
    have "real ?n = of_int (?c - 1)" using c1 by (simp only: of_nat_nat)
    then have rn: "real ?n = of_int ?c - 1" by (simp only: of_int_diff of_int_1)
    have "real ?n < 1 / ?a" unfolding rn by linarith
    moreover have "real (2 ^ ilog2 ?n) \<le> real ?n" using b(1) by (rule iffD2 [OF of_nat_le_iff])
    ultimately have "real (2 ^ ilog2 ?n) < 1 / ?a" by (rule order_le_less_trans [rotated])
    then have "2 ^ ilog2 ?n < 1 / ?a" by simp
    then have "?a * 2 ^ ilog2 ?n < 1" using pos by (simp add: field_simps)
    then have hi: "?a < 1 / 2 ^ ilog2 ?n" by (simp add: field_simps)
    have "?n + 1 \<le> 2 ^ ?k" using b(2) by simp
    then have "real (?n + 1) \<le> real (2 ^ ?k)" by (rule iffD2 [OF of_nat_le_iff])
    moreover have "1 / ?a \<le> real (?n + 1)" using rn by simp
    ultimately have "1 / ?a \<le> real (2 ^ ?k)" by (rule order_trans [rotated])
    then have "1 / ?a \<le> 2 ^ ?k" by simp
    then have "1 \<le> ?a * 2 ^ ?k" using pos by (simp add: field_simps)
    then have lo: "1 / 2 ^ ?k \<le> ?a" by (simp add: field_simps)
    have p1: "(2 :: real) powi (- int ?k) = 1 / 2 ^ ?k"
      by (simp only: power_int_minus_divide power_int_of_nat)
    have "- int ?k + 1 = - int (ilog2 ?n)" by simp
    then have p2: "(2 :: real) powi (- int ?k + 1) = 1 / 2 ^ ilog2 ?n"
      by (simp only: power_int_minus_divide power_int_of_nat)
    show ?thesis unfolding e p1 p2 using lo hi by simp
  qed
  then show "2 powi exponent x \<le> \<bar>x\<bar>" "\<bar>x\<bar> < 2 powi (exponent x + 1)" by simp_all
qed

lemma powi_strict_mono: "(2 :: real) powi a < 2 powi b \<Longrightarrow> a < b"
  using power_int_increasing [of b a "2 :: real"] by (cases "a < b") simp_all

lemma exponent_eqI:
  assumes "2 powi e \<le> \<bar>x\<bar>" "\<bar>x\<bar> < 2 powi (e + 1)"
  shows "exponent x = e"
proof -
  have "0 < (2 :: real) powi e" by simp
  also note assms(1)
  finally have x: "x \<noteq> 0" by simp
  from exponent_bounds [OF x] assms
  have l: "(2 :: real) powi e < 2 powi (exponent x + 1)"
    and u: "(2 :: real) powi exponent x < 2 powi (e + 1)"
    by linarith+
  from powi_strict_mono [OF l] powi_strict_mono [OF u] show ?thesis by simp
qed


lemma rhe_ge: "of_int k \<le> y \<Longrightarrow> k \<le> round_half_even y"
  unfolding round_half_even_def Let_def
  by (auto simp: le_floor_iff; linarith)

lemma rhe_le: "y \<le> of_int k \<Longrightarrow> round_half_even y \<le> k"
  unfolding round_half_even_def Let_def
  by (auto; linarith)

lemma rhe_eqI:
  assumes "\<bar>y - of_int n\<bar> < 1 / 2 \<or> \<bar>y - of_int n\<bar> = 1 / 2 \<and> even n"
  shows "round_half_even y = n"
proof -
  from assms have b: "of_int n - 1 / 2 \<le> y" "y \<le> of_int n + 1 / 2" by linarith+
  from assms have t: "y = of_int n - 1 / 2 \<or> y = of_int n + 1 / 2 \<Longrightarrow> even n" by linarith
  have "\<lfloor>y\<rfloor> = n \<or> \<lfloor>y\<rfloor> = n - 1 \<or> \<lfloor>y\<rfloor> = n + 1" using b by linarith
  then consider "\<lfloor>y\<rfloor> = n" | "\<lfloor>y\<rfloor> = n - 1" | "\<lfloor>y\<rfloor> = n + 1" by blast
  then show ?thesis
  proof cases
    case 1
    have "y - of_int n < 1 / 2 \<or> y = of_int n + 1 / 2" using b by linarith
    then show ?thesis using t unfolding round_half_even_def Let_def 1 by auto
  next
    case 2
    have "of_int \<lfloor>y\<rfloor> \<le> y" by (rule of_int_floor_le)
    then have "of_int n - 1 \<le> y" unfolding 2 by simp
    have "1 / 2 < y - of_int (n - 1) \<or> y = of_int n - 1 / 2" using b by simp linarith
    then show ?thesis using t unfolding round_half_even_def Let_def 2 by auto
  next
    case 3
    have "of_int \<lfloor>y\<rfloor> \<le> y" by (rule of_int_floor_le)
    then have "of_int n + 1 \<le> y" unfolding 3 by simp
    with b show ?thesis by linarith
  qed
qed

lemma rhe_mono: "a \<le> b \<Longrightarrow> round_half_even a \<le> round_half_even b"
proof -
  assume ab: "a \<le> b"
  then have f: "\<lfloor>a\<rfloor> \<le> \<lfloor>b\<rfloor>" by (rule floor_mono)
  show ?thesis
  proof (cases "\<lfloor>a\<rfloor> = \<lfloor>b\<rfloor>")
    case True
    then show ?thesis using ab unfolding round_half_even_def Let_def by auto
  next
    case False
    with f have "\<lfloor>a\<rfloor> + 1 \<le> \<lfloor>b\<rfloor>" by simp
    moreover have "round_half_even a \<le> \<lfloor>a\<rfloor> + 1"
      unfolding round_half_even_def Let_def by auto
    moreover have "\<lfloor>b\<rfloor> \<le> round_half_even b"
      unfolding round_half_even_def Let_def by auto
    ultimately show ?thesis by linarith
  qed
qed

lemma fl_zero: "fl 0 = 0"
  by (simp add: fl_def)

lemma fl_bounds:
  assumes "0 < x"
  shows "2 powi exponent x \<le> fl x" "fl x \<le> 2 powi (exponent x + 1)"
proof -
  let ?e = "exponent x"
  let ?q = "(2 :: real) powi (?e - 52)"
  have q: "0 < ?q" by simp
  have x: "x \<noteq> 0" "\<bar>x\<bar> = x" using assms by simp_all
  from exponent_bounds [OF x(1)] have b: "2 powi ?e \<le> x" "x < 2 powi (?e + 1)"
    unfolding x(2) by simp_all
  have f: "fl x = of_int (round_half_even (x / ?q)) * ?q"
    using x(1) by (simp add: fl_def Let_def)
  have e1: "(2 :: real) powi ?e = 2 ^ 52 * ?q"
    using power_int_add [of "2 :: real" 52 "?e - 52"] by simp
  have "53 + (?e - 52) = ?e + 1" by simp
  then have e2: "(2 :: real) powi (?e + 1) = 2 ^ 53 * ?q"
    using power_int_add [of "2 :: real" 53 "?e - 52"] by (simp add: add.commute)
  have "2 ^ 52 * ?q \<le> x" using b(1) unfolding e1 .
  then have "2 ^ 52 \<le> x / ?q" using q by (simp add: field_simps)
  then have "real_of_int (2 ^ 52) \<le> x / ?q" by simp
  then have "2 ^ 52 \<le> round_half_even (x / ?q)" by (rule rhe_ge)
  then have "real_of_int (2 ^ 52) \<le> of_int (round_half_even (x / ?q))"
    by (rule iffD2 [OF of_int_le_iff])
  then have "real_of_int (2 ^ 52) * ?q \<le> of_int (round_half_even (x / ?q)) * ?q"
    using q by (simp only: mult_le_cancel_right_pos)
  then show "2 powi ?e \<le> fl x" unfolding f e1 by simp
  have "x \<le> 2 ^ 53 * ?q" using b(2) unfolding e2 by simp
  then have "x / ?q \<le> 2 ^ 53" using q by (simp add: field_simps)
  then have "x / ?q \<le> real_of_int (2 ^ 53)" by simp
  then have "round_half_even (x / ?q) \<le> 2 ^ 53" by (rule rhe_le)
  then have "of_int (round_half_even (x / ?q)) \<le> real_of_int (2 ^ 53)"
    by (rule iffD2 [OF of_int_le_iff])
  then have "of_int (round_half_even (x / ?q)) * ?q \<le> real_of_int (2 ^ 53) * ?q"
    using q by (simp only: mult_le_cancel_right_pos)
  then show "fl x \<le> 2 powi (?e + 1)" unfolding f e2 by simp
qed

lemma fl_nonneg: "0 \<le> x \<Longrightarrow> 0 \<le> fl x"
proof (cases "x = 0")
  case True
  then show ?thesis by (simp add: fl_zero)
next
  case False
  assume "0 \<le> x"
  with False have "0 < x" by simp
  from fl_bounds(1) [OF this] have "2 powi exponent x \<le> fl x" .
  moreover have "0 < (2 :: real) powi exponent x" by simp
  ultimately show ?thesis by linarith
qed

lemma fl_mono:
  assumes "0 \<le> x" "x \<le> y"
  shows "fl x \<le> fl y"
proof (cases "x = 0")
  case True
  then show ?thesis using assms fl_nonneg [of y] by (simp add: fl_zero)
next
  case False
  with assms have x: "0 < x" and y: "0 < y" by simp_all
  have ax: "\<bar>x\<bar> = x" and ay: "\<bar>y\<bar> = y" using x y by simp_all
  from x y have nz: "x \<noteq> 0" "y \<noteq> 0" by simp_all
  from exponent_bounds [OF nz(1)] have bx: "2 powi exponent x \<le> x" unfolding ax by simp
  from exponent_bounds [OF nz(2)] have "y < 2 powi (exponent y + 1)" unfolding ay by simp
  with bx assms(2) have "(2 :: real) powi exponent x < 2 powi (exponent y + 1)" by linarith
  then have le: "exponent x \<le> exponent y" using powi_strict_mono by fastforce
  show ?thesis
  proof (cases "exponent x = exponent y")
    case True
    let ?q = "(2 :: real) powi (exponent y - 52)"
    have q: "0 < ?q" by simp
    have "x / ?q \<le> y / ?q" using assms(2) q by (simp add: divide_right_mono)
    then have "round_half_even (x / ?q) \<le> round_half_even (y / ?q)" by (rule rhe_mono)
    then have "real_of_int (round_half_even (x / ?q)) \<le> of_int (round_half_even (y / ?q))"
      by (rule iffD2 [OF of_int_le_iff])
    then have "of_int (round_half_even (x / ?q)) * ?q \<le> of_int (round_half_even (y / ?q)) * ?q"
      using q by (simp only: mult_le_cancel_right_pos)
    then show ?thesis using nz True by (simp add: fl_def Let_def)
  next
    case False
    with le have "exponent x + 1 \<le> exponent y" by simp
    then have "(2 :: real) powi (exponent x + 1) \<le> 2 powi exponent y"
      by (rule power_int_increasing) simp
    with fl_bounds(2) [OF x] fl_bounds(1) [OF y] show ?thesis by linarith
  qed
qed

lemma fl_valueI:
  assumes "2 ^ 52 \<le> \<bar>x\<bar> * 2 ^ k" "\<bar>x\<bar> * 2 ^ k < 2 ^ 53"
    and "\<bar>x * 2 ^ k - of_int n\<bar> < 1 / 2
      \<or> \<bar>x * 2 ^ k - of_int n\<bar> = 1 / 2 \<and> even n"
  shows "fl x = of_int n / 2 ^ k"
proof -
  let ?e = "52 - int k"
  have q: "(2 :: real) powi (- int k) = 1 / 2 ^ k"
    by (simp add: power_int_minus_divide)
  have e1: "(2 :: real) powi ?e * 2 ^ k = 2 ^ 52"
    using power_int_add [of "2 :: real" ?e "int k"] by simp
  have e2: "(2 :: real) powi (?e + 1) * 2 ^ k = 2 ^ 53"
    using power_int_add [of "2 :: real" "?e + 1" "int k"] by simp
  have "2 powi ?e * 2 ^ k \<le> \<bar>x\<bar> * 2 ^ k" unfolding e1 by (rule assms(1))
  then have l: "2 powi ?e \<le> \<bar>x\<bar>" by simp
  have "\<bar>x\<bar> * 2 ^ k < 2 powi (?e + 1) * 2 ^ k" unfolding e2 by (rule assms(2))
  then have u: "\<bar>x\<bar> < 2 powi (?e + 1)" by simp
  from exponent_eqI [OF l u] have e: "exponent x = ?e" .
  have "0 < (2 :: real) powi ?e" by simp
  also note l
  finally have nz: "x \<noteq> 0" by simp
  have "round_half_even (x * 2 ^ k) = n" using assms(3) by (rule rhe_eqI)
  then show ?thesis using nz by (simp add: fl_def Let_def e q)
qed

lemma float_uniform_between:
  assumes "unit_draw u" "0 \<le> a" "fl (b - a) = d" "0 \<le> d" "fl d = d" "fl a = lo"
    "fl (a + d) = hi"
  shows "lo \<le> float_uniform a b u \<and> float_uniform a b u \<le> hi"
proof -
  from assms(1) have u: "0 \<le> u" "u \<le> 1" by (simp_all add: unit_draw_def)
  have "0 \<le> d * u" using assms(4) u(1) by simp
  moreover have "d * u \<le> d" using assms(4) u(2) by (simp add: mult_left_le)
  ultimately have "0 \<le> fl (d * u)" "fl (d * u) \<le> fl d"
    by (simp_all add: fl_nonneg fl_mono)
  then have "a \<le> a + fl (d * u)" "a + fl (d * u) \<le> a + d" unfolding assms(5) by simp_all
  then have "fl a \<le> fl (a + fl (d * u))" "fl (a + fl (d * u)) \<le> fl (a + d)"
    using assms(2) by (simp_all add: fl_mono)
  then show ?thesis unfolding float_uniform_def assms(3) assms(6) assms(7) by simp
qed

subsection \<open>The floats of the generators\<close>

lemma fl_1_1: "fl 1.1 = 2476979795053773 / 2 ^ 51"
  using fl_valueI [of "1.1" 52 4953959590107546] by simp

lemma fl_1_2: "fl 1.2 = 5404319552844595 / 2 ^ 52"
  using fl_valueI [of "1.2" 52 5404319552844595] by simp

lemma fl_1_05: "fl 1.05 = 4728779608739021 / 2 ^ 52"
  using fl_valueI [of "1.05" 52 4728779608739021] by simp

lemma fl_0_9: "fl 0.9 = 8106479329266893 / 2 ^ 53"
  using fl_valueI [of "0.9" 53 8106479329266893] by simp

lemma fl_0_05: "fl 0.05 = 3602879701896397 / 2 ^ 56"
  using fl_valueI [of "0.05" 57 7205759403792794] by simp

lemma fl_0_2: "fl 0.2 = 3602879701896397 / 2 ^ 54"
  using fl_valueI [of "0.2" 55 7205759403792794] by simp

lemma fl_0_005: "fl 0.005 = 5764607523034235 / 2 ^ 60"
  using fl_valueI [of "0.005" 60 5764607523034235] by simp

lemma fl_0_95: "fl 0.95 = 4278419646001971 / 2 ^ 52"
  using fl_valueI [of "0.95" 53 8556839292003942] by simp

lemma fl_0_7: "fl 0.7 = 3152519739159347 / 2 ^ 52"
  using fl_valueI [of "0.7" 53 6305039478318694] by simp

lemma fl_0_8: "fl 0.8 = 3602879701896397 / 2 ^ 52"
  using fl_valueI [of "0.8" 53 7205759403792794] by simp

lemma fl_0_02: "fl 0.02 = 5764607523034235 / 2 ^ 58"
  using fl_valueI [of "0.02" 58 5764607523034235] by simp

lemma probability_simps [simp]:
  "fl (1 / 200) = 5764607523034235 / 2 ^ 60"
  "fl (19 / 20) = 4278419646001971 / 2 ^ 52"
  "fl (7 / 10) = 3152519739159347 / 2 ^ 52"
  "fl (4 / 5) = 3602879701896397 / 2 ^ 52"
  "fl (1 / 50) = 5764607523034235 / 2 ^ 58"
  using fl_0_005 fl_0_95 fl_0_7 fl_0_8 fl_0_02 by simp_all

lemma threshold_1_1_75: "fl (75 * fl 1.1) = 82.5"
  using fl_valueI [of "75 * (2476979795053773 / 2 ^ 51)" 46 5805421394657280] unfolding fl_1_1 by simp

lemma threshold_1_1_65: "fl (65 * fl 1.1) = 71.5"
  using fl_valueI [of "65 * (2476979795053773 / 2 ^ 51)" 46 5031365208702976] unfolding fl_1_1 by simp

lemma threshold_1_1_55: "fl (55 * fl 1.1) = 8514618045497345 / 2 ^ 47"
  using fl_valueI [of "55 * (2476979795053773 / 2 ^ 51)" 47 8514618045497345] unfolding fl_1_1 by simp

lemma threshold_1_1_60: "fl (60 * fl 1.1) = 66"
  using fl_valueI [of "60 * (2476979795053773 / 2 ^ 51)" 46 4644337115725824] unfolding fl_1_1 by simp

lemma threshold_1_1_85: "fl (85 * fl 1.1) = 6579477580611585 / 2 ^ 46"
  using fl_valueI [of "85 * (2476979795053773 / 2 ^ 51)" 46 6579477580611585] unfolding fl_1_1 by simp

lemma threshold_1_1_24: "fl (24 * fl 1.1) = 7430939385161319 / 2 ^ 48"
  using fl_valueI [of "24 * (2476979795053773 / 2 ^ 51)" 48 7430939385161319] unfolding fl_1_1 by simp

lemma threshold_1_2_12: "fl (12 * fl 1.2) = 2026619832316723 / 2 ^ 47"
  using fl_valueI [of "12 * (5404319552844595 / 2 ^ 52)" 49 8106479329266892] unfolding fl_1_2 by simp

lemma threshold_1_2_18: "fl (18 * fl 1.2) = 6079859496950169 / 2 ^ 48"
  using fl_valueI [of "18 * (5404319552844595 / 2 ^ 52)" 48 6079859496950169] unfolding fl_1_2 by simp

lemma threshold_1_2_8: "fl (8 * fl 1.2) = 5404319552844595 / 2 ^ 49"
  using fl_valueI [of "8 * (5404319552844595 / 2 ^ 52)" 49 5404319552844595] unfolding fl_1_2 by simp

lemma threshold_1_2_6: "fl (6 * fl 1.2) = 2026619832316723 / 2 ^ 48"
  using fl_valueI [of "6 * (5404319552844595 / 2 ^ 52)" 50 8106479329266892] unfolding fl_1_2 by simp

lemma threshold_1_2_22: "fl (22 * fl 1.2) = 3715469692580659 / 2 ^ 47"
  using fl_valueI [of "22 * (5404319552844595 / 2 ^ 52)" 48 7430939385161318] unfolding fl_1_2 by simp

lemma threshold_1_2_4: "fl (4 * fl 1.2) = 5404319552844595 / 2 ^ 50"
  using fl_valueI [of "4 * (5404319552844595 / 2 ^ 52)" 50 5404319552844595] unfolding fl_1_2 by simp

lemma threshold_1_05_240: "fl (240 * fl 1.05) = 252"
  using fl_valueI [of "240 * (4728779608739021 / 2 ^ 52)" 45 8866461766385664] unfolding fl_1_05 by simp

lemma threshold_1_05_7_5: "fl (7.5 * fl 1.05) = 7.875"
  using fl_valueI [of "7.5 * (4728779608739021 / 2 ^ 52)" 50 8866461766385664] unfolding fl_1_05 by simp

lemma threshold_0_9_75: "fl (75 * fl 0.9) = 67.5"
  using fl_valueI [of "75 * (8106479329266893 / 2 ^ 53)" 46 4749890231992320] unfolding fl_0_9 by simp

lemma threshold_0_9_70: "fl (70 * fl 0.9) = 63"
  using fl_valueI [of "70 * (8106479329266893 / 2 ^ 53)" 47 8866461766385664] unfolding fl_0_9 by simp

lemma threshold_0_9_60: "fl (60 * fl 0.9) = 54"
  using fl_valueI [of "60 * (8106479329266893 / 2 ^ 53)" 47 7599824371187712] unfolding fl_0_9 by simp

lemma threshold_0_9_65: "fl (65 * fl 0.9) = 58.5"
  using fl_valueI [of "65 * (8106479329266893 / 2 ^ 53)" 47 8233143068786688] unfolding fl_0_9 by simp

lemma threshold_0_9_12: "fl (12 * fl 0.9) = 3039929748475085 / 2 ^ 48"
  using fl_valueI [of "12 * (8106479329266893 / 2 ^ 53)" 49 6079859496950170] unfolding fl_0_9 by simp

lemma threshold_0_9_18: "fl (18 * fl 0.9) = 4559894622712627 / 2 ^ 48"
  using fl_valueI [of "18 * (8106479329266893 / 2 ^ 53)" 48 4559894622712627] unfolding fl_0_9 by simp

lemma threshold_0_9_8: "fl (8 * fl 0.9) = 8106479329266893 / 2 ^ 50"
  using fl_valueI [of "8 * (8106479329266893 / 2 ^ 53)" 50 8106479329266893] unfolding fl_0_9 by simp

lemma threshold_0_9_6: "fl (6 * fl 0.9) = 3039929748475085 / 2 ^ 49"
  using fl_valueI [of "6 * (8106479329266893 / 2 ^ 53)" 50 6079859496950170] unfolding fl_0_9 by simp

lemmas thresholds =
  threshold_1_1_75 threshold_1_1_65 threshold_1_1_55 threshold_1_1_60
  threshold_1_1_85 threshold_1_1_24 threshold_1_2_12 threshold_1_2_18
  threshold_1_2_8 threshold_1_2_6 threshold_1_2_22 threshold_1_2_4
  threshold_1_05_240 threshold_1_05_7_5 threshold_0_9_75 threshold_0_9_70
  threshold_0_9_60 threshold_0_9_65 threshold_0_9_12 threshold_0_9_18
  threshold_0_9_8 threshold_0_9_6

lemma threshold_simps:
  "fl (75 * fl (11 / 10)) = 82.5"
  "fl (65 * fl (11 / 10)) = 71.5"
  "fl (55 * fl (11 / 10)) = 8514618045497345 / 2 ^ 47"
  "fl (60 * fl (11 / 10)) = 66"
  "fl (85 * fl (11 / 10)) = 6579477580611585 / 2 ^ 46"
  "fl (24 * fl (11 / 10)) = 7430939385161319 / 2 ^ 48"
  "fl (12 * fl (6 / 5)) = 2026619832316723 / 2 ^ 47"
  "fl (18 * fl (6 / 5)) = 6079859496950169 / 2 ^ 48"
  "fl (8 * fl (6 / 5)) = 5404319552844595 / 2 ^ 49"
  "fl (6 * fl (6 / 5)) = 2026619832316723 / 2 ^ 48"
  "fl (22 * fl (6 / 5)) = 3715469692580659 / 2 ^ 47"
  "fl (4 * fl (6 / 5)) = 5404319552844595 / 2 ^ 50"
  "fl (240 * fl (21 / 20)) = 252"
  "fl (15 * fl (21 / 20) / 2) = 7.875"
  "fl (75 * fl (9 / 10)) = 67.5"
  "fl (70 * fl (9 / 10)) = 63"
  "fl (60 * fl (9 / 10)) = 54"
  "fl (65 * fl (9 / 10)) = 58.5"
  "fl (12 * fl (9 / 10)) = 3039929748475085 / 2 ^ 48"
  "fl (18 * fl (9 / 10)) = 4559894622712627 / 2 ^ 48"
  "fl (8 * fl (9 / 10)) = 8106479329266893 / 2 ^ 50"
  "fl (6 * fl (9 / 10)) = 3039929748475085 / 2 ^ 49"
  using thresholds by simp_all

lemma dim_pass_lo: "fl (10.0 + fl 0.05) = 2828823515942093 / 2 ^ 48"
  using fl_valueI [of "10.0 + 3602879701896397 / 2 ^ 56" 49 5657647031884186] unfolding fl_0_05 by simp

lemma dim_pass_hi: "fl (10.5 - fl 0.05) = 2941413506626355 / 2 ^ 48"
  using fl_valueI [of "10.5 - 3602879701896397 / 2 ^ 56" 49 5882827013252710] unfolding fl_0_05 by simp

lemma dim_pass_width: "fl (2941413506626355 / 2 ^ 48 - (2828823515942093 / 2 ^ 48)) = 56294995342131 / 2 ^ 47"
  using fl_valueI [of "2941413506626355 / 2 ^ 48 - (2828823515942093 / 2 ^ 48)" 54 7205759403792768] by simp

lemma dim_pass_width_float: "fl (56294995342131 / 2 ^ 47) = 56294995342131 / 2 ^ 47"
  using fl_valueI [of "56294995342131 / 2 ^ 47" 54 7205759403792768] by simp

lemma dim_pass_lo_float: "fl (2828823515942093 / 2 ^ 48) = 2828823515942093 / 2 ^ 48"
  using fl_valueI [of "2828823515942093 / 2 ^ 48" 49 5657647031884186] by simp

lemma dim_pass_top: "fl (2828823515942093 / 2 ^ 48 + 56294995342131 / 2 ^ 47) = 2941413506626355 / 2 ^ 48"
  using fl_valueI [of "2828823515942093 / 2 ^ 48 + 56294995342131 / 2 ^ 47" 49 5882827013252710] by simp

lemma dim_low_lo: "fl (10.0 - fl 0.2) = 2758454771764429 / 2 ^ 48"
  using fl_valueI [of "10.0 - 3602879701896397 / 2 ^ 54" 49 5516909543528858] unfolding fl_0_2 by simp

lemma dim_low_width: "fl (10.0 - 2758454771764429 / 2 ^ 48) = 56294995342131 / 2 ^ 48"
  using fl_valueI [of "10.0 - 2758454771764429 / 2 ^ 48" 55 7205759403792768] by simp

lemma dim_low_width_float: "fl (56294995342131 / 2 ^ 48) = 56294995342131 / 2 ^ 48"
  using fl_valueI [of "56294995342131 / 2 ^ 48" 55 7205759403792768] by simp

lemma dim_low_lo_float: "fl (2758454771764429 / 2 ^ 48) = 2758454771764429 / 2 ^ 48"
  using fl_valueI [of "2758454771764429 / 2 ^ 48" 49 5516909543528858] by simp

lemma dim_low_top: "fl (2758454771764429 / 2 ^ 48 + 56294995342131 / 2 ^ 48) = 10"
  using fl_valueI [of "2758454771764429 / 2 ^ 48 + 56294995342131 / 2 ^ 48" 49 5629499534213120] by simp

lemma dim_high_hi: "fl (10.5 + fl 0.2) = 3011782250804019 / 2 ^ 48"
  using fl_valueI [of "10.5 + 3602879701896397 / 2 ^ 54" 49 6023564501608038] unfolding fl_0_2 by simp

lemma dim_high_width: "fl (3011782250804019 / 2 ^ 48 - 10.5) = 56294995342131 / 2 ^ 48"
  using fl_valueI [of "3011782250804019 / 2 ^ 48 - 10.5" 55 7205759403792768] by simp

lemma dim_high_width_float: "fl (56294995342131 / 2 ^ 48) = 56294995342131 / 2 ^ 48"
  using fl_valueI [of "56294995342131 / 2 ^ 48" 55 7205759403792768] by simp

lemma dim_high_lo_float: "fl 10.5 = 10.5"
  using fl_valueI [of "10.5" 49 5910974510923776] by simp

lemma dim_high_top: "fl (10.5 + 56294995342131 / 2 ^ 48) = 3011782250804019 / 2 ^ 48"
  using fl_valueI [of "10.5 + 56294995342131 / 2 ^ 48" 49 6023564501608038] by simp

lemma el_pass_lo: "fl (45.0 + 1) = 46"
  using fl_valueI [of "45.0 + 1" 47 6473924464345088] by simp

lemma el_pass_hi: "fl (55.0 - 1) = 54"
  using fl_valueI [of "55.0 - 1" 47 7599824371187712] by simp

lemma el_pass_width: "fl (54 - 46) = 8"
  using fl_valueI [of "54 - 46" 49 4503599627370496] by simp

lemma el_pass_width_float: "fl 8 = 8"
  using fl_valueI [of "8" 49 4503599627370496] by simp

lemma el_pass_lo_float: "fl 46 = 46"
  using fl_valueI [of "46" 47 6473924464345088] by simp

lemma el_pass_top: "fl (46 + 8) = 54"
  using fl_valueI [of "46 + 8" 47 7599824371187712] by simp

lemma el_low_lo: "fl (45.0 - 5) = 40"
  using fl_valueI [of "45.0 - 5" 47 5629499534213120] by simp

lemma el_low_width: "fl (45.0 - 40) = 5"
  using fl_valueI [of "45.0 - 40" 50 5629499534213120] by simp

lemma el_low_width_float: "fl 5 = 5"
  using fl_valueI [of "5" 50 5629499534213120] by simp

lemma el_low_lo_float: "fl 40 = 40"
  using fl_valueI [of "40" 47 5629499534213120] by simp

lemma el_low_top: "fl (40 + 5) = 45"
  using fl_valueI [of "40 + 5" 47 6333186975989760] by simp

lemma el_high_hi: "fl (55.0 + 5) = 60"
  using fl_valueI [of "55.0 + 5" 47 8444249301319680] by simp

lemma el_high_width: "fl (60 - 55.0) = 5"
  using fl_valueI [of "60 - 55.0" 50 5629499534213120] by simp

lemma el_high_lo_float: "fl 55.0 = 55"
  using fl_valueI [of "55.0" 47 7740561859543040] by simp

lemma el_high_top: "fl (55.0 + 5) = 60"
  using fl_valueI [of "55.0 + 5" 47 8444249301319680] by simp

lemma dim_pass_half: "fl (56294995342131 / 2 ^ 47 * (1 / 2)) = 56294995342131 / 2 ^ 48"
  using fl_valueI [of "56294995342131 / 2 ^ 47 * (1 / 2)" 55 7205759403792768] by simp

lemma dim_pass_half_sum: "fl (2828823515942093 / 2 ^ 48 + 56294995342131 / 2 ^ 48) = 10.25"
  using fl_valueI [of "2828823515942093 / 2 ^ 48 + 56294995342131 / 2 ^ 48" 49 5770237022568448] by simp

lemma dim_low_last: "fl (56294995342131 / 2 ^ 48 * (1 - 1 / 2 ^ 53)) = 7205759403792767 / 2 ^ 55"
  using fl_valueI [of "56294995342131 / 2 ^ 48 * (1 - 1 / 2 ^ 53)" 55 7205759403792767] by simp

lemma dim_low_last_sum: "fl (2758454771764429 / 2 ^ 48 + 7205759403792767 / 2 ^ 55) = 10"
  using fl_valueI [of "2758454771764429 / 2 ^ 48 + 7205759403792767 / 2 ^ 55" 49 5629499534213120] by simp

lemma dim_low_near: "fl (56294995342131 / 2 ^ 48 * (127 / 128)) = 7149464408450637 / 2 ^ 55"
  using fl_valueI [of "56294995342131 / 2 ^ 48 * (127 / 128)" 55 7149464408450637] by simp

lemma dim_low_near_sum: "fl (2758454771764429 / 2 ^ 48 + 7149464408450637 / 2 ^ 55) = 5628619924910899 / 2 ^ 49"
  using fl_valueI [of "2758454771764429 / 2 ^ 48 + 7149464408450637 / 2 ^ 55" 49 5628619924910899] by simp

lemma sample_pass_half:
  "float_uniform (fl (10.0 + fl 0.05)) (fl (10.5 - fl 0.05)) (1 / 2) = 10.25"
  unfolding float_uniform_def dim_pass_lo dim_pass_hi dim_pass_width dim_pass_half
    dim_pass_half_sum ..

lemma sample_high_first: "float_uniform 10.5 b 0 = 10.5"
proof -
  have "float_uniform 10.5 b 0 = fl 10.5" by (simp add: float_uniform_def fl_zero)
  then show ?thesis unfolding dim_high_lo_float .
qed

lemma sample_low_last:
  "float_uniform (fl (10.0 - fl 0.2)) 10.0 (1 - 1 / 2 ^ 53) = 10"
  unfolding float_uniform_def dim_low_lo dim_low_width dim_low_last dim_low_last_sum ..

lemma sample_low_near:
  "float_uniform (fl (10.0 - fl 0.2)) 10.0 (127 / 128) = 5628619924910899 / 2 ^ 49"
  unfolding float_uniform_def dim_low_lo dim_low_width dim_low_near dim_low_near_sum ..

subsection \<open>Rounding\<close>

lemma py_round_ge: "real_of_int k \<le> x * 10 ^ n \<Longrightarrow> real_of_int k / 10 ^ n \<le> py_round x n"
  unfolding py_round_def by (simp add: divide_right_mono rhe_ge)

lemma py_round_le: "x * 10 ^ n \<le> real_of_int k \<Longrightarrow> py_round x n \<le> real_of_int k / 10 ^ n"
  unfolding py_round_def by (simp add: divide_right_mono rhe_le)

lemma py_round_nonneg: "0 \<le> x \<Longrightarrow> 0 \<le> py_round x n"
  using py_round_ge [of 0 x n] by simp

lemma py_round_pos: "1 \<le> x \<Longrightarrow> 0 < py_round x 1"
  using py_round_ge [of 10 x 1] by simp

lemma py_round_ge_tenth: "0.1 \<le> x \<Longrightarrow> 0.1 \<le> py_round x 2"
  using py_round_ge [of 10 x 2] by simp

lemma py_round_le_100: "x \<le> 100 \<Longrightarrow> py_round x 1 \<le> 100"
  using py_round_le [of x 1 1000] by simp

subsection \<open>The rows of one equipment\<close>

lemma mk_row_sel:
  "sr_time (mk_row t e k v u s) = t" "sr_equipment_id (mk_row t e k v u s) = e"
  "sr_sensor_type (mk_row t e k v u s) = k" "sr_value (mk_row t e k v u s) = v"
  "sr_unit (mk_row t e k v u s) = u" "sr_status (mk_row t e k v u s) = s"
  by (simp_all add: mk_row_def)

lemma equipment_readings_cases:
  assumes "r \<in> set (equipment_readings s t e cfg st dr)"
  shows "r = mk_row t e ''temperature'' (py_round (temp_value s t cfg st (temp_z dr)) 1) ''celsius''
               (temp_status cfg (temp_value s t cfg st (temp_z dr)))
       \<or> r = mk_row t e ''vibration'' (py_round (vib_value s t cfg st (vib_z dr)) 2) ''hz''
               (vib_status cfg (vib_value s t cfg st (vib_z dr)))
       \<or> (\<exists>pr. pressure cfg = Some pr \<and>
             r = mk_row t e ''pressure'' (py_round (pressure_value t pr (pressure_z dr)) 1) ''bar''
                   (pressure_status pr (pressure_value t pr (pressure_z dr))))
       \<or> (e = ''HVAC_001'' \<and>
             r = mk_row t e ''humidity'' (py_round (uniform 45 65 (humidity_u dr)) 1) ''percent''
                   (humidity_status (uniform 45 65 (humidity_u dr))))"
  using assms unfolding equipment_readings_def Let_def
  by (cases "pressure cfg"; cases "e = ''HVAC_001''"; simp; blast)

lemma equipment_readings_csv_cases:
  assumes "r \<in> set (equipment_readings_csv t e cfg dr)"
  shows "r = mk_row t e ''temperature'' (py_round (temp_value_csv t cfg (csv_temp_u dr)) 1) ''celsius''
               (temp_status cfg (temp_value_csv t cfg (csv_temp_u dr)))
       \<or> r = mk_row t e ''vibration'' (py_round (vib_value_csv t cfg (csv_vib_u dr)) 2) ''hz''
               (vib_status cfg (vib_value_csv t cfg (csv_vib_u dr)))
       \<or> (\<exists>pr. pressure cfg = Some pr \<and>
             r = mk_row t e ''pressure'' (py_round (pressure_value_csv t pr (csv_pressure_u dr)) 1) ''bar''
                   (pressure_status_csv pr (pressure_value_csv t pr (csv_pressure_u dr))))"
  using assms unfolding equipment_readings_csv_def Let_def
  by (cases "pressure cfg"; simp; blast)

lemma equipment_readings_times:
  "map sr_time (equipment_readings s t e cfg st dr) = replicate (readings_per_tick (e, cfg)) t"
  unfolding equipment_readings_def readings_per_tick_def Let_def
  by (cases "pressure cfg"; cases "e = ''HVAC_001''"; simp add: mk_row_sel numeral_2_eq_2)


subsection \<open>The sensor loop\<close>

lemma timedelta_pos: "0 < m \<Longrightarrow> 0 < timedelta 0 0 m"
  by (simp add: timedelta_def)

lemma tick_count_step:
  assumes "0 < m" "cur \<le> e"
  shows "tick_count cur e m = Suc (tick_count (cur + timedelta 0 0 m) e m)"
proof -
  let ?s = "timedelta 0 0 m"
  have s: "0 < ?s" using assms(1) by (rule timedelta_pos)
  show ?thesis
  proof (cases "cur + ?s \<le> e")
    case True
    have "(e - cur) div ?s = (e - (cur + ?s)) div ?s + 1"
    proof -
      have "e - cur = (e - (cur + ?s)) + 1 * ?s" by simp
      then have "(e - cur) div ?s = ((e - (cur + ?s)) + 1 * ?s) div ?s" by simp
      also have "\<dots> = (e - (cur + ?s)) div ?s + 1"
        using s by (subst div_mult_self1) auto
      finally show ?thesis .
    qed
    moreover have "0 \<le> (e - (cur + ?s)) div ?s"
      using True s by (simp add: pos_imp_zdiv_nonneg_iff)
    ultimately show ?thesis
      using True assms(2) by (simp add: tick_count_def nat_add_distrib)
  next
    case False
    then have "e - cur < ?s" by simp
    moreover have "0 \<le> e - cur" using assms(2) by simp
    ultimately have "(e - cur) div ?s = 0" by (simp add: div_pos_pos_trivial)
    then show ?thesis using False assms(2) by (simp add: tick_count_def)
  qed
qed

lemma sensor_loop_closed:
  assumes "0 < m"
  shows "sensor_loop c sts dr s e m cur k data =
     Some (data @ concat (map (\<lambda>i. tick_rows c sts s (cur + int i * timedelta 0 0 m) (dr (k + i)))
                            [0..<tick_count cur e m]))"
proof (induction "tick_count cur e m" arbitrary: cur k data)
  case 0
  then have "\<not> cur \<le> e" using tick_count_step [OF assms, of cur e] by auto
  then show ?case using 0 by (subst sensor_loop.simps) simp
next
  case (Suc n)
  then have le: "cur \<le> e" by (auto simp: tick_count_def split: if_splits)
  have n: "n = tick_count (cur + timedelta 0 0 m) e m"
    using tick_count_step [OF assms le] Suc(2) by simp
  have map_eq: "map (\<lambda>i. tick_rows c sts s (cur + int i * timedelta 0 0 m) (dr (k + i))) [0..<Suc n]
    = tick_rows c sts s cur (dr k)
      # map (\<lambda>i. tick_rows c sts s (cur + timedelta 0 0 m + int i * timedelta 0 0 m) (dr (Suc k + i))) [0..<n]"
    by (simp add: upt_conv_Cons map_Suc_upt [symmetric] algebra_simps del: upt_Suc)
  show ?case
    apply (subst sensor_loop.simps)
    apply (simp only: le if_True Suc.hyps(1) [OF n])
    apply (simp only: Suc(2) [symmetric] map_eq n [symmetric])
    apply simp
    done
qed

lemma sensor_loop_empty_window:
  "e < cur \<Longrightarrow> sensor_loop c sts dr s e m cur k data = Some data"
  by (subst sensor_loop.simps) simp

lemma concat_replicate_upt:
  "concat (map (\<lambda>j. replicate (f j) t) js) = replicate (sum_list (map f js)) t"
  by (induction js) (simp_all add: replicate_add)

lemma tick_rows_times:
  "map sr_time (tick_rows c sts s t d) = replicate (sum_list (map readings_per_tick c)) t"
proof -
  have "map sr_time (tick_rows c sts s t d)
      = concat (map (\<lambda>j. replicate (readings_per_tick (c ! j)) t) [0..<length c])"
    by (simp add: tick_rows_def map_concat comp_def equipment_readings_times)
  also have "\<dots> = replicate (sum_list (map (\<lambda>j. readings_per_tick (c ! j)) [0..<length c])) t"
    by (rule concat_replicate_upt)
  also have "map (\<lambda>j. readings_per_tick (c ! j)) [0..<length c] = map readings_per_tick c"
    by (rule nth_equalityI) simp_all
  finally show ?thesis .
qed

lemma generate_sensor_data_times:
  assumes "0 < m"
  shows "\<exists>out. generate_sensor_data c init dr s e m = Some out \<and>
     map sr_time out =
       concat (map (\<lambda>i. replicate (sum_list (map readings_per_tick c)) (s + int i * timedelta 0 0 m))
                 [0..<tick_count s e m])"
  unfolding generate_sensor_data_def sensor_loop_closed [OF assms]
  by (simp add: map_concat comp_def tick_rows_times)

lemma length_concat_replicate:
  "length (concat (map (\<lambda>i. replicate n (f i)) [0..<k])) = k * n"
  by (induction k) simp_all

lemma tick_rows_row_of:
  assumes "r \<in> set (tick_rows c sts s cur (dr k))"
  shows "row_of c sts dr s r"
proof -
  from assms obtain j where "j < length c"
    "r \<in> set (equipment_readings s cur (fst (c ! j)) (snd (c ! j)) (sts ! j) (dr k j))"
    unfolding tick_rows_def by auto
  then show ?thesis unfolding row_of_def by blast
qed

lemma sensor_loop_rows:
  assumes "sensor_loop c sts dr s e m cur k data = Some out"
  shows "\<forall>r\<in>set out. r \<in> set data \<or> row_of c sts dr s r"
proof (rule sensor_loop.raw_induct
    [where P = "\<lambda>c sts dr s e m cur k data out. \<forall>r\<in>set out. r \<in> set data \<or> row_of c sts dr s r",
     OF _ assms])
  fix loop c sts dr s e m cur k data out
  assume IH: "\<And>c sts dr s e m cur k data out.
        loop c sts dr s e m cur k data = Some out \<Longrightarrow>
        \<forall>r\<in>set out. r \<in> set data \<or> row_of c sts dr s r"
    and eq: "(if cur \<le> e
      then loop c sts dr s e m (cur + timedelta 0 0 m) (Suc k)
            (data @ tick_rows c sts s cur (dr k))
      else Some data) = Some out"
  show "\<forall>r\<in>set out. r \<in> set data \<or> row_of c sts dr s r"
  proof (cases "cur \<le> e")
    case True
    with eq have "loop c sts dr s e m (cur + timedelta 0 0 m) (Suc k)
        (data @ tick_rows c sts s cur (dr k)) = Some out" by simp
    from IH [OF this] show ?thesis
      using tick_rows_row_of [of _ c sts s cur dr k] by auto
  next
    case False
    with eq show ?thesis by simp
  qed
qed

lemma generate_sensor_data_rows:
  assumes "generate_sensor_data c init dr s e m = Some out" "r \<in> set out"
  obtains t i j st where "j < length c"
    "r \<in> set (equipment_readings s t (fst (c ! j)) (snd (c ! j)) st (dr i j))"
  using sensor_loop_rows [OF assms(1) [unfolded generate_sensor_data_def]] assms(2)
  unfolding row_of_def by auto

subsection \<open>Values and statuses\<close>

lemma vib_value_nonneg: "0 \<le> vib_value s t cfg st z"
  by (simp add: vib_value_def Let_def)

lemma vib_value_csv_nonneg: "0 \<le> vib_value_csv t cfg u"
  by (simp add: vib_value_csv_def Let_def)

lemma simple_vibration_ge: "0.1 \<le> simple_vibration t eq st dr"
  by (simp add: simple_vibration_def Let_def)

lemma equipment_readings_vibration:
  assumes "r \<in> set (equipment_readings s t e cfg st dr)" "sr_sensor_type r = ''vibration''"
  shows "0 \<le> sr_value r"
proof -
  have "0 \<le> py_round (vib_value s t cfg st (vib_z dr)) 2"
    by (rule py_round_nonneg) (rule vib_value_nonneg)
  with equipment_readings_cases [OF assms(1)] assms(2) show ?thesis
    by (auto simp: mk_row_sel)
qed

lemma equipment_readings_csv_vibration:
  assumes "r \<in> set (equipment_readings_csv t e cfg dr)" "sr_sensor_type r = ''vibration''"
  shows "0 \<le> sr_value r"
proof -
  have "0 \<le> py_round (vib_value_csv t cfg (csv_vib_u dr)) 2"
    by (rule py_round_nonneg) (rule vib_value_csv_nonneg)
  with equipment_readings_csv_cases [OF assms(1)] assms(2) show ?thesis
    by (auto simp: mk_row_sel)
qed

lemma operating_factor_cases:
  "operating_factor t = 0.3 \<or> operating_factor t = 0.6 \<or> operating_factor t = 1"
  by (simp add: operating_factor_def)

lemma pressure_value_csv_catalog:
  assumes "unit_draw u" "pr = (180, 240) \<or> pr = (6, 7.5)"
  shows "1 \<le> pressure_value_csv t pr u"
proof -
  have u: "0 \<le> u" using assms(1) by (simp add: unit_draw_def)
  from assms(2) operating_factor_cases [of t] show ?thesis
    using u by (auto simp: pressure_value_csv_def Let_def uniform_def)
qed

lemma pressure_mk_config: "pressure (mk_config ty li tr vr pr) = pr"
  by (simp add: mk_config_def)

lemma catalog_pressures:
  "map (\<lambda>p. pressure (snd p)) EQUIPMENT_CONFIG =
     [None, None, Some (180, 240), Some (180, 240), None, None, None, None, Some (6, 7.5), None]"
  unfolding EQUIPMENT_CONFIG_def by (simp add: pressure_mk_config)

lemma catalog_pressure:
  assumes "(e, cfg) \<in> set EQUIPMENT_CONFIG" "pressure cfg = Some pr"
  shows "pr = (180, 240) \<or> pr = (6, 7.5)"
proof -
  have "pressure (snd (e, cfg)) \<in> (\<lambda>p. pressure (snd p)) ` set EQUIPMENT_CONFIG"
    using assms(1) by (rule imageI)
  then have "Some pr \<in> set (map (\<lambda>p. pressure (snd p)) EQUIPMENT_CONFIG)"
    using assms(2) by simp
  then show ?thesis unfolding catalog_pressures by auto
qed

lemma equipment_readings_csv_pressure:
  assumes "unit_draw (csv_pressure_u dr)" "(e, cfg) \<in> set EQUIPMENT_CONFIG"
    "r \<in> set (equipment_readings_csv t e cfg dr)" "sr_sensor_type r = ''pressure''"
  shows "0 < sr_value r"
proof -
  from equipment_readings_csv_cases [OF assms(3)] assms(4) obtain pr where
    pr: "pressure cfg = Some pr"
    and r: "sr_value r = py_round (pressure_value_csv t pr (csv_pressure_u dr)) 1"
    by (auto simp: mk_row_sel)
  have "1 \<le> pressure_value_csv t pr (csv_pressure_u dr)"
    using pressure_value_csv_catalog [OF assms(1)] catalog_pressure [OF assms(2) pr] by blast
  then show ?thesis unfolding r by (rule py_round_pos)
qed

lemma humidity_normal:
  assumes "unit_draw u"
  shows "humidity_status (uniform 45 65 u) = ''normal''"
  using assms by (simp add: humidity_status_def uniform_def unit_draw_def)

lemma humidity_range:
  assumes "unit_draw u"
  shows "45 \<le> py_round (uniform 45 65 u) 1 \<and> py_round (uniform 45 65 u) 1 \<le> 65"
  using assms py_round_ge [of 450 "uniform 45 65 u" 1] py_round_le [of "uniform 45 65 u" 1 650]
  by (simp add: uniform_def unit_draw_def)

lemma equipment_readings_humidity:
  assumes "unit_draw (humidity_u dr)" "r \<in> set (equipment_readings s t e cfg st dr)"
    "sr_sensor_type r = ''humidity''"
  shows "sr_status r = ''normal'' \<and> sr_equipment_id r = ''HVAC_001'' \<and> 45 \<le> sr_value r \<and> sr_value r \<le> 65"
  using equipment_readings_cases [OF assms(2)] assms(3) humidity_normal [OF assms(1)]
    humidity_range [OF assms(1)]
  by (auto simp: mk_row_sel)

subsection \<open>Concrete runs\<close>

lemma hour_saturday: "hour saturday = 0" "weekday saturday = 5" "hour 0 = 0" "weekday 0 = 0"
  by (simp_all add: saturday_def timedelta_def hour_def weekday_def)

lemma one_tick: "tick_count t t 1 = 1"
  by (simp add: tick_count_def timedelta_def)

lemma generate_sensor_data_one_tick:
  "generate_sensor_data [p] init dr t t 1 =
     Some (equipment_readings t t (fst p) (snd p) (init_state (init 0)) (dr 0 0))"
  unfolding generate_sensor_data_def
  by (subst sensor_loop_closed) (simp_all add: one_tick tick_rows_def)

lemma hvac_rows:
  "equipment_readings 0 0 (fst example_hvac) (snd example_hvac) st (example_draws 0 0) =
     [mk_row 0 ''HVAC_001'' ''temperature'' 21 ''celsius'' ''normal'',
      mk_row 0 ''HVAC_001'' ''vibration'' 1.5 ''hz'' ''normal'',
      mk_row 0 ''HVAC_001'' ''humidity'' 45 ''percent'' ''normal'']"
  by (simp add: equipment_readings_def example_hvac_def example_draws_def mk_config_def Let_def
      temp_value_def vib_value_def temp_status_def vib_status_def humidity_status_def mean2_def
      gauss_def uniform_def hour_saturday operating_factor_def td_days_def
      py_round_def round_half_even_def threshold_simps)

lemma pump_rows:
  "equipment_readings saturday saturday (fst example_pump) (snd example_pump) st (example_draws 0 (- 6)) =
     [mk_row saturday ''PUMP_001'' ''temperature'' 52.5 ''celsius'' ''normal'',
      mk_row saturday ''PUMP_001'' ''vibration'' 3.45 ''hz'' ''normal'',
      mk_row saturday ''PUMP_001'' ''pressure'' (- 9) ''bar'' ''normal'']"
  by (simp add: equipment_readings_def example_pump_def example_draws_def mk_config_def Let_def
      temp_value_def vib_value_def temp_status_def vib_status_def pressure_value_def
      pressure_status_def mean2_def
      gauss_def uniform_def hour_saturday operating_factor_def td_days_def
      py_round_def round_half_even_def threshold_simps)


section \<open>Sensor readings\<close>




text \<open>
  C2 (amended). Every vibration value emitted is non-negative: at least 0 in every run of the
  full generator and in the CSV variant, at least 0.1 in the simplified variant. No pressure
  value is floored; in the CSV variant, whose noise is bounded, the pressure values of the
  catalog's equipment are positive. (A run of the full generator returns whenever its interval
  is positive.)
\<close>

theorem vibration_never_negative:
  "(generate_sensor_data catalog init draws start_time end_time interval_minutes = Some out
      \<longrightarrow> (\<forall>r\<in>set out. sr_sensor_type r = ''vibration'' \<longrightarrow> 0 \<le> sr_value r))
   \<and> (\<forall>r\<in>set (equipment_readings_csv t e cfg cdr).
         sr_sensor_type r = ''vibration'' \<longrightarrow> 0 \<le> sr_value r)
   \<and> 0.1 \<le> sw_vibration (simple_reading s t eq sst sdr)
   \<and> (unit_draw (csv_pressure_u cdr) \<and> (e, cfg) \<in> set EQUIPMENT_CONFIG
      \<longrightarrow> (\<forall>r\<in>set (equipment_readings_csv t e cfg cdr).
            sr_sensor_type r = ''pressure'' \<longrightarrow> 0 < sr_value r))
   \<and> (0 < interval_minutes \<longrightarrow>
        (\<exists>rows. generate_sensor_data catalog init draws start_time end_time interval_minutes
                  = Some rows))"
proof (intro conjI impI ballI)
  fix r
  assume "generate_sensor_data catalog init draws start_time end_time interval_minutes = Some out"
    and "r \<in> set out" and "sr_sensor_type r = ''vibration''"
  then show "0 \<le> sr_value r"
    using equipment_readings_vibration by (elim generate_sensor_data_rows) blast
next
  fix r
  assume "r \<in> set (equipment_readings_csv t e cfg cdr)" "sr_sensor_type r = ''vibration''"
  then show "0 \<le> sr_value r" by (rule equipment_readings_csv_vibration)
next
  show "0.1 \<le> sw_vibration (simple_reading s t eq sst sdr)"
    using py_round_ge_tenth [OF simple_vibration_ge] by (simp add: simple_reading_def Let_def)
next
  fix r
  assume "unit_draw (csv_pressure_u cdr) \<and> (e, cfg) \<in> set EQUIPMENT_CONFIG"
    and "r \<in> set (equipment_readings_csv t e cfg cdr)" "sr_sensor_type r = ''pressure''"
  then show "0 < sr_value r" using equipment_readings_csv_pressure by blast
next
  assume "0 < interval_minutes"
  from generate_sensor_data_times [OF this]
  show "\<exists>rows. generate_sensor_data catalog init draws start_time end_time interval_minutes
                  = Some rows" by blast
qed

theorem vibration_never_negative_witness:
  "generate_sensor_data [example_pump] (\<lambda>j. (0, 0)) (\<lambda>k j. example_draws 0 (- 6))
      saturday saturday 1
    = Some [mk_row saturday ''PUMP_001'' ''temperature'' 52.5 ''celsius'' ''normal'',
            mk_row saturday ''PUMP_001'' ''vibration'' 3.45 ''hz'' ''normal'',
            mk_row saturday ''PUMP_001'' ''pressure'' (- 9) ''bar'' ''normal'']
   \<and> (0 :: real) \<le> 3.45
   \<and> 0.1 \<le> sw_vibration (simple_reading 0 0 (EQUIPMENT ! 0) (simple_init_state (EQUIPMENT ! 0) 0)
              \<lparr>sd_temp_z = 0, sd_vib_z = - 10, sd_vib_u = 0, sd_spike_u = 0.5, sd_spike_size_u = 0\<rparr>)"
  using vibration_never_negative
    [of "[example_pump]" "\<lambda>j. (0, 0)" "\<lambda>k j. example_draws 0 (- 6)" saturday saturday 1
       "[mk_row saturday ''PUMP_001'' ''temperature'' 52.5 ''celsius'' ''normal'',
         mk_row saturday ''PUMP_001'' ''vibration'' 3.45 ''hz'' ''normal'',
         mk_row saturday ''PUMP_001'' ''pressure'' (- 9) ''bar'' ''normal'']"
       0 "''PUMP_001''" "snd example_pump" "\<lparr>csv_temp_u = 0, csv_vib_u = 0, csv_pressure_u = 0\<rparr>"
       0 "EQUIPMENT ! 0" "simple_init_state (EQUIPMENT ! 0) 0"
       "\<lparr>sd_temp_z = 0, sd_vib_z = - 10, sd_vib_u = 0, sd_spike_u = 0.5, sd_spike_size_u = 0\<rparr>"]
  by (simp add: generate_sensor_data_one_tick pump_rows)

text \<open>
  C2 as stated fails for pressure: on a Saturday the pump's pressure is 63 plus 12 times
  the normal variate, and a variate of -6 gives the emitted value -9.
\<close>

theorem pressure_negative_counterexample:
  "\<exists>out. generate_sensor_data [example_pump] (\<lambda>j. (0, 0)) (\<lambda>k j. example_draws 0 (- 6))
      saturday saturday 1 = Some out
    \<and> sr_sensor_type (out ! 2) = ''pressure'' \<and> sr_value (out ! 2) = - 9
    \<and> sr_value (out ! 2) < 0"
  by (simp add: generate_sensor_data_one_tick pump_rows mk_row_sel)

text \<open>
  C10. Every humidity reading of a run has the status normal (it belongs to the HVAC unit and
  its value lies between 45 and 65), whenever the draws behind \<^verbatim>\<open>random.uniform(45, 65)\<close> are
  outcomes of \<^verbatim>\<open>random()\<close>; and a run returns whenever its interval is positive.
\<close>

theorem humidity_always_normal:
  assumes "\<forall>i j. unit_draw (humidity_u (draws i j))"
  shows "(0 < interval_minutes \<longrightarrow>
            (\<exists>out. generate_sensor_data catalog init draws start_time end_time interval_minutes
                     = Some out))
     \<and> (\<forall>out r. generate_sensor_data catalog init draws start_time end_time interval_minutes
                   = Some out
            \<longrightarrow> r \<in> set out \<longrightarrow> sr_sensor_type r = ''humidity''
            \<longrightarrow> sr_status r = ''normal'' \<and> sr_equipment_id r = ''HVAC_001''
                \<and> 45 \<le> sr_value r \<and> sr_value r \<le> 65)"
proof (intro conjI impI allI)
  assume "0 < interval_minutes"
  from generate_sensor_data_times [OF this]
  show "\<exists>out. generate_sensor_data catalog init draws start_time end_time interval_minutes
                  = Some out" by blast
next
  fix out r
  assume out: "generate_sensor_data catalog init draws start_time end_time interval_minutes
      = Some out"
    and r: "r \<in> set out" and h: "sr_sensor_type r = ''humidity''"
  from out r obtain t i j st where
    "r \<in> set (equipment_readings start_time t (fst (catalog ! j)) (snd (catalog ! j)) st (draws i j))"
    by (rule generate_sensor_data_rows)
  moreover have "unit_draw (humidity_u (draws i j))" using assms by simp
  ultimately have "sr_status r = ''normal'' \<and> sr_equipment_id r = ''HVAC_001''
     \<and> 45 \<le> sr_value r \<and> sr_value r \<le> 65"
    using equipment_readings_humidity h by blast
  then show "sr_status r = ''normal''" "sr_equipment_id r = ''HVAC_001''"
    "45 \<le> sr_value r" "sr_value r \<le> 65" by simp_all
qed

theorem humidity_always_normal_witness:
  "(\<forall>i j. unit_draw (humidity_u (example_draws 0 0)))
   \<and> generate_sensor_data [example_hvac] (\<lambda>j. (0, 0)) (\<lambda>k j. example_draws 0 0) 0 0 1
     = Some [mk_row 0 ''HVAC_001'' ''temperature'' 21 ''celsius'' ''normal'',
             mk_row 0 ''HVAC_001'' ''vibration'' 1.5 ''hz'' ''normal'',
             mk_row 0 ''HVAC_001'' ''humidity'' 45 ''percent'' ''normal'']
   \<and> sr_status (mk_row 0 ''HVAC_001'' ''humidity'' 45 ''percent'' ''normal'') = ''normal''"
proof -
  have u: "\<forall>i j. unit_draw (humidity_u (example_draws 0 0))"
    by (simp add: example_draws_def unit_draw_def)
  have g: "generate_sensor_data [example_hvac] (\<lambda>j. (0, 0)) (\<lambda>k j. example_draws 0 0) 0 0 1
     = Some [mk_row 0 ''HVAC_001'' ''temperature'' 21 ''celsius'' ''normal'',
             mk_row 0 ''HVAC_001'' ''vibration'' 1.5 ''hz'' ''normal'',
             mk_row 0 ''HVAC_001'' ''humidity'' 45 ''percent'' ''normal'']"
    by (simp add: generate_sensor_data_one_tick hvac_rows)
  from humidity_always_normal [OF u, of 1 "[example_hvac]" "\<lambda>j. (0, 0)" 0 0] g
  have "sr_status (mk_row 0 ''HVAC_001'' ''humidity'' 45 ''percent'' ''normal'') = ''normal''"
    by (simp add: mk_row_sel)
  then show ?thesis using u g by simp
qed

section \<open>Ticks of the sensor generator\<close>

lemma day_ticks: "tick_count s (s + timedelta 0 24 0) 60 = 25"
  by (simp add: tick_count_def timedelta_def)

lemma readings_per_tick_bounds: "2 \<le> readings_per_tick p \<and> readings_per_tick p \<le> 4"
  by (simp add: readings_per_tick_def split: option.splits)

lemma tick_times_increasing:
  "0 < m \<Longrightarrow> sorted_wrt (<) (map (\<lambda>i. s + int i * timedelta 0 0 m) [0..<n])"
  by (simp add: sorted_wrt_map sorted_wrt_iff_nth_less timedelta_def)

lemma generate_sensor_data_day:
  "\<exists>out. generate_sensor_data [a, b] init draws s (s + timedelta 0 24 0) 60 = Some out
     \<and> length out = 25 * (readings_per_tick a + readings_per_tick b)
     \<and> map sr_time out =
         concat (map (\<lambda>i. replicate (readings_per_tick a + readings_per_tick b)
                            (s + int i * timedelta 0 0 60)) [0..<25])"
proof -
  from generate_sensor_data_times [of 60 "[a, b]" init draws s "s + timedelta 0 24 0"]
  obtain out where out: "generate_sensor_data [a, b] init draws s (s + timedelta 0 24 0) 60 = Some out"
    and times: "map sr_time out =
       concat (map (\<lambda>i. replicate (readings_per_tick a + readings_per_tick b)
                          (s + int i * timedelta 0 0 60)) [0..<25])"
    by (auto simp: day_ticks)
  have "length out = length (map sr_time out)" by simp
  also have "\<dots> = 25 * (readings_per_tick a + readings_per_tick b)"
    unfolding times by (rule length_concat_replicate)
  finally show ?thesis using out times by blast
qed

text \<open>
  C4 (amended). For a 2-equipment catalog and a window of exactly 24 hours sampled at
  60-minute intervals the generator returns, and it produces 25 ticks (both ends of the window
  are sampled) of as many rows as the two equipment have readings: per equipment 2, one more
  when it has a pressure range, one more when it is HVAC_001. All rows of a tick carry the
  tick's timestamp; the 25 tick timestamps are strictly increasing and 60 minutes apart.
\<close>

theorem two_equipment_day:
  "\<exists>out. generate_sensor_data [a, b] init draws start_time (start_time + timedelta 0 24 0) 60
       = Some out
     \<and> length out = 25 * (readings_per_tick a + readings_per_tick b)
     \<and> map sr_time out =
         concat (map (\<lambda>i. replicate (readings_per_tick a + readings_per_tick b)
                            (start_time + int i * timedelta 0 0 60)) [0..<25])
     \<and> sorted_wrt (<) (map (\<lambda>i. start_time + int i * timedelta 0 0 60) [0..<25])
     \<and> 2 \<le> readings_per_tick a \<and> readings_per_tick a \<le> 4
     \<and> 2 \<le> readings_per_tick b \<and> readings_per_tick b \<le> 4"
  using generate_sensor_data_day [of a b init draws start_time]
    tick_times_increasing [of 60 start_time 25]
    readings_per_tick_bounds [of a] readings_per_tick_bounds [of b]
  by auto

text \<open>
  C4 as stated fails: for a motor and a pump the 24-hour window gives 125 rows, not
  24 times (2 + 3), and the first two rows carry the same timestamp.
\<close>

theorem day_row_count_counterexample:
  "\<exists>out. generate_sensor_data [example_motor, example_pump] (\<lambda>j. (0, 0))
            (\<lambda>k j. example_draws 0 0) 0 (0 + timedelta 0 24 0) 60 = Some out
     \<and> length out = 125 \<and> length out \<noteq> 24 * (2 + 3)
     \<and> sr_time (out ! 0) = sr_time (out ! 1)"
proof -
  have rpt: "readings_per_tick example_motor + readings_per_tick example_pump = 5"
    by (simp add: readings_per_tick_def example_motor_def example_pump_def mk_config_def)
  from generate_sensor_data_day [of example_motor example_pump "\<lambda>j. (0, 0)"
      "\<lambda>k j. example_draws 0 0" 0]
  obtain out where out: "generate_sensor_data [example_motor, example_pump] (\<lambda>j. (0, 0))
            (\<lambda>k j. example_draws 0 0) 0 (0 + timedelta 0 24 0) 60 = Some out"
    and len: "length out = 125"
    and times: "map sr_time out =
         concat (map (\<lambda>i. replicate 5 (0 + int i * timedelta 0 0 60)) [0..<25])"
    unfolding rpt by auto
  have "[0..<25] = 0 # [1..<25]" by (simp add: upt_conv_Cons)
  then have "map sr_time out = 0 # 0 # replicate 3 0
      @ concat (map (\<lambda>i. replicate 5 (0 + int i * timedelta 0 0 60)) [1..<25])"
    unfolding times by (simp add: numeral_eq_Suc)
  then have "map sr_time out ! 0 = map sr_time out ! 1" by simp
  then have "sr_time (out ! 0) = sr_time (out ! 1)" using len by simp
  then show ?thesis using out len by simp
qed

section \<open>Production records\<close>

lemma production_record_ok:
  assumes "production_record t l e be bt dr = Inr r"
  shows "production_ok r"
proof -
  let ?eff = "max 0 (min 100 (be * uniform 0.9 1.1 (pd_efficiency_u dr)))"
  let ?def = "max 0 ((100 - ?eff) / 10 + uniform (- 1) 1 (pd_defect_u dr))"
  from assms have r: "pm_efficiency_score r = py_round ?eff 1"
    "pm_downtime_duration r = py_round 0 1" "pm_defect_rate r = py_round ?def 2"
    by (auto simp: production_record_def Let_def split: if_splits)
  have "0 \<le> py_round ?eff 1" by (rule py_round_nonneg) simp
  moreover have "py_round ?eff 1 \<le> 100" by (rule py_round_le_100) simp
  moreover have "0 \<le> py_round (0 :: real) 1" by (rule py_round_nonneg) simp
  moreover have "0 \<le> py_round ?def 2" by (rule py_round_nonneg) simp
  ultimately show ?thesis unfolding production_ok_def r by simp
qed

lemma production_record_csv_ok:
  assumes "unit_draw (pd_downtime_u dr)"
  shows "production_ok (production_record_csv t l e be bt dr)"
proof -
  let ?eff = "max 0 (min 100 (be * uniform 0.9 1.1 (pd_efficiency_u dr)))"
  let ?prob = "(100 - ?eff) / 100 * 0.3"
  let ?down = "if pd_downtime_trigger_u dr < ?prob
               then uniform 0 15 (pd_downtime_u dr) * ?prob else 0"
  let ?def = "max 0 ((100 - ?eff) / 10 + uniform (- 1) 1 (pd_defect_u dr))"
  have r: "pm_efficiency_score (production_record_csv t l e be bt dr) = py_round ?eff 1"
    "pm_downtime_duration (production_record_csv t l e be bt dr) = py_round ?down 1"
    "pm_defect_rate (production_record_csv t l e be bt dr) = py_round ?def 2"
    by (simp_all add: production_record_csv_def Let_def)
  have prob: "0 \<le> ?prob" by simp
  have u: "0 \<le> uniform 0 15 (pd_downtime_u dr)"
    using assms by (simp add: uniform_def unit_draw_def)
  have down: "0 \<le> ?down" using prob u by (simp add: mult_nonneg_nonneg del: max.bounded_iff)
  have "0 \<le> py_round ?eff 1" by (rule py_round_nonneg) simp
  moreover have "py_round ?eff 1 \<le> 100" by (rule py_round_le_100) simp
  moreover have "0 \<le> py_round ?down 1" using down by (rule py_round_nonneg)
  moreover have "0 \<le> py_round ?def 2" by (rule py_round_nonneg) simp
  ultimately show ?thesis unfolding production_ok_def r by simp
qed

lemma collect_rows:
  "collect xs = Inr rs \<Longrightarrow> r \<in> set rs \<Longrightarrow> Inr r \<in> set xs"
  by (induction xs arbitrary: rs) (auto split: sum.splits)

lemma tick_records_ok:
  assumes "tick_records c t ld dr = Inr rows" "r \<in> set rows"
  shows "production_ok r"
proof -
  from collect_rows [OF assms [unfolded tick_records_def]]
  obtain l i where "Inr r = production_record t (LINES ! l) (line_equipment c (LINES ! l) ! i)
      (base_efficiency t (ld_efficiency_u (ld l))) (base_throughput t (ld_throughput_u (ld l)))
      (dr l i)"
    by (auto simp: line_records_def Let_def)
  then show ?thesis using production_record_ok by metis
qed

lemma production_loop_ok:
  assumes "production_loop c ld dr e m cur k data = Some res"
  shows "(\<forall>r\<in>set data. production_ok r) \<longrightarrow>
         (\<forall>out. res = Inr out \<longrightarrow> (\<forall>r\<in>set out. production_ok r))"
proof (rule production_loop.raw_induct
    [where P = "\<lambda>c ld dr e m cur k data res. (\<forall>r\<in>set data. production_ok r) \<longrightarrow>
         (\<forall>out. res = Inr out \<longrightarrow> (\<forall>r\<in>set out. production_ok r))", OF _ assms])
  fix loop c ld dr e m cur k data res
  assume IH: "\<And>c ld dr e m cur k data res.
        loop c ld dr e m cur k data = Some res \<Longrightarrow>
        (\<forall>r\<in>set data. production_ok r) \<longrightarrow>
         (\<forall>out. res = Inr out \<longrightarrow> (\<forall>r\<in>set out. production_ok r))"
    and eq: "(if cur \<le> e
      then case tick_records c cur (ld k) (dr k) of
           Inl e \<Rightarrow> Some (Inl e)
           | Inr rows \<Rightarrow> loop c ld dr e m (cur + timedelta 0 0 m) (Suc k) (data @ rows)
      else Some (Inr data)) = Some res"
  show "(\<forall>r\<in>set data. production_ok r) \<longrightarrow>
         (\<forall>out. res = Inr out \<longrightarrow> (\<forall>r\<in>set out. production_ok r))"
  proof (cases "cur \<le> e")
    case False
    with eq show ?thesis by auto
  next
    case True
    show ?thesis
    proof (cases "tick_records c cur (ld k) (dr k)")
      case (Inl err)
      with eq True show ?thesis by auto
    next
      case (Inr rows)
      with eq True have "loop c ld dr e m (cur + timedelta 0 0 m) (Suc k) (data @ rows) = Some res"
        by simp
      from IH [OF this] show ?thesis using tick_records_ok [OF Inr] by auto
    qed
  qed
qed

lemma production_loop_terminates:
  assumes "0 < m"
  shows "\<exists>res. production_loop c ld dr e m cur k data = Some res"
proof (induction "nat (e - cur + 1)" arbitrary: cur k data rule: less_induct)
  case less
  show ?case
  proof (cases "cur \<le> e")
    case False
    then show ?thesis by (subst production_loop.simps) simp
  next
    case True
    show ?thesis
    proof (cases "tick_records c cur (ld k) (dr k)")
      case (Inl err)
      then show ?thesis using True by (subst production_loop.simps) simp
    next
      case (Inr rows)
      have "cur < cur + timedelta 0 0 m" using assms by (simp add: timedelta_def)
      with True have "nat (e - (cur + timedelta 0 0 m) + 1) < nat (e - cur + 1)" by simp
      from less [OF this, of "Suc k" "data @ rows"] obtain res where
        "production_loop c ld dr e m (cur + timedelta 0 0 m) (Suc k) (data @ rows) = Some res"
        by blast
      then show ?thesis using True Inr by (subst production_loop.simps) simp
    qed
  qed
qed

text \<open>
  C8. Every production record of a run of the full generator, and every record the CSV
  variant writes, has an efficiency score in [0, 100], a non-negative downtime and a
  non-negative defect rate. A run of the full generator with a positive interval ends, with
  its records or with an exception: a record whose downtime trial succeeds is never produced,
  the run ends there with \<^verbatim>\<open>AttributeError\<close>.
\<close>

theorem production_records_in_range:
  "(generate_production_metrics catalog ld dr start_time end_time interval_minutes
      = Some (Inr out) \<longrightarrow> (\<forall>r\<in>set out. production_ok r))
   \<and> (unit_draw (pd_downtime_u pd) \<longrightarrow>
       production_ok (production_record_csv t line_id equipment_id base_eff base_thr pd))
   \<and> (0 < interval_minutes \<longrightarrow>
       (\<exists>res. generate_production_metrics catalog ld dr start_time end_time interval_minutes
                = Some res))"
  using production_loop_ok [of catalog ld dr end_time interval_minutes start_time 0 "[]" "Inr out"]
    production_record_csv_ok [of pd t line_id equipment_id base_eff base_thr]
    production_loop_terminates [of interval_minutes catalog ld dr end_time start_time 0 "[]"]
  by (simp add: generate_production_metrics_def)

lemma motor_line_equipment:
  "line_equipment [example_motor] ''Line 1'' = [''MOTOR_001'']"
  "line_equipment [example_motor] ''Line 2'' = []"
  by (simp_all add: line_equipment_def example_motor_def mk_config_def)

lemma night_base:
  "base_efficiency 0 (ld_efficiency_u example_line_draws) = 70"
  "base_throughput 0 (ld_throughput_u example_line_draws) = 55"
  by (simp_all add: base_efficiency_def base_throughput_def example_line_draws_def
      hour_saturday uniform_def)

lemma motor_production_record:
  "production_record 0 ''Line 1'' ''MOTOR_001'' 70 55 (example_prod_draws (1 / 2)) =
     Inr \<lparr>pm_time = 0, pm_line_id = ''Line 1'', pm_equipment_id = ''MOTOR_001'',
          pm_cycle_time = 64.3, pm_throughput = 55, pm_efficiency_score = 70,
          pm_energy_consumption = 10.75, pm_downtime_duration = 0, pm_defect_rate = 3\<rparr>"
  by (simp add: production_record_def example_prod_draws_def Let_def uniform_def
      py_round_def round_half_even_def)

lemma motor_production_error:
  "production_record 0 ''Line 1'' ''MOTOR_001'' 70 55 (example_prod_draws 0) = Inl AttributeError"
  by (simp add: production_record_def example_prod_draws_def Let_def uniform_def)

lemma motor_tick_records:
  "tick_records [example_motor] 0 (\<lambda>l. example_line_draws) (\<lambda>l i. example_prod_draws u) =
     collect [production_record 0 ''Line 1'' ''MOTOR_001'' 70 55 (example_prod_draws u)]"
  by (simp add: tick_records_def line_records_def LINES_def Let_def motor_line_equipment
      night_base upt_conv_Cons)

lemma motor_production_run:
  "generate_production_metrics [example_motor] (\<lambda>k l. example_line_draws)
     (\<lambda>k l i. example_prod_draws (1 / 2)) 0 0 1 =
   Some (Inr [\<lparr>pm_time = 0, pm_line_id = ''Line 1'', pm_equipment_id = ''MOTOR_001'',
          pm_cycle_time = 64.3, pm_throughput = 55, pm_efficiency_score = 70,
          pm_energy_consumption = 10.75, pm_downtime_duration = 0, pm_defect_rate = 3\<rparr>])"
  unfolding generate_production_metrics_def
  apply (subst production_loop.simps)
  apply (simp only: motor_tick_records motor_production_record)
  apply (subst production_loop.simps)
  apply (simp add: timedelta_def)
  done

lemma motor_production_run_error:
  "generate_production_metrics [example_motor] (\<lambda>k l. example_line_draws)
     (\<lambda>k l i. example_prod_draws 0) 0 0 1 = Some (Inl AttributeError)"
  unfolding generate_production_metrics_def
  apply (subst production_loop.simps)
  apply (simp only: motor_tick_records motor_production_error)
  apply simp
  done

theorem production_records_in_range_witness:
  "generate_production_metrics [example_motor] (\<lambda>k l. example_line_draws)
     (\<lambda>k l i. example_prod_draws (1 / 2)) 0 0 1 =
   Some (Inr [\<lparr>pm_time = 0, pm_line_id = ''Line 1'', pm_equipment_id = ''MOTOR_001'',
          pm_cycle_time = 64.3, pm_throughput = 55, pm_efficiency_score = 70,
          pm_energy_consumption = 10.75, pm_downtime_duration = 0, pm_defect_rate = 3\<rparr>])
   \<and> production_ok \<lparr>pm_time = 0, pm_line_id = ''Line 1'', pm_equipment_id = ''MOTOR_001'',
          pm_cycle_time = 64.3, pm_throughput = 55, pm_efficiency_score = 70,
          pm_energy_consumption = 10.75, pm_downtime_duration = 0, pm_defect_rate = 3\<rparr>
   \<and> unit_draw (pd_downtime_u (example_prod_draws 0))
   \<and> production_ok (production_record_csv 0 ''Line 1'' ''MOTOR_001'' 70 55 (example_prod_draws 0))"
proof -
  have u: "unit_draw (pd_downtime_u (example_prod_draws 0))"
    by (simp add: example_prod_draws_def unit_draw_def)
  from production_records_in_range [of "[example_motor]" "\<lambda>k l. example_line_draws"
      "\<lambda>k l i. example_prod_draws (1 / 2)" 0 0 1
      "[\<lparr>pm_time = 0, pm_line_id = ''Line 1'', pm_equipment_id = ''MOTOR_001'',
          pm_cycle_time = 64.3, pm_throughput = 55, pm_efficiency_score = 70,
          pm_energy_consumption = 10.75, pm_downtime_duration = 0, pm_defect_rate = 3\<rparr>]"
      "example_prod_draws 0" 0 "''Line 1''" "''MOTOR_001''" 70 55]
  show ?thesis using u motor_production_run by simp
qed

section \<open>Quality-control measurements\<close>

lemma band_testI:
  assumes "qc_measurement r = Some m" "qc_tolerance_min r = Some lo"
    "qc_tolerance_max r = Some hi" "P m lo hi"
  shows "band_test P r"
  using assms by (simp add: band_test_def)

lemma measurement_dimensional:
  "measurement ''dimensional'' res su u =
     (Some (if res = ''pass''
            then float_uniform (fl (10.0 + fl 0.05)) (fl (10.5 - fl 0.05)) u
            else if su < 0.5 then float_uniform (fl (10.0 - fl 0.2)) 10.0 u
            else float_uniform 10.5 (fl (10.5 + fl 0.2)) u),
      Some 10.0, Some 10.5)"
  by (simp add: measurement_def Let_def)

lemma measurement_electrical:
  "measurement ''electrical'' res su u =
     (Some (if res = ''pass'' then float_uniform (fl (45.0 + 1)) (fl (55.0 - 1)) u
            else if su < 0.5 then float_uniform (fl (45.0 - 5)) 45.0 u
            else float_uniform 55.0 (fl (55.0 + 5)) u),
      Some 45.0, Some 55.0)"
  by (simp add: measurement_def Let_def)

lemma sampled_pass_dimensional:
  assumes "unit_draw u"
  shows "10.05 \<le> float_uniform (fl (10.0 + fl 0.05)) (fl (10.5 - fl 0.05)) u
    \<and> float_uniform (fl (10.0 + fl 0.05)) (fl (10.5 - fl 0.05)) u \<le> 10.45"
proof -
  have "2828823515942093 / 2 ^ 48 \<le> float_uniform (2828823515942093 / 2 ^ 48) (2941413506626355 / 2 ^ 48) u
    \<and> float_uniform (2828823515942093 / 2 ^ 48) (2941413506626355 / 2 ^ 48) u \<le> 2941413506626355 / 2 ^ 48"
    by (rule float_uniform_between [OF assms _ dim_pass_width _ dim_pass_width_float
          dim_pass_lo_float dim_pass_top]) simp_all
  then show ?thesis unfolding dim_pass_lo dim_pass_hi by simp
qed

lemma sampled_low_dimensional:
  assumes "unit_draw u"
  shows "9.8 \<le> float_uniform (fl (10.0 - fl 0.2)) 10.0 u
    \<and> float_uniform (fl (10.0 - fl 0.2)) 10.0 u \<le> 10"
proof -
  have "2758454771764429 / 2 ^ 48 \<le> float_uniform (2758454771764429 / 2 ^ 48) 10.0 u
    \<and> float_uniform (2758454771764429 / 2 ^ 48) 10.0 u \<le> 10"
    by (rule float_uniform_between [OF assms _ dim_low_width _ dim_low_width_float
          dim_low_lo_float dim_low_top]) simp_all
  then show ?thesis unfolding dim_low_lo by simp
qed

lemma sampled_high_dimensional:
  assumes "unit_draw u"
  shows "10.5 \<le> float_uniform 10.5 (fl (10.5 + fl 0.2)) u"
proof -
  have "10.5 \<le> float_uniform 10.5 (3011782250804019 / 2 ^ 48) u
    \<and> float_uniform 10.5 (3011782250804019 / 2 ^ 48) u \<le> 3011782250804019 / 2 ^ 48"
    by (rule float_uniform_between [OF assms _ dim_high_width _ dim_high_width_float
          dim_high_lo_float dim_high_top]) simp_all
  then show ?thesis unfolding dim_high_hi by simp
qed

lemma sampled_pass_electrical:
  assumes "unit_draw u"
  shows "46 \<le> float_uniform (fl (45.0 + 1)) (fl (55.0 - 1)) u
    \<and> float_uniform (fl (45.0 + 1)) (fl (55.0 - 1)) u \<le> 54"
  unfolding el_pass_lo el_pass_hi
  by (rule float_uniform_between [OF assms _ el_pass_width _ el_pass_width_float
        el_pass_lo_float el_pass_top]) simp_all

lemma sampled_low_electrical:
  assumes "unit_draw u"
  shows "40 \<le> float_uniform (fl (45.0 - 5)) 45.0 u
    \<and> float_uniform (fl (45.0 - 5)) 45.0 u \<le> 45"
  unfolding el_low_lo
  by (rule float_uniform_between [OF assms _ el_low_width _ el_low_width_float
        el_low_lo_float el_low_top]) simp_all

lemma sampled_high_electrical:
  assumes "unit_draw u"
  shows "55 \<le> float_uniform 55.0 (fl (55.0 + 5)) u"
proof -
  have "55 \<le> float_uniform 55.0 60 u \<and> float_uniform 55.0 60 u \<le> 60"
    by (rule float_uniform_between [OF assms _ el_high_width _ el_low_width_float
          el_high_lo_float el_high_top]) simp_all
  then show ?thesis unfolding el_high_hi by simp
qed

lemmas sampled_pass = sampled_pass_dimensional sampled_pass_electrical

lemmas sampled_fail =
  sampled_low_dimensional sampled_high_dimensional sampled_low_electrical sampled_high_electrical

lemma py_round_band:
  assumes "real_of_int a / 100 \<le> x" "x \<le> real_of_int b / 100"
  shows "real_of_int a / 100 \<le> py_round x 2 \<and> py_round x 2 \<le> real_of_int b / 100"
  using py_round_ge [of a x 2] py_round_le [of x 2 b] assms by (simp add: field_simps)

lemma written_measurement_Some:
  "m \<noteq> 0 \<Longrightarrow> written_measurement (Some m) = Some (py_round m 2)"
  by (simp add: written_measurement_def)

lemma qc_record_fields:
  "qc_test_result (qc_record t b l dr) = (if qd_result_u dr < fl 0.95 then ''pass'' else ''fail'')"
  "qc_measurement (qc_record t b l dr) =
     fst (measurement (qd_test_type dr) (if qd_result_u dr < fl 0.95 then ''pass'' else ''fail'')
            (qd_side_u dr) (qd_measure_u dr))"
  "qc_tolerance_min (qc_record t b l dr) =
     fst (snd (measurement (qd_test_type dr) (if qd_result_u dr < fl 0.95 then ''pass'' else ''fail'')
            (qd_side_u dr) (qd_measure_u dr)))"
  "qc_tolerance_max (qc_record t b l dr) =
     snd (snd (measurement (qd_test_type dr) (if qd_result_u dr < fl 0.95 then ''pass'' else ''fail'')
            (qd_side_u dr) (qd_measure_u dr)))"
  "qc_batch_id (qc_record t b l dr) = b" "qc_time (qc_record t b l dr) = t"
  by (simp_all add: qc_record_def Let_def)

lemma qc_record_csv_fields:
  "qc_test_result (qc_record_csv t b l dr) = (if qd_result_u dr < fl 0.95 then ''pass'' else ''fail'')"
  "qc_measurement (qc_record_csv t b l dr) =
     written_measurement
       (fst (measurement (qd_test_type dr) (if qd_result_u dr < fl 0.95 then ''pass'' else ''fail'')
            (qd_side_u dr) (qd_measure_u dr)))"
  "qc_tolerance_min (qc_record_csv t b l dr) =
     fst (snd (measurement (qd_test_type dr) (if qd_result_u dr < fl 0.95 then ''pass'' else ''fail'')
            (qd_side_u dr) (qd_measure_u dr)))"
  "qc_tolerance_max (qc_record_csv t b l dr) =
     snd (snd (measurement (qd_test_type dr) (if qd_result_u dr < fl 0.95 then ''pass'' else ''fail'')
            (qd_side_u dr) (qd_measure_u dr)))"
  by (simp_all add: qc_record_csv_def Let_def)

lemma measurement_bands:
  assumes "unit_draw u" "ty = ''dimensional'' \<or> ty = ''electrical''"
  shows "\<exists>m lo hi. measurement ty ''pass'' su u = (Some m, Some lo, Some hi)
           \<and> lo < m \<and> m < hi \<and> m \<noteq> 0 \<and> lo < py_round m 2 \<and> py_round m 2 < hi"
    and "\<exists>m lo hi. measurement ty ''fail'' su u = (Some m, Some lo, Some hi)
           \<and> (m \<le> lo \<or> hi \<le> m) \<and> m \<noteq> 0 \<and> (py_round m 2 \<le> lo \<or> hi \<le> py_round m 2)"
proof -
  note p = sampled_pass [OF assms(1)] and f = sampled_fail [OF assms(1)]
  have pd: "1005 / 100 \<le> py_round (float_uniform (fl (10.0 + fl 0.05)) (fl (10.5 - fl 0.05)) u) 2
      \<and> py_round (float_uniform (fl (10.0 + fl 0.05)) (fl (10.5 - fl 0.05)) u) 2 \<le> 1045 / 100"
    using py_round_band [of 1005 _ 1045] p(1) by simp
  have pe: "4600 / 100 \<le> py_round (float_uniform (fl (45.0 + 1)) (fl (55.0 - 1)) u) 2
      \<and> py_round (float_uniform (fl (45.0 + 1)) (fl (55.0 - 1)) u) 2 \<le> 5400 / 100"
    using py_round_band [of 4600 _ 5400] p(2) by simp
  have fd1: "py_round (float_uniform (fl (10.0 - fl 0.2)) 10.0 u) 2 \<le> 1000 / 100"
    using py_round_band [of 980 _ 1000] f(1) by simp
  have fd2: "1050 / 100 \<le> py_round (float_uniform 10.5 (fl (10.5 + fl 0.2)) u) 2"
    using py_round_ge [of 1050 "float_uniform 10.5 (fl (10.5 + fl 0.2)) u" 2] f(2) by simp
  have fe1: "py_round (float_uniform (fl (45.0 - 5)) 45.0 u) 2 \<le> 4500 / 100"
    using py_round_band [of 4000 _ 4500] f(3) by simp
  have fe2: "5500 / 100 \<le> py_round (float_uniform 55.0 (fl (55.0 + 5)) u) 2"
    using py_round_ge [of 5500 "float_uniform 55.0 (fl (55.0 + 5)) u" 2] f(4) by simp
  show "\<exists>m lo hi. measurement ty ''pass'' su u = (Some m, Some lo, Some hi)
           \<and> lo < m \<and> m < hi \<and> m \<noteq> 0 \<and> lo < py_round m 2 \<and> py_round m 2 < hi"
    using assms(2)
  proof
    assume ty: "ty = ''dimensional''"
    show ?thesis unfolding ty measurement_dimensional using p(1) pd
      by (intro exI [of _ "float_uniform (fl (10.0 + fl 0.05)) (fl (10.5 - fl 0.05)) u"] exI [of _ "10.0"]
          exI [of _ "10.5"]) simp
  next
    assume ty: "ty = ''electrical''"
    show ?thesis unfolding ty measurement_electrical using p(2) pe
      by (intro exI [of _ "float_uniform (fl (45.0 + 1)) (fl (55.0 - 1)) u"] exI [of _ "45.0"]
          exI [of _ "55.0"]) simp
  qed
  show "\<exists>m lo hi. measurement ty ''fail'' su u = (Some m, Some lo, Some hi)
           \<and> (m \<le> lo \<or> hi \<le> m) \<and> m \<noteq> 0 \<and> (py_round m 2 \<le> lo \<or> hi \<le> py_round m 2)"
    using assms(2)
  proof
    assume ty: "ty = ''dimensional''"
    show ?thesis
    proof (cases "su < 0.5")
      case True
      then show ?thesis unfolding ty measurement_dimensional using f(1) fd1
        by (intro exI [of _ "float_uniform (fl (10.0 - fl 0.2)) 10.0 u"] exI [of _ "10.0"]
            exI [of _ "10.5"]) simp
    next
      case False
      then show ?thesis unfolding ty measurement_dimensional using f(2) fd2
        by (intro exI [of _ "float_uniform 10.5 (fl (10.5 + fl 0.2)) u"] exI [of _ "10.0"]
            exI [of _ "10.5"]) simp
    qed
  next
    assume ty: "ty = ''electrical''"
    show ?thesis
    proof (cases "su < 0.5")
      case True
      then show ?thesis unfolding ty measurement_electrical using f(3) fe1
        by (intro exI [of _ "float_uniform (fl (45.0 - 5)) 45.0 u"] exI [of _ "45.0"]
            exI [of _ "55.0"]) simp
    next
      case False
      then show ?thesis unfolding ty measurement_electrical using f(4) fe2
        by (intro exI [of _ "float_uniform 55.0 (fl (55.0 + 5)) u"] exI [of _ "45.0"]
            exI [of _ "55.0"]) simp
    qed
  qed
qed

lemma qc_record_band:
  assumes "unit_draw (qd_measure_u dr)"
    "qd_test_type dr = ''dimensional'' \<or> qd_test_type dr = ''electrical''"
  shows "qd_result_u dr < fl 0.95 \<Longrightarrow>
           qc_test_result (qc_record t b l dr) = ''pass'' \<and> strictly_within (qc_record t b l dr)"
    and "\<not> qd_result_u dr < fl 0.95 \<Longrightarrow>
           qc_test_result (qc_record t b l dr) = ''fail''
           \<and> not_inside (qc_record t b l dr)"
proof -
  assume res: "qd_result_u dr < fl 0.95"
  from measurement_bands(1) [OF assms, of "qd_side_u dr"] obtain m lo hi where
    "measurement (qd_test_type dr) ''pass'' (qd_side_u dr) (qd_measure_u dr) = (Some m, Some lo, Some hi)"
    "lo < m" "m < hi" by blast
  then show "qc_test_result (qc_record t b l dr) = ''pass'' \<and> strictly_within (qc_record t b l dr)"
    using res by (simp add: qc_record_fields strictly_within_def band_test_def)
next
  assume res: "\<not> qd_result_u dr < fl 0.95"
  from measurement_bands(2) [OF assms, of "qd_side_u dr"] obtain m lo hi where
    "measurement (qd_test_type dr) ''fail'' (qd_side_u dr) (qd_measure_u dr) = (Some m, Some lo, Some hi)"
    "m \<le> lo \<or> hi \<le> m" by blast
  then show "qc_test_result (qc_record t b l dr) = ''fail''
           \<and> not_inside (qc_record t b l dr)"
    using res by (simp add: qc_record_fields not_inside_def band_test_def)
qed

lemma qc_record_csv_band:
  assumes "unit_draw (qd_measure_u dr)"
    "qd_test_type dr = ''dimensional'' \<or> qd_test_type dr = ''electrical''"
  shows "qd_result_u dr < fl 0.95 \<Longrightarrow>
           qc_test_result (qc_record_csv t b l dr) = ''pass''
           \<and> strictly_within (qc_record_csv t b l dr)"
    and "\<not> qd_result_u dr < fl 0.95 \<Longrightarrow>
           qc_test_result (qc_record_csv t b l dr) = ''fail''
           \<and> not_inside (qc_record_csv t b l dr)"
proof -
  assume res: "qd_result_u dr < fl 0.95"
  from measurement_bands(1) [OF assms, of "qd_side_u dr"] obtain m lo hi where
    "measurement (qd_test_type dr) ''pass'' (qd_side_u dr) (qd_measure_u dr) = (Some m, Some lo, Some hi)"
    "m \<noteq> 0" "lo < py_round m 2" "py_round m 2 < hi" by blast
  then show "qc_test_result (qc_record_csv t b l dr) = ''pass''
           \<and> strictly_within (qc_record_csv t b l dr)"
    using res
    by (simp add: qc_record_csv_fields strictly_within_def band_test_def written_measurement_Some)
next
  assume res: "\<not> qd_result_u dr < fl 0.95"
  from measurement_bands(2) [OF assms, of "qd_side_u dr"] obtain m lo hi where
    "measurement (qd_test_type dr) ''fail'' (qd_side_u dr) (qd_measure_u dr) = (Some m, Some lo, Some hi)"
    "m \<noteq> 0" "py_round m 2 \<le> lo \<or> hi \<le> py_round m 2" by blast
  then show "qc_test_result (qc_record_csv t b l dr) = ''fail''
           \<and> not_inside (qc_record_csv t b l dr)"
    using res
    by (simp add: qc_record_csv_fields not_inside_def band_test_def written_measurement_Some)
qed

section \<open>Batch identifiers\<close>

lemma digit_val_digit: "d < 10 \<Longrightarrow> digit_val (''0123456789'' ! d) = d"
proof -
  assume "d < 10"
  then have "d \<in> {0, 1, 2, 3, 4, 5, 6, 7, 8, 9}" by auto
  then show ?thesis by (auto simp: digit_val_def)
qed

lemma parse_digits_append:
  "parse_digits acc (xs @ ys) = parse_digits (parse_digits acc xs) ys"
  by (simp add: parse_digits_def)

lemma parse_digits_decimal: "parse_digits 0 (decimal n) = n"
proof (induction n rule: decimal.induct)
  case (1 n)
  show ?case
  proof (cases "n < 10")
    case True
    then show ?thesis
      by (subst decimal.simps) (simp add: parse_digits_def digit_val_digit)
  next
    case False
    then have "parse_digits 0 (decimal (n div 10)) = n div 10" using 1 by simp
    then have "parse_digits 0 (decimal (n div 10) @ [''0123456789'' ! (n mod 10)])
        = 10 * (n div 10) + n mod 10"
      unfolding parse_digits_append by (simp add: parse_digits_def digit_val_digit)
    then show ?thesis using False by (subst decimal.simps) simp
  qed
qed

lemma parse_digits_zeros: "parse_digits 0 (replicate k (CHR ''0'') @ s) = parse_digits 0 s"
proof -
  have "parse_digits 0 (replicate k (CHR ''0'')) = 0"
    by (induction k) (simp_all add: parse_digits_def digit_val_def)
  then show ?thesis by (simp add: parse_digits_append)
qed

lemma batch_number_batch_id_of: "batch_number (batch_id_of n) = n"
  by (simp add: batch_number_def batch_id_of_def format_06d_def parse_digits_zeros
      parse_digits_decimal)

lemma batch_id_of_inj: "inj batch_id_of"
  by (rule inj_on_inverseI [where g = batch_number]) (rule batch_number_batch_id_of)

lemma batch_id_of_1000: "batch_id_of 1000 = ''BATCH_001000''"
  by (simp add: batch_id_of_def format_06d_def decimal.simps numeral_2_eq_2)

section \<open>The quality-control loop\<close>

lemma upt_step: "[a..<a + Suc n] = a # [Suc a..<Suc a + n]"
  by (simp add: upt_rec)

lemma map_upt_append:
  "map f [a..<a + m] @ map f [a + m..<a + m + n] = map f [a..<a + (m + (n :: nat))]"
  by (metis map_append upt_add_eq_append le_add1 add.assoc)

lemma qc_lines_ids:
  "fst (qc_lines t ls dr i bc) = bc + length (snd (qc_lines t ls dr i bc))
   \<and> map qc_batch_id (snd (qc_lines t ls dr i bc))
       = map batch_id_of [bc..<bc + length (snd (qc_lines t ls dr i bc))]"
proof (induction ls arbitrary: i bc)
  case Nil
  show ?case by simp
next
  case (Cons l ls)
  show ?case
  proof (cases "qd_test_u (dr i) < fl 0.7")
    case True
    let ?rest = "qc_lines t ls dr (Suc i) (bc + 1)"
    have step: "qc_lines t (l # ls) dr i bc
        = (fst ?rest, qc_record t (batch_id_of bc) l (dr i) # snd ?rest)"
      using True by (simp add: Let_def)
    from Cons [of "Suc i" "bc + 1"] have
      f: "fst ?rest = bc + 1 + length (snd ?rest)"
      and m: "map qc_batch_id (snd ?rest) = map batch_id_of [Suc bc..<Suc bc + length (snd ?rest)]"
      by simp_all
    have "map qc_batch_id (snd (qc_lines t (l # ls) dr i bc))
        = batch_id_of bc # map batch_id_of [Suc bc..<Suc bc + length (snd ?rest)]"
      unfolding step using m by (simp add: qc_record_fields)
    also have "\<dots> = map batch_id_of [bc..<bc + Suc (length (snd ?rest))]"
      unfolding upt_step by simp
    finally show ?thesis unfolding step using f by simp
  next
    case False
    from Cons [of "Suc i" bc] False show ?thesis by simp
  qed
qed

lemma qc_lines_times:
  "\<forall>r\<in>set (snd (qc_lines t ls dr i bc)). qc_time r = t"
  by (induction ls arbitrary: i bc) (auto simp: Let_def qc_record_fields)

lemma qc_loop_ids:
  assumes "qc_loop e gap dr cur bc k data = Some out"
  shows "\<exists>rows. out = data @ rows
           \<and> map qc_batch_id rows = map batch_id_of [bc..<bc + length rows]"
proof (rule qc_loop.raw_induct
    [where P = "\<lambda>e gap dr cur bc k data out. \<exists>rows. out = data @ rows
           \<and> map qc_batch_id rows = map batch_id_of [bc..<bc + length rows]", OF _ assms])
  fix loop e gap dr cur bc k data out
  assume IH: "\<And>e gap dr cur bc k data out.
        loop e gap dr cur bc k data = Some out \<Longrightarrow>
        \<exists>rows. out = data @ rows
           \<and> map qc_batch_id rows = map batch_id_of [bc..<bc + length rows]"
    and eq: "(if cur \<le> e
      then if e < cur + timedelta 0 0 (gap k) then Some data
           else loop e gap dr (cur + timedelta 0 0 (gap k))
                 (fst (qc_lines (cur + timedelta 0 0 (gap k)) LINES (dr k) 0 bc))
                 (Suc k)
                 (data @ snd (qc_lines (cur + timedelta 0 0 (gap k)) LINES (dr k) 0 bc))
      else Some data) = Some out"
  let ?t = "cur + timedelta 0 0 (gap k)"
  let ?new = "snd (qc_lines ?t LINES (dr k) 0 bc)"
  show "\<exists>rows. out = data @ rows
           \<and> map qc_batch_id rows = map batch_id_of [bc..<bc + length rows]"
  proof (cases "cur \<le> e \<and> \<not> e < ?t")
    case False
    with eq have "out = data" by (auto split: if_splits)
    then show ?thesis by simp
  next
    case True
    with eq have "loop e gap dr ?t (fst (qc_lines ?t LINES (dr k) 0 bc)) (Suc k) (data @ ?new)
        = Some out" by simp
    from IH [OF this] obtain rows where out: "out = (data @ ?new) @ rows"
      and ids: "map qc_batch_id rows =
        map batch_id_of [fst (qc_lines ?t LINES (dr k) 0 bc)
                         ..<fst (qc_lines ?t LINES (dr k) 0 bc) + length rows]"
      by blast
    note l = qc_lines_ids [of ?t LINES "dr k" 0 bc]
    have "map qc_batch_id (?new @ rows) =
        map batch_id_of [bc..<bc + length ?new]
        @ map batch_id_of [bc + length ?new..<bc + length ?new + length rows]"
      using l ids by simp
    also have "\<dots> = map batch_id_of [bc..<bc + (length ?new + length rows)]"
      by (rule map_upt_append)
    finally have "map qc_batch_id (?new @ rows) = map batch_id_of [bc..<bc + length (?new @ rows)]"
      by simp
    then show ?thesis using out by (intro exI [of _ "?new @ rows"]) simp
  qed
qed

lemma qc_loop_terminates:
  assumes "\<forall>k. 0 < gap k"
  shows "\<exists>out. qc_loop e gap dr cur bc k data = Some out"
proof (induction "nat (e - cur + 1)" arbitrary: cur bc k data rule: less_induct)
  case less
  let ?t = "cur + timedelta 0 0 (gap k)"
  show ?case
  proof (cases "cur \<le> e \<and> \<not> e < ?t")
    case False
    then show ?thesis by (subst qc_loop.simps) auto
  next
    case True
    have "cur < ?t" using assms by (simp add: timedelta_def)
    with True have "nat (e - ?t + 1) < nat (e - cur + 1)" by simp
    from less [OF this] obtain out where
      "qc_loop e gap dr ?t (fst (qc_lines ?t LINES (dr k) 0 bc)) (Suc k)
         (data @ snd (qc_lines ?t LINES (dr k) 0 bc)) = Some out"
      by blast
    then show ?thesis using True by (subst qc_loop.simps) simp
  qed
qed

lemma qc_short_window:
  assumes "e < s + timedelta 0 0 (gap 0)"
  shows "generate_quality_control_data gap dr s e = Some []"
  unfolding generate_quality_control_data_def using assms
  by (subst qc_loop.simps) simp

lemma generate_quality_control_data_ids:
  assumes "generate_quality_control_data gap dr s e = Some out"
  shows "map qc_batch_id out = map batch_id_of [1000..<1000 + length out]"
  using qc_loop_ids [OF assms [unfolded generate_quality_control_data_def]] by auto

lemma qc_lines_rows:
  "r \<in> set (snd (qc_lines t ls d i bc)) \<Longrightarrow> \<exists>b l i'. r = qc_record t b l (d i')"
  by (induction ls arbitrary: i bc) (auto simp: Let_def split: if_splits)

lemma qc_loop_rows:
  assumes "qc_loop e gap dr cur bc k data = Some out"
  shows "\<forall>r\<in>set out. r \<in> set data \<or> (\<exists>t b l k i. r = qc_record t b l (dr k i))"
proof (rule qc_loop.raw_induct
    [where P = "\<lambda>e gap dr cur bc k data out.
       \<forall>r\<in>set out. r \<in> set data \<or> (\<exists>t b l k i. r = qc_record t b l (dr k i))", OF _ assms])
  fix loop e gap dr cur bc k data out
  assume IH: "\<And>e gap dr cur bc k data out.
        loop e gap dr cur bc k data = Some out \<Longrightarrow>
        \<forall>r\<in>set out. r \<in> set data \<or> (\<exists>t b l k i. r = qc_record t b l (dr k i))"
    and eq: "(if cur \<le> e
      then if e < cur + timedelta 0 0 (gap k) then Some data
           else loop e gap dr (cur + timedelta 0 0 (gap k))
                 (fst (qc_lines (cur + timedelta 0 0 (gap k)) LINES (dr k) 0 bc))
                 (Suc k)
                 (data @ snd (qc_lines (cur + timedelta 0 0 (gap k)) LINES (dr k) 0 bc))
      else Some data) = Some out"
  let ?t = "cur + timedelta 0 0 (gap k)"
  show "\<forall>r\<in>set out. r \<in> set data \<or> (\<exists>t b l k i. r = qc_record t b l (dr k i))"
  proof (cases "cur \<le> e \<and> \<not> e < ?t")
    case False
    with eq have "out = data" by (auto split: if_splits)
    then show ?thesis by simp
  next
    case True
    with eq have "loop e gap dr ?t (fst (qc_lines ?t LINES (dr k) 0 bc)) (Suc k)
        (data @ snd (qc_lines ?t LINES (dr k) 0 bc)) = Some out" by simp
    from IH [OF this] show ?thesis
      using qc_lines_rows [of _ ?t LINES "dr k" 0 bc] by fastforce
  qed
qed

lemma generate_quality_control_data_rows:
  assumes "generate_quality_control_data gap dr s e = Some out" "r \<in> set out"
  obtains t b l k i where "r = qc_record t b l (dr k i)"
  using qc_loop_rows [OF assms(1) [unfolded generate_quality_control_data_def]] assms(2)
  by auto

text \<open>
  C9. When every gap between two tests is an outcome of \<^verbatim>\<open>random.randint(30, 180)\<close>, the
  quality-control generator returns, and the batch ids of its records, in emission order,
  spell the counters 1000, 1001, 1002, ... without a gap: the counters are strictly
  increasing and no batch id occurs twice.
\<close>

theorem batch_ids_increasing:
  assumes "\<forall>k. 30 \<le> gap k \<and> gap k \<le> 180"
  shows "\<exists>out. generate_quality_control_data gap dr start_time end_time = Some out
     \<and> map qc_batch_id out = map batch_id_of [1000..<1000 + length out]
     \<and> map (\<lambda>r. batch_number (qc_batch_id r)) out = [1000..<1000 + length out]
     \<and> sorted_wrt (<) (map (\<lambda>r. batch_number (qc_batch_id r)) out)
     \<and> distinct (map qc_batch_id out)"
proof -
  have "\<forall>k. 0 < gap k" using assms by (auto intro: less_le_trans [of 0 30])
  from qc_loop_terminates [OF this] obtain out where
    out: "generate_quality_control_data gap dr start_time end_time = Some out"
    unfolding generate_quality_control_data_def by blast
  note ids = generate_quality_control_data_ids [OF out]
  have "map (\<lambda>r. batch_number (qc_batch_id r)) out = map batch_number (map qc_batch_id out)"
    by simp
  also have "\<dots> = [1000..<1000 + length out]"
    unfolding ids by (simp add: batch_number_batch_id_of comp_def)
  finally have nums: "map (\<lambda>r. batch_number (qc_batch_id r)) out = [1000..<1000 + length out]" .
  have "sorted_wrt (<) (map (\<lambda>r. batch_number (qc_batch_id r)) out)"
    unfolding nums by simp
  moreover have "distinct (map qc_batch_id out)"
    unfolding ids by (simp add: distinct_map inj_on_subset [OF batch_id_of_inj])
  ultimately show ?thesis using out ids nums by blast
qed

lemma batch_id_of_1001: "batch_id_of 1001 = ''BATCH_001001''"
  by (simp add: batch_id_of_def format_06d_def decimal.simps numeral_2_eq_2)

lemma example_qc_run:
  "generate_quality_control_data example_gap (\<lambda>k i. example_qc_draws ty ru su u) 0
     (timedelta 0 1 0)
   = Some [qc_record (timedelta 0 1 0) (batch_id_of 1000) ''Line 1'' (example_qc_draws ty ru su u),
           qc_record (timedelta 0 1 0) (batch_id_of 1001) ''Line 2'' (example_qc_draws ty ru su u)]"
proof -
  have t: "0 + timedelta 0 0 (example_gap k) = timedelta 0 1 0" for k
    by (simp add: example_gap_def timedelta_def)
  have "qd_test_u (example_qc_draws ty ru su u) < fl 0.7" by (simp add: example_qc_draws_def)
  then have lines: "qc_lines (timedelta 0 1 0) LINES (\<lambda>i. example_qc_draws ty ru su u) 0 1000
      = (1002, [qc_record (timedelta 0 1 0) (batch_id_of 1000) ''Line 1''
                  (example_qc_draws ty ru su u),
                qc_record (timedelta 0 1 0) (batch_id_of 1001) ''Line 2''
                  (example_qc_draws ty ru su u)])"
    by (simp add: LINES_def Let_def)
  show ?thesis
    unfolding generate_quality_control_data_def
    apply (subst qc_loop.simps)
    apply (simp only: t lines fst_conv snd_conv append_Nil)
    apply (subst qc_loop.simps)
    apply (simp add: timedelta_def example_gap_def)
    done
qed

theorem batch_ids_increasing_witness:
  "(\<forall>k. 30 \<le> example_gap k \<and> example_gap k \<le> 180)
   \<and> (\<exists>out. generate_quality_control_data example_gap (\<lambda>k i. example_qc_draws ''visual'' 0 0 0) 0
              (timedelta 0 1 0) = Some out
         \<and> map qc_batch_id out = [''BATCH_001000'', ''BATCH_001001'']
         \<and> map (\<lambda>r. batch_number (qc_batch_id r)) out = [1000, 1001]
         \<and> distinct (map qc_batch_id out))"
proof -
  have g: "\<forall>k. 30 \<le> example_gap k \<and> example_gap k \<le> 180" by (simp add: example_gap_def)
  from batch_ids_increasing [OF g, of "\<lambda>k i. example_qc_draws ''visual'' 0 0 0" 0 "timedelta 0 1 0"]
  obtain out where out: "generate_quality_control_data example_gap
        (\<lambda>k i. example_qc_draws ''visual'' 0 0 0) 0 (timedelta 0 1 0) = Some out"
    and ids: "map qc_batch_id out = map batch_id_of [1000..<1000 + length out]"
    and nums: "map (\<lambda>r. batch_number (qc_batch_id r)) out = [1000..<1000 + length out]"
    and d: "distinct (map qc_batch_id out)" by blast
  from out have len: "length out = 2" unfolding example_qc_run by auto
  have upt: "[1000..<1000 + 2] = [1000, 1001 :: nat]" by (simp add: upt_rec)
  show ?thesis using g out ids nums d unfolding len upt
    by (simp add: batch_id_of_1000 batch_id_of_1001)
qed

section \<open>Windows that end at or before their start\<close>

lemma generate_sensor_data_same_instant:
  assumes "0 < m"
  shows "generate_sensor_data c init dr t t m =
     Some (tick_rows c (map (\<lambda>j. init_state (init j)) [0..<length c]) t t (dr 0))"
proof -
  have "tick_count t t m = 1" using assms by (simp add: tick_count_def)
  then show ?thesis
    unfolding generate_sensor_data_def sensor_loop_closed [OF assms] by simp
qed

lemma length_tick_rows: "length (tick_rows c sts s t d) = sum_list (map readings_per_tick c)"
  using arg_cong [OF tick_rows_times [of c sts s t d], of length] by simp

text \<open>
  C5 (amended). No generator checks its time window and none reports an error for it. For
  a window that ends before it starts the sensor generator returns the empty list; for a
  window that ends at its start it returns one tick of readings, as many rows as the catalog
  has readings per tick. The quality-control generator returns the empty list for every
  window that ends at or before its start (the first test would fall after the end).
\<close>

theorem empty_window_not_rejected:
  "(end_time < start_time \<longrightarrow>
      generate_sensor_data catalog init draws start_time end_time interval_minutes = Some [])
   \<and> (0 < interval_minutes \<longrightarrow>
      generate_sensor_data catalog init draws t t interval_minutes =
        Some (tick_rows catalog (map (\<lambda>j. init_state (init j)) [0..<length catalog]) t t
               (draws 0))
      \<and> length (tick_rows catalog (map (\<lambda>j. init_state (init j)) [0..<length catalog]) t t
               (draws 0)) = sum_list (map readings_per_tick catalog))
   \<and> (end_time \<le> start_time \<and> 30 \<le> gap 0 \<longrightarrow>
      generate_quality_control_data gap qdr start_time end_time = Some [])"
proof (intro conjI impI)
  assume "end_time < start_time"
  then show "generate_sensor_data catalog init draws start_time end_time interval_minutes = Some []"
    unfolding generate_sensor_data_def by (rule sensor_loop_empty_window)
next
  assume "0 < interval_minutes"
  then show "generate_sensor_data catalog init draws t t interval_minutes =
        Some (tick_rows catalog (map (\<lambda>j. init_state (init j)) [0..<length catalog]) t t
               (draws 0))"
    by (rule generate_sensor_data_same_instant)
next
  show "length (tick_rows catalog (map (\<lambda>j. init_state (init j)) [0..<length catalog]) t t
               (draws 0)) = sum_list (map readings_per_tick catalog)"
    by (rule length_tick_rows)
next
  assume "end_time \<le> start_time \<and> 30 \<le> gap 0"
  then have "end_time < start_time + timedelta 0 0 (gap 0)" by (simp add: timedelta_def)
  then show "generate_quality_control_data gap qdr start_time end_time = Some []"
    by (rule qc_short_window)
qed

theorem empty_window_not_rejected_witness:
  "generate_sensor_data [example_hvac] (\<lambda>j. (0, 0)) (\<lambda>k j. example_draws 0 0) 0 (- 1) 1 = Some []
   \<and> generate_sensor_data [example_hvac] (\<lambda>j. (0, 0)) (\<lambda>k j. example_draws 0 0) 0 0 1
     = Some (tick_rows [example_hvac] [init_state (0, 0)] 0 0 (\<lambda>j. example_draws 0 0))
   \<and> length (tick_rows [example_hvac] [init_state (0, 0)] 0 0 (\<lambda>j. example_draws 0 0)) = 3
   \<and> generate_quality_control_data example_gap (\<lambda>k i. example_qc_draws ''visual'' 0 0 0) 0 0
     = Some []"
  using empty_window_not_rejected [of "- 1" 0 "[example_hvac]" "\<lambda>j. (0, 0)"
      "\<lambda>k j. example_draws 0 0" 1 0 example_gap "\<lambda>k i. example_qc_draws ''visual'' 0 0 0"]
    empty_window_not_rejected [of 0 0 "[example_hvac]" "\<lambda>j. (0, 0)"
      "\<lambda>k j. example_draws 0 0" 1 0 example_gap "\<lambda>k i. example_qc_draws ''visual'' 0 0 0"]
  by (simp add: example_gap_def readings_per_tick_def example_hvac_def mk_config_def)

text \<open>
  C5 as stated fails: a window that ends at its start is not rejected, the sensor generator
  returns three readings of the HVAC unit for it; and a window that ends before its start
  makes it return the empty list like any other result.
\<close>

theorem window_not_checked_counterexample:
  "generate_sensor_data [example_hvac] (\<lambda>j. (0, 0)) (\<lambda>k j. example_draws 0 0) 0 0 1
     = Some [mk_row 0 ''HVAC_001'' ''temperature'' 21 ''celsius'' ''normal'',
             mk_row 0 ''HVAC_001'' ''vibration'' 1.5 ''hz'' ''normal'',
             mk_row 0 ''HVAC_001'' ''humidity'' 45 ''percent'' ''normal'']
   \<and> generate_sensor_data [example_hvac] (\<lambda>j. (0, 0)) (\<lambda>k j. example_draws 0 0) 0 (- 1) 1
     = Some []"
proof -
  have "generate_sensor_data [example_hvac] (\<lambda>j. (0, 0)) (\<lambda>k j. example_draws 0 0) 0 (- 1) 1
     = Some []"
    unfolding generate_sensor_data_def by (rule sensor_loop_empty_window) simp
  then show ?thesis by (simp add: generate_sensor_data_one_tick hvac_rows)
qed

section \<open>Maintenance events\<close>

lemma preventive_times_append:
  "preventive_times (xs @ ys) = preventive_times xs @ preventive_times ys"
  by (simp add: preventive_times_def)

lemma events_of_append: "events_of eq (xs @ ys) = events_of eq xs @ events_of eq ys"
  by (simp add: events_of_def)

lemma preventive_event_fields:
  "mt_time (preventive_event t eq ps) = t" "mt_equipment_id (preventive_event t eq ps) = eq"
  "mt_maintenance_type (preventive_event t eq ps) = ''preventive''"
  by (simp_all add: preventive_event_def Let_def)

lemma corrective_event_fields:
  "mt_time (corrective_event t eq fd) = t" "mt_equipment_id (corrective_event t eq fd) = eq"
  "mt_maintenance_type (corrective_event t eq fd) = ''corrective''"
  "mt_time (corrective_event_csv t eq fd) = t" "mt_equipment_id (corrective_event_csv t eq fd) = eq"
  "mt_maintenance_type (corrective_event_csv t eq fd) = ''corrective''"
  by (simp_all add: corrective_event_def corrective_event_csv_def Let_def)

lemma fault_scan_row:
  assumes "r \<in> set (fault_scan s e eq cur fd)"
  obtains day where "day \<in> set (trial_days s cur)" "fd_trial_u (fd day) < fl 0.02"
    "s + timedelta day (fd_hour (fd day)) 0 \<le> e"
    "r = corrective_event (s + timedelta day (fd_hour (fd day)) 0) eq (fd day)"
  using assms unfolding fault_scan_def Let_def by (auto split: if_splits)

lemma fault_scan_csv_row:
  assumes "r \<in> set (fault_scan_csv e eq cur fd)"
  obtains week t where "r = corrective_event_csv t eq (fd week)"
  using assms unfolding fault_scan_csv_def Let_def by (auto split: if_splits)

lemma fault_scan_corrective:
  "r \<in> set (fault_scan s e eq cur fd) \<Longrightarrow>
     mt_maintenance_type r = ''corrective'' \<and> mt_equipment_id r = eq"
  by (erule fault_scan_row) (simp add: corrective_event_fields)

lemma fault_scan_csv_corrective:
  "r \<in> set (fault_scan_csv e eq cur fd) \<Longrightarrow>
     mt_maintenance_type r = ''corrective'' \<and> mt_equipment_id r = eq"
  by (erule fault_scan_csv_row) (simp add: corrective_event_fields)

lemma preventive_times_corrective:
  assumes "\<forall>r\<in>set rows. mt_maintenance_type r = ''corrective''"
  shows "preventive_times rows = []"
  using assms by (auto simp: preventive_times_def filter_empty_conv)

lemma pass_events_preventive:
  "preventive_times (pass_events s e eq cur ps) =
     (if cur + timedelta (ps_interval ps) 0 0 \<le> e then [cur + timedelta (ps_interval ps) 0 0] else [])"
proof -
  have "preventive_times (fault_scan s e eq cur (ps_faults ps)) = []"
    by (rule preventive_times_corrective) (simp add: fault_scan_corrective)
  then show ?thesis
    by (simp add: pass_events_def Let_def preventive_times_append)
       (simp add: preventive_times_def preventive_event_fields)
qed

lemma pass_events_csv_preventive:
  "preventive_times (pass_events_csv e eq cur ps) =
     (if cur + timedelta (ps_interval ps) 0 0 \<le> e then [cur + timedelta (ps_interval ps) 0 0] else [])"
proof -
  have "preventive_times (fault_scan_csv e eq cur (ps_faults ps)) = []"
    by (rule preventive_times_corrective) (simp add: fault_scan_csv_corrective)
  then show ?thesis
    by (simp add: pass_events_csv_def Let_def preventive_times_append)
       (simp add: preventive_times_def preventive_event_fields)
qed

lemma pass_events_equipment:
  "r \<in> set (pass_events s e eq cur ps) \<Longrightarrow> mt_equipment_id r = eq"
  by (auto simp: pass_events_def Let_def preventive_event_fields fault_scan_corrective
      split: if_splits)

lemma pass_events_csv_equipment:
  "r \<in> set (pass_events_csv e eq cur ps) \<Longrightarrow> mt_equipment_id r = eq"
  by (auto simp: pass_events_csv_def Let_def preventive_event_fields fault_scan_csv_corrective
      split: if_splits)

lemma gap_ok_interval:
  "28 \<le> d \<Longrightarrow> d \<le> 35 \<Longrightarrow> gap_ok cur (cur + timedelta d 0 0)"
  by (simp add: gap_ok_def timedelta_def)

lemma chain_from_step:
  assumes new: "preventive_times new = (if mt \<le> e then [mt] else [])"
    and rest: "chain_from mt rows" "e < mt \<longrightarrow> rows = []"
    and gap: "gap_ok cur mt"
  shows "chain_from cur (new @ rows)"
proof (cases "mt \<le> e")
  case True
  then have "preventive_times (new @ rows) = mt # preventive_times rows"
    using new by (simp add: preventive_times_append)
  then show ?thesis using rest(1) gap
    by (auto simp: chain_from_def successively_Cons)
next
  case False
  then have "preventive_times (new @ rows) = []"
    using new rest(2) by (simp add: preventive_times_append preventive_times_def)
  then show ?thesis by (simp add: chain_from_def)
qed

lemma maint_loop_chain:
  assumes "\<forall>k. 28 \<le> ps_interval (ps k) \<and> ps_interval (ps k) \<le> 35"
  shows "\<exists>rows. maint_loop s e eq ps cur k data = Some (data @ rows)
     \<and> (\<forall>r\<in>set rows. mt_equipment_id r = eq) \<and> chain_from cur rows
     \<and> (e < cur \<longrightarrow> rows = [])"
proof (induction "nat (e - cur + 1)" arbitrary: cur k data rule: less_induct)
  case less
  show ?case
  proof (cases "cur \<le> e")
    case False
    then have "maint_loop s e eq ps cur k data = Some (data @ [])"
      by (subst maint_loop.simps) simp
    then show ?thesis by (intro exI [of _ "[]"]) (simp add: chain_from_def preventive_times_def)
  next
    case True
    let ?mt = "cur + timedelta (ps_interval (ps k)) 0 0"
    let ?new = "pass_events s e eq cur (ps k)"
    have d: "28 \<le> ps_interval (ps k)" "ps_interval (ps k) \<le> 35" using assms by simp_all
    then have "cur < ?mt" by (simp add: timedelta_def)
    with True have "nat (e - ?mt + 1) < nat (e - cur + 1)" by simp
    from less [OF this, of "Suc k" "data @ ?new"] obtain rows where
      run: "maint_loop s e eq ps ?mt (Suc k) (data @ ?new) = Some ((data @ ?new) @ rows)"
      and ids: "\<forall>r\<in>set rows. mt_equipment_id r = eq"
      and chain: "chain_from ?mt rows" and stop: "e < ?mt \<longrightarrow> rows = []"
      by blast
    have "maint_loop s e eq ps cur k data = Some (data @ (?new @ rows))"
      using True run by (subst maint_loop.simps) simp
    moreover have "\<forall>r\<in>set (?new @ rows). mt_equipment_id r = eq"
      using ids pass_events_equipment by auto
    moreover have "chain_from cur (?new @ rows)"
      using pass_events_preventive chain stop gap_ok_interval [OF d]
      by (rule chain_from_step)
    ultimately show ?thesis using True by (intro exI [of _ "?new @ rows"]) simp
  qed
qed

lemma maint_loop_csv_chain:
  assumes "\<forall>k. 28 \<le> ps_interval (ps k) \<and> ps_interval (ps k) \<le> 35"
  shows "\<exists>rows. maint_loop_csv e eq ps cur k data = Some (data @ rows)
     \<and> (\<forall>r\<in>set rows. mt_equipment_id r = eq) \<and> chain_from cur rows
     \<and> (e < cur \<longrightarrow> rows = [])"
proof (induction "nat (e - cur + 1)" arbitrary: cur k data rule: less_induct)
  case less
  show ?case
  proof (cases "cur \<le> e")
    case False
    then have "maint_loop_csv e eq ps cur k data = Some (data @ [])"
      by (subst maint_loop_csv.simps) simp
    then show ?thesis by (intro exI [of _ "[]"]) (simp add: chain_from_def preventive_times_def)
  next
    case True
    let ?mt = "cur + timedelta (ps_interval (ps k)) 0 0"
    let ?new = "pass_events_csv e eq cur (ps k)"
    have d: "28 \<le> ps_interval (ps k)" "ps_interval (ps k) \<le> 35" using assms by simp_all
    then have "cur < ?mt" by (simp add: timedelta_def)
    with True have "nat (e - ?mt + 1) < nat (e - cur + 1)" by simp
    from less [OF this, of "Suc k" "data @ ?new"] obtain rows where
      run: "maint_loop_csv e eq ps ?mt (Suc k) (data @ ?new) = Some ((data @ ?new) @ rows)"
      and ids: "\<forall>r\<in>set rows. mt_equipment_id r = eq"
      and chain: "chain_from ?mt rows" and stop: "e < ?mt \<longrightarrow> rows = []"
      by blast
    have "maint_loop_csv e eq ps cur k data = Some (data @ (?new @ rows))"
      using True run by (subst maint_loop_csv.simps) simp
    moreover have "\<forall>r\<in>set (?new @ rows). mt_equipment_id r = eq"
      using ids pass_events_csv_equipment by auto
    moreover have "chain_from cur (?new @ rows)"
      using pass_events_csv_preventive chain stop gap_ok_interval [OF d]
      by (rule chain_from_step)
    ultimately show ?thesis using True by (intro exI [of _ "?new @ rows"]) simp
  qed
qed

lemma events_of_same:
  "\<forall>r\<in>set rows. mt_equipment_id r = eq \<Longrightarrow> events_of eq rows = rows"
  by (simp add: events_of_def)

lemma events_of_other:
  "\<forall>r\<in>set rows. mt_equipment_id r \<in> A \<Longrightarrow> eq \<notin> A \<Longrightarrow> events_of eq rows = []"
  by (auto simp: events_of_def filter_empty_conv)

lemma gaps_join:
  assumes one: "\<forall>r\<in>set rows1. mt_equipment_id r = x" "successively gap_ok (preventive_times rows1)"
    and rest: "\<forall>r\<in>set rows2. mt_equipment_id r \<in> set xs"
      "\<forall>eq. successively gap_ok (preventive_times (events_of eq rows2))"
    and x: "x \<notin> set xs"
  shows "successively gap_ok (preventive_times (events_of eq (rows1 @ rows2)))"
proof (cases "eq = x")
  case True
  then have "events_of eq (rows1 @ rows2) = rows1"
    using events_of_same [OF one(1)] events_of_other [OF rest(1) x]
    by (simp add: events_of_append)
  then show ?thesis using one(2) by simp
next
  case False
  then have "events_of eq rows1 = []"
    using events_of_other [of rows1 "{x}" eq] one(1) by simp
  then show ?thesis using rest(2) by (simp add: events_of_append)
qed

lemma maint_all_gaps:
  assumes "\<forall>j k. 28 \<le> ps_interval (ps j k) \<and> ps_interval (ps j k) \<le> 35" "distinct ids"
  shows "\<exists>rows. maint_all s e ids ps j data = Some (data @ rows)
     \<and> (\<forall>r\<in>set rows. mt_equipment_id r \<in> set ids)
     \<and> (\<forall>eq. successively gap_ok (preventive_times (events_of eq rows)))"
  using assms(2)
proof (induction ids arbitrary: j data)
  case Nil
  show ?case by (simp add: events_of_def preventive_times_def)
next
  case (Cons x xs)
  have "\<forall>k. 28 \<le> ps_interval (ps j k) \<and> ps_interval (ps j k) \<le> 35" using assms(1) by simp
  from maint_loop_chain [OF this, of s e x s 0 data] obtain rows1 where
    one: "maint_loop s e x (ps j) s 0 data = Some (data @ rows1)"
      "\<forall>r\<in>set rows1. mt_equipment_id r = x" "chain_from s rows1" by blast
  from Cons.IH [of "Suc j" "data @ rows1"] Cons.prems obtain rows2 where
    rest: "maint_all s e xs ps (Suc j) (data @ rows1) = Some ((data @ rows1) @ rows2)"
      "\<forall>r\<in>set rows2. mt_equipment_id r \<in> set xs"
      "\<forall>eq. successively gap_ok (preventive_times (events_of eq rows2))" by auto
  have "maint_all s e (x # xs) ps j data = Some (data @ (rows1 @ rows2))"
    using one(1) rest(1) by simp
  moreover have "\<forall>r\<in>set (rows1 @ rows2). mt_equipment_id r \<in> set (x # xs)"
    using one(2) rest(2) by auto
  moreover have "\<forall>eq. successively gap_ok (preventive_times (events_of eq (rows1 @ rows2)))"
    using gaps_join [OF one(2) _ rest(2,3)] one(3) Cons.prems by (simp add: chain_from_def)
  ultimately show ?case by blast
qed

lemma maint_all_csv_gaps:
  assumes "\<forall>j k. 28 \<le> ps_interval (ps j k) \<and> ps_interval (ps j k) \<le> 35" "distinct ids"
  shows "\<exists>rows. maint_all_csv s e ids ps j data = Some (data @ rows)
     \<and> (\<forall>r\<in>set rows. mt_equipment_id r \<in> set ids)
     \<and> (\<forall>eq. successively gap_ok (preventive_times (events_of eq rows)))"
  using assms(2)
proof (induction ids arbitrary: j data)
  case Nil
  show ?case by (simp add: events_of_def preventive_times_def)
next
  case (Cons x xs)
  have "\<forall>k. 28 \<le> ps_interval (ps j k) \<and> ps_interval (ps j k) \<le> 35" using assms(1) by simp
  from maint_loop_csv_chain [OF this, of e x s 0 data] obtain rows1 where
    one: "maint_loop_csv e x (ps j) s 0 data = Some (data @ rows1)"
      "\<forall>r\<in>set rows1. mt_equipment_id r = x" "chain_from s rows1" by blast
  from Cons.IH [of "Suc j" "data @ rows1"] Cons.prems obtain rows2 where
    rest: "maint_all_csv s e xs ps (Suc j) (data @ rows1) = Some ((data @ rows1) @ rows2)"
      "\<forall>r\<in>set rows2. mt_equipment_id r \<in> set xs"
      "\<forall>eq. successively gap_ok (preventive_times (events_of eq rows2))" by auto
  have "maint_all_csv s e (x # xs) ps j data = Some (data @ (rows1 @ rows2))"
    using one(1) rest(1) by simp
  moreover have "\<forall>r\<in>set (rows1 @ rows2). mt_equipment_id r \<in> set (x # xs)"
    using one(2) rest(2) by auto
  moreover have "\<forall>eq. successively gap_ok (preventive_times (events_of eq (rows1 @ rows2)))"
    using gaps_join [OF one(2) _ rest(2,3)] one(3) Cons.prems by (simp add: chain_from_def)
  ultimately show ?case by blast
qed

subsection \<open>A concrete run\<close>

lemma concat_map_if:
  "concat (map (\<lambda>x. if P x then [g x] else []) xs) = map g (filter P xs)"
  by (induction xs) simp_all

lemma fault_scan_filter:
  "fault_scan s e eq cur fd =
     map (\<lambda>day. corrective_event (s + timedelta day (fd_hour (fd day)) 0) eq (fd day))
       (filter (\<lambda>day. fd_trial_u (fd day) < fl 0.02 \<and> s + timedelta day (fd_hour (fd day)) 0 \<le> e)
          (trial_days s cur))"
proof -
  have "(\<lambda>day. if fd_trial_u (fd day) < fl 0.02
                then (let fault_time = s + timedelta day (fd_hour (fd day)) 0
                      in if fault_time \<le> e then [corrective_event fault_time eq (fd day)] else [])
                else [])
      = (\<lambda>day. if fd_trial_u (fd day) < fl 0.02 \<and> s + timedelta day (fd_hour (fd day)) 0 \<le> e
                then [corrective_event (s + timedelta day (fd_hour (fd day)) 0) eq (fd day)]
                else [])"
    by (auto simp: Let_def)
  then show ?thesis unfolding fault_scan_def by (simp only: concat_map_if)
qed

lemma no_fault_scan:
  "fault_scan s e eq cur (example_faults (- 1)) = []" if "s \<le> cur"
proof -
  have "td_days (cur - s) \<ge> 0" using that by (simp add: td_days_def)
  then have "\<forall>day\<in>set (trial_days s cur). day \<noteq> - 1"
    by (auto simp: trial_days_def Let_def)
  then show ?thesis
    unfolding fault_scan_filter by (auto simp: example_faults_def filter_empty_conv)
qed

lemma first_trial_days: "trial_days 0 0 = [0..29]"
  by (simp add: trial_days_def td_days_def)

lemma second_trial_days: "trial_days 0 (timedelta 28 0 0) = [28..57]"
  by (simp add: trial_days_def td_days_def timedelta_def)

lemma first_fault_scan:
  "fault_scan 0 (timedelta 60 0 0) eq 0 (example_faults 29) =
     [corrective_event (timedelta 29 8 0) eq (example_faults 29 29)]"
proof -
  have "filter (\<lambda>day. fd_trial_u (example_faults 29 day) < fl 0.02
          \<and> 0 + timedelta day (fd_hour (example_faults 29 day)) 0 \<le> timedelta 60 0 0) [0..29]
      = filter (\<lambda>day. day = 29) [0..29]"
    by (rule filter_cong) (auto simp: example_faults_def timedelta_def)
  also have "\<dots> = [29]" by (simp add: upto_rec1)
  finally show ?thesis
    unfolding fault_scan_filter first_trial_days by (simp add: example_faults_def)
qed

lemma timedelta_days:
  "timedelta a 0 0 + timedelta b 0 0 = timedelta (a + b) 0 0"
  "timedelta a 0 0 \<le> timedelta b 0 0 \<longleftrightarrow> a \<le> b"
  "timedelta a 0 0 < timedelta b 0 0 \<longleftrightarrow> a < b"
  "0 \<le> timedelta b 0 0 \<longleftrightarrow> 0 \<le> b"
  by (simp_all add: timedelta_def algebra_simps)

lemma example_pass_fields:
  "ps_interval (example_pass k) = 28" "ps_faults (example_pass 0) = example_faults 29"
  "ps_faults (example_pass (Suc k)) = example_faults (- 1)"
  by (simp_all add: example_pass_def)

lemma example_passes:
  "pass_events 0 (timedelta 60 0 0) eq 0 (example_pass 0) =
     [preventive_event (timedelta 28 0 0) eq (example_pass 0),
      corrective_event (timedelta 29 8 0) eq (example_faults 29 29)]"
  "pass_events 0 (timedelta 60 0 0) eq (timedelta 28 0 0) (example_pass (Suc 0)) =
     [preventive_event (timedelta 56 0 0) eq (example_pass (Suc 0))]"
  "pass_events 0 (timedelta 60 0 0) eq (timedelta 56 0 0) (example_pass (Suc (Suc 0))) = []"
  by (simp_all add: pass_events_def Let_def example_pass_fields timedelta_days first_fault_scan
      no_fault_scan)

lemma example_maintenance_run:
  "generate_maintenance_events [eq] (\<lambda>j. example_pass) 0 (timedelta 60 0 0) =
     Some [preventive_event (timedelta 28 0 0) eq (example_pass 0),
           corrective_event (timedelta 29 8 0) eq (example_faults 29 29),
           preventive_event (timedelta 56 0 0) eq (example_pass (Suc 0))]"
proof -
  have "maint_loop 0 (timedelta 60 0 0) eq example_pass 0 0 [] =
     Some [preventive_event (timedelta 28 0 0) eq (example_pass 0),
           corrective_event (timedelta 29 8 0) eq (example_faults 29 29),
           preventive_event (timedelta 56 0 0) eq (example_pass (Suc 0))]"
    apply (subst maint_loop.simps)
    apply (simp add: example_passes example_pass_fields timedelta_days)
    apply (subst maint_loop.simps)
    apply (simp add: example_passes example_pass_fields timedelta_days)
    apply (subst maint_loop.simps)
    apply (simp add: example_passes example_pass_fields timedelta_days)
    apply (subst maint_loop.simps)
    apply (simp add: example_passes example_pass_fields timedelta_days)
    done
  then show ?thesis by (simp add: generate_maintenance_events_def)
qed

lemma example_maintenance_run_csv:
  "generate_maintenance_events_csv [eq] (\<lambda>j. example_pass_csv) (timedelta 90 0 0) =
     Some [preventive_event (timedelta 30 0 0) eq (example_pass_csv 0),
           preventive_event (timedelta 60 0 0) eq (example_pass_csv (Suc 0)),
           preventive_event (timedelta 90 0 0) eq (example_pass_csv (Suc (Suc 0)))]"
proof -
  have scan: "fault_scan_csv e eq cur (ps_faults (example_pass_csv k)) = []" for e cur k
    by (simp add: fault_scan_csv_def example_pass_csv_def example_faults_def)
  have i: "ps_interval (example_pass_csv k) = 30" for k by (simp add: example_pass_csv_def)
  have "maint_loop_csv (timedelta 90 0 0) eq example_pass_csv 0 0 [] =
     Some [preventive_event (timedelta 30 0 0) eq (example_pass_csv 0),
           preventive_event (timedelta 60 0 0) eq (example_pass_csv (Suc 0)),
           preventive_event (timedelta 90 0 0) eq (example_pass_csv (Suc (Suc 0)))]"
    apply (subst maint_loop_csv.simps)
    apply (simp add: pass_events_csv_def Let_def scan i timedelta_days)
    apply (subst maint_loop_csv.simps)
    apply (simp add: pass_events_csv_def Let_def scan i timedelta_days)
    apply (subst maint_loop_csv.simps)
    apply (simp add: pass_events_csv_def Let_def scan i timedelta_days)
    apply (subst maint_loop_csv.simps)
    apply (simp add: pass_events_csv_def Let_def scan i timedelta_days)
    apply (subst maint_loop_csv.simps)
    apply (simp add: pass_events_csv_def Let_def scan i timedelta_days)
    done
  then show ?thesis
    by (simp add: generate_maintenance_events_csv_def timedelta_def)
qed

lemma catalog_ids: "map fst EQUIPMENT_CONFIG = EQUIPMENT_IDS" "distinct EQUIPMENT_IDS"
  by (simp_all add: EQUIPMENT_CONFIG_def EQUIPMENT_IDS_def)

text \<open>
  C6. For a catalog of distinct equipment ids (as \<^verbatim>\<open>EQUIPMENT_IDS\<close> is) and preventive
  intervals that are outcomes of \<^verbatim>\<open>random.randint(28, 35)\<close>, the maintenance generator and its
  CSV variant return, and for every equipment the timestamps of consecutive preventive events
  are between 28 and 35 days apart.
\<close>

theorem preventive_intervals:
  assumes "distinct ids"
    and "\<forall>j k. 28 \<le> ps_interval (ps j k) \<and> ps_interval (ps j k) \<le> 35"
    and "\<forall>j k. 28 \<le> ps_interval (psc j k) \<and> ps_interval (psc j k) \<le> 35"
  shows "(\<exists>out. generate_maintenance_events ids ps start_time end_time = Some out
            \<and> (\<forall>eq. successively gap_ok (preventive_times (events_of eq out))))
       \<and> (\<exists>out. generate_maintenance_events_csv ids psc end_time = Some out
            \<and> (\<forall>eq. successively gap_ok (preventive_times (events_of eq out))))"
  using maint_all_gaps [OF assms(2,1), of start_time end_time 0 "[]"]
    maint_all_csv_gaps [OF assms(3,1), of "end_time - timedelta 90 0 0" end_time 0 "[]"]
  unfolding generate_maintenance_events_def generate_maintenance_events_csv_def
  by auto

theorem preventive_intervals_witness:
  "distinct [''MOTOR_001'']
   \<and> (\<forall>j k. 28 \<le> ps_interval (example_pass k) \<and> ps_interval (example_pass k) \<le> 35)
   \<and> (\<forall>j k. 28 \<le> ps_interval (example_pass_csv k) \<and> ps_interval (example_pass_csv k) \<le> 35)
   \<and> generate_maintenance_events [''MOTOR_001''] (\<lambda>j. example_pass) 0 (timedelta 60 0 0) =
       Some [preventive_event (timedelta 28 0 0) ''MOTOR_001'' (example_pass 0),
             corrective_event (timedelta 29 8 0) ''MOTOR_001'' (example_faults 29 29),
             preventive_event (timedelta 56 0 0) ''MOTOR_001'' (example_pass (Suc 0))]
   \<and> preventive_times (events_of ''MOTOR_001''
         [preventive_event (timedelta 28 0 0) ''MOTOR_001'' (example_pass 0),
          corrective_event (timedelta 29 8 0) ''MOTOR_001'' (example_faults 29 29),
          preventive_event (timedelta 56 0 0) ''MOTOR_001'' (example_pass (Suc 0))])
       = [timedelta 28 0 0, timedelta 56 0 0]
   \<and> successively gap_ok [timedelta 28 0 0, timedelta 56 0 0]
   \<and> (\<exists>out. generate_maintenance_events_csv [''MOTOR_001''] (\<lambda>j. example_pass_csv)
               (timedelta 90 0 0) = Some out
          \<and> preventive_times (events_of ''MOTOR_001'' out)
             = [timedelta 30 0 0, timedelta 60 0 0, timedelta 90 0 0]
          \<and> successively gap_ok (preventive_times (events_of ''MOTOR_001'' out)))"
proof -
  have d: "distinct [''MOTOR_001'']" by simp
  have i: "\<forall>j k. 28 \<le> ps_interval (example_pass k) \<and> ps_interval (example_pass k) \<le> 35"
    by (simp add: example_pass_def)
  have ic: "\<forall>j k. 28 \<le> ps_interval (example_pass_csv k) \<and> ps_interval (example_pass_csv k) \<le> 35"
    by (simp add: example_pass_csv_def)
  note run = example_maintenance_run [of "''MOTOR_001''"]
    and runc = example_maintenance_run_csv [of "''MOTOR_001''"]
  have pt: "preventive_times (events_of ''MOTOR_001''
         [preventive_event (timedelta 28 0 0) ''MOTOR_001'' (example_pass 0),
          corrective_event (timedelta 29 8 0) ''MOTOR_001'' (example_faults 29 29),
          preventive_event (timedelta 56 0 0) ''MOTOR_001'' (example_pass (Suc 0))])
       = [timedelta 28 0 0, timedelta 56 0 0]"
    by (simp add: preventive_times_def events_of_def preventive_event_fields
        corrective_event_fields)
  have ptc: "preventive_times (events_of ''MOTOR_001''
         [preventive_event (timedelta 30 0 0) ''MOTOR_001'' (example_pass_csv 0),
          preventive_event (timedelta 60 0 0) ''MOTOR_001'' (example_pass_csv (Suc 0)),
          preventive_event (timedelta 90 0 0) ''MOTOR_001'' (example_pass_csv (Suc (Suc 0)))])
       = [timedelta 30 0 0, timedelta 60 0 0, timedelta 90 0 0]"
    by (simp add: preventive_times_def events_of_def preventive_event_fields)
  from preventive_intervals [OF d, of "\<lambda>j. example_pass" "\<lambda>j. example_pass_csv" 0
      "timedelta 60 0 0"] i ic
  have "successively gap_ok [timedelta 28 0 0, timedelta 56 0 0]"
    unfolding run using pt by (metis option.inject)
  moreover from preventive_intervals [OF d, of "\<lambda>j. example_pass" "\<lambda>j. example_pass_csv" 0
      "timedelta 90 0 0"] i ic
  have "successively gap_ok [timedelta 30 0 0, timedelta 60 0 0, timedelta 90 0 0]"
    unfolding runc using ptc by (metis option.inject)
  ultimately show ?thesis using d i ic run runc pt ptc by simp
qed

lemma whole_days: "td_days (s + timedelta n 0 0 - s) = n" "td_days (timedelta n 0 0) = n"
  by (simp_all add: td_days_def timedelta_def)

lemma maint_loop_rows:
  assumes "maint_loop s e eq ps cur k data = Some out"
  shows "(\<exists>n. cur = s + timedelta n 0 0) \<longrightarrow>
         (\<forall>r\<in>set out. r \<in> set data \<or> pass_row s e eq ps r)"
proof (rule maint_loop.raw_induct
    [where P = "\<lambda>s e eq ps cur k data out. (\<exists>n. cur = s + timedelta n 0 0) \<longrightarrow>
         (\<forall>r\<in>set out. r \<in> set data \<or> pass_row s e eq ps r)", OF _ assms])
  fix loop s e eq ps cur k data out
  assume IH: "\<And>s e eq ps cur k data out.
        loop s e eq ps cur k data = Some out \<Longrightarrow>
        (\<exists>n. cur = s + timedelta n 0 0) \<longrightarrow>
         (\<forall>r\<in>set out. r \<in> set data \<or> pass_row s e eq ps r)"
    and eq: "(if cur \<le> e
      then loop s e eq ps (cur + timedelta (ps_interval (ps k)) 0 0) (Suc k)
            (data @ pass_events s e eq cur (ps k))
      else Some data) = Some out"
  show "(\<exists>n. cur = s + timedelta n 0 0) \<longrightarrow>
         (\<forall>r\<in>set out. r \<in> set data \<or> pass_row s e eq ps r)"
  proof
    assume "\<exists>n. cur = s + timedelta n 0 0"
    then obtain n where n: "cur = s + timedelta n 0 0" ..
    show "\<forall>r\<in>set out. r \<in> set data \<or> pass_row s e eq ps r"
    proof (cases "cur \<le> e")
      case False
      with eq show ?thesis by simp
    next
      case True
      with eq have run: "loop s e eq ps (cur + timedelta (ps_interval (ps k)) 0 0) (Suc k)
            (data @ pass_events s e eq cur (ps k)) = Some out" by simp
      have "cur + timedelta (ps_interval (ps k)) 0 0 = s + timedelta (n + ps_interval (ps k)) 0 0"
        unfolding n by (simp add: timedelta_days [symmetric])
      then have "\<exists>m. cur + timedelta (ps_interval (ps k)) 0 0 = s + timedelta m 0 0" ..
      with IH [OF run] have
        "\<forall>r\<in>set out. r \<in> set (data @ pass_events s e eq cur (ps k)) \<or> pass_row s e eq ps r"
        by blast
      moreover have "r \<in> set (pass_events s e eq cur (ps k)) \<Longrightarrow> pass_row s e eq ps r" for r
        unfolding pass_row_def n by blast
      ultimately show ?thesis by auto
    qed
  qed
qed

lemma maint_all_rows:
  "maint_all s e ids ps j data = Some out \<Longrightarrow> r \<in> set out \<Longrightarrow>
     r \<in> set data \<or> (\<exists>i < length ids. pass_row s e (ids ! i) (ps (j + i)) r)"
proof (induction ids arbitrary: j data)
  case Nil
  then show ?case by simp
next
  case (Cons x xs)
  from Cons.prems(1) obtain data' where
    one: "maint_loop s e x (ps j) s 0 data = Some data'"
    and rest: "maint_all s e xs ps (Suc j) data' = Some out"
    by (auto split: option.splits)
  have s: "\<exists>n. s = s + timedelta n 0 0" by (intro exI [of _ 0]) (simp add: timedelta_def)
  from Cons.IH [OF rest Cons.prems(2)] show ?case
  proof
    assume "r \<in> set data'"
    with maint_loop_rows [OF one] s have "r \<in> set data \<or> pass_row s e x (ps j) r" by blast
    then show ?thesis by auto
  next
    assume "\<exists>i < length xs. pass_row s e (xs ! i) (ps (Suc j + i)) r"
    then obtain i where "i < length xs" "pass_row s e (xs ! i) (ps (Suc j + i)) r" by blast
    then have "Suc i < length (x # xs) \<and> pass_row s e ((x # xs) ! Suc i) (ps (j + Suc i)) r"
      by simp
    then show ?thesis by blast
  qed
qed

text \<open>
  C7 (amended). The fault trials of a pass of the cursor cover exactly the 30 days that begin
  with the day of the cursor, whatever the preventive interval drawn for the pass (28 to 35
  days): a day can be tried in two passes or in none. With fault hours drawn by
  \<^verbatim>\<open>random.randint(8, 18)\<close>, every corrective event of the pass has a timestamp between the
  cursor plus 8 hours and the cursor plus 29 days and 18 hours, and not after the end of the
  window. Every event of a run is an event of such a pass, whose cursor is the start time plus
  a whole number of days.
\<close>

theorem fault_trials_cover_thirty_days:
  assumes "\<forall>day. 8 \<le> fd_hour (ps_faults ps day) \<and> fd_hour (ps_faults ps day) \<le> 18"
    and "r \<in> set (pass_events start_time end_time equipment_id (start_time + timedelta n 0 0) ps)"
    and "mt_maintenance_type r = ''corrective''"
  shows "trial_days start_time (start_time + timedelta n 0 0) = [n..n + 29]
     \<and> start_time + timedelta n 0 0 + timedelta 0 8 0 \<le> mt_time r
     \<and> mt_time r \<le> start_time + timedelta n 0 0 + timedelta 29 18 0
     \<and> mt_time r \<le> end_time
     \<and> (\<forall>out r'. generate_maintenance_events ids pss start_time end_time = Some out
           \<longrightarrow> r' \<in> set out
           \<longrightarrow> (\<exists>j < length ids. pass_row start_time end_time (ids ! j) (pss j) r'))"
proof -
  let ?cur = "start_time + timedelta n 0 0"
  have days: "trial_days start_time ?cur = [n..n + 29]"
    by (simp add: trial_days_def Let_def whole_days)
  from assms(2,3) have "r \<in> set (fault_scan start_time end_time equipment_id ?cur (ps_faults ps))"
    by (auto simp: pass_events_def Let_def preventive_event_fields split: if_splits)
  then obtain day where day: "day \<in> set (trial_days start_time ?cur)"
    and le: "start_time + timedelta day (fd_hour (ps_faults ps day)) 0 \<le> end_time"
    and r: "r = corrective_event (start_time + timedelta day (fd_hour (ps_faults ps day)) 0)
                  equipment_id (ps_faults ps day)"
    by (rule fault_scan_row)
  have t: "mt_time r = start_time + timedelta day (fd_hour (ps_faults ps day)) 0"
    unfolding r by (simp add: corrective_event_fields)
  have "n \<le> day" "day \<le> n + 29" using day unfolding days by simp_all
  moreover have "8 \<le> fd_hour (ps_faults ps day)" "fd_hour (ps_faults ps day) \<le> 18"
    using assms(1) by simp_all
  ultimately have "?cur + timedelta 0 8 0 \<le> mt_time r"
    "mt_time r \<le> ?cur + timedelta 29 18 0"
    unfolding t by (simp_all add: timedelta_def)
  moreover have "\<forall>out r'. generate_maintenance_events ids pss start_time end_time = Some out
           \<longrightarrow> r' \<in> set out
           \<longrightarrow> (\<exists>j < length ids. pass_row start_time end_time (ids ! j) (pss j) r')"
    using maint_all_rows [of start_time end_time ids pss 0 "[]"]
    unfolding generate_maintenance_events_def by auto
  ultimately show ?thesis using days le t by simp
qed

theorem fault_trials_cover_thirty_days_witness:
  "(\<forall>day. 8 \<le> fd_hour (ps_faults (example_pass 0) day) \<and> fd_hour (ps_faults (example_pass 0) day) \<le> 18)
   \<and> pass_events 0 (timedelta 60 0 0) ''MOTOR_001'' (0 + timedelta 0 0 0) (example_pass 0) =
       [preventive_event (timedelta 28 0 0) ''MOTOR_001'' (example_pass 0),
        corrective_event (timedelta 29 8 0) ''MOTOR_001'' (example_faults 29 29)]
   \<and> mt_maintenance_type (corrective_event (timedelta 29 8 0) ''MOTOR_001'' (example_faults 29 29))
       = ''corrective''
   \<and> trial_days 0 (0 + timedelta 0 0 0) = [0..0 + 29]
   \<and> 0 + timedelta 0 0 0 + timedelta 0 8 0
       \<le> mt_time (corrective_event (timedelta 29 8 0) ''MOTOR_001'' (example_faults 29 29))
   \<and> mt_time (corrective_event (timedelta 29 8 0) ''MOTOR_001'' (example_faults 29 29))
       \<le> 0 + timedelta 0 0 0 + timedelta 29 18 0
   \<and> generate_maintenance_events [''MOTOR_001''] (\<lambda>j. example_pass) 0 (timedelta 60 0 0) =
       Some [preventive_event (timedelta 28 0 0) ''MOTOR_001'' (example_pass 0),
             corrective_event (timedelta 29 8 0) ''MOTOR_001'' (example_faults 29 29),
             preventive_event (timedelta 56 0 0) ''MOTOR_001'' (example_pass (Suc 0))]
   \<and> (\<exists>j < length [''MOTOR_001'']. pass_row 0 (timedelta 60 0 0) ([''MOTOR_001''] ! j) example_pass
         (preventive_event (timedelta 56 0 0) ''MOTOR_001'' (example_pass (Suc 0))))"
proof -
  have h: "\<forall>day. 8 \<le> fd_hour (ps_faults (example_pass 0) day)
      \<and> fd_hour (ps_faults (example_pass 0) day) \<le> 18"
    by (simp add: example_pass_def example_faults_def)
  have z: "0 + timedelta 0 0 0 = 0" by (simp add: timedelta_def)
  have p: "pass_events 0 (timedelta 60 0 0) ''MOTOR_001'' (0 + timedelta 0 0 0) (example_pass 0) =
       [preventive_event (timedelta 28 0 0) ''MOTOR_001'' (example_pass 0),
        corrective_event (timedelta 29 8 0) ''MOTOR_001'' (example_faults 29 29)]"
    unfolding z by (rule example_passes)
  have c: "mt_maintenance_type (corrective_event (timedelta 29 8 0) ''MOTOR_001''
      (example_faults 29 29)) = ''corrective''"
    by (simp add: corrective_event_fields)
  have m: "corrective_event (timedelta 29 8 0) ''MOTOR_001'' (example_faults 29 29)
      \<in> set (pass_events 0 (timedelta 60 0 0) ''MOTOR_001'' (0 + timedelta 0 0 0) (example_pass 0))"
    unfolding p by simp
  note run = example_maintenance_run [of "''MOTOR_001''"]
  from fault_trials_cover_thirty_days [OF h m c, of "[''MOTOR_001'']" "\<lambda>j. example_pass"]
  have "\<forall>out r'. generate_maintenance_events [''MOTOR_001''] (\<lambda>j. example_pass) 0
             (timedelta 60 0 0) = Some out
           \<longrightarrow> r' \<in> set out
           \<longrightarrow> (\<exists>j < length [''MOTOR_001'']. pass_row 0 (timedelta 60 0 0) ([''MOTOR_001''] ! j)
                  example_pass r')"
    by (elim conjE)
  then have "\<exists>j < length [''MOTOR_001'']. pass_row 0 (timedelta 60 0 0) ([''MOTOR_001''] ! j)
         example_pass (preventive_event (timedelta 56 0 0) ''MOTOR_001'' (example_pass (Suc 0)))"
    unfolding run by simp
  moreover from fault_trials_cover_thirty_days [OF h m c, of "[]" "\<lambda>j. example_pass"]
  have "trial_days 0 (0 + timedelta 0 0 0) = [0..0 + 29]
   \<and> 0 + timedelta 0 0 0 + timedelta 0 8 0
       \<le> mt_time (corrective_event (timedelta 29 8 0) ''MOTOR_001'' (example_faults 29 29))
   \<and> mt_time (corrective_event (timedelta 29 8 0) ''MOTOR_001'' (example_faults 29 29))
       \<le> 0 + timedelta 0 0 0 + timedelta 29 18 0"
    by simp
  ultimately show ?thesis using h p c run by simp
qed

text \<open>
  C7 as stated fails. With a preventive interval of 28 days the first pass still tries the
  days 0 to 29: a fault on day 29 at 8 o'clock is generated in the first pass and lies after
  the preventive event at day 28 that ends the pass; and the days 28 and 29 are tried again in
  the second pass.
\<close>

theorem fault_after_next_preventive_counterexample:
  "generate_maintenance_events [''MOTOR_001''] (\<lambda>j. example_pass) 0 (timedelta 60 0 0) =
       Some [preventive_event (timedelta 28 0 0) ''MOTOR_001'' (example_pass 0),
             corrective_event (timedelta 29 8 0) ''MOTOR_001'' (example_faults 29 29),
             preventive_event (timedelta 56 0 0) ''MOTOR_001'' (example_pass (Suc 0))]
   \<and> pass_events 0 (timedelta 60 0 0) ''MOTOR_001'' 0 (example_pass 0) =
       [preventive_event (timedelta 28 0 0) ''MOTOR_001'' (example_pass 0),
        corrective_event (timedelta 29 8 0) ''MOTOR_001'' (example_faults 29 29)]
   \<and> ps_interval (example_pass 0) = 28
   \<and> mt_time (preventive_event (timedelta 28 0 0) ''MOTOR_001'' (example_pass 0))
       < mt_time (corrective_event (timedelta 29 8 0) ''MOTOR_001'' (example_faults 29 29))
   \<and> 28 \<in> set (trial_days 0 0) \<and> 28 \<in> set (trial_days 0 (timedelta 28 0 0))
   \<and> 29 \<in> set (trial_days 0 0) \<and> 29 \<in> set (trial_days 0 (timedelta 28 0 0))"
  by (simp add: example_maintenance_run example_passes example_pass_fields
      preventive_event_fields corrective_event_fields first_trial_days second_trial_days)
     (simp add: timedelta_def)

lemma qc_test_type_record: "qc_test_type (qc_record t b l dr) = qd_test_type dr"
  by (simp add: qc_record_def Let_def)

lemma failing_samples:
  "fst (measurement ''dimensional'' ''fail'' (3 / 4) 0) = Some 10.5"
  "fst (measurement ''dimensional'' ''fail'' (1 / 4) (1 - 1 / 2 ^ 53)) = Some 10"
  "fst (measurement ''dimensional'' ''fail'' (1 / 4) (127 / 128))
     = Some (5628619924910899 / 2 ^ 49)"
proof -
  have "fst (measurement ''dimensional'' ''fail'' (3 / 4) 0) =
      Some (float_uniform 10.5 (fl (10.5 + fl 0.2)) 0)"
    by (simp add: measurement_dimensional)
  then show "fst (measurement ''dimensional'' ''fail'' (3 / 4) 0) = Some 10.5"
    unfolding sample_high_first .
  have "fst (measurement ''dimensional'' ''fail'' (1 / 4) (1 - 1 / 2 ^ 53)) =
      Some (float_uniform (fl (10.0 - fl 0.2)) 10.0 (1 - 1 / 2 ^ 53))"
    by (simp add: measurement_dimensional)
  then show "fst (measurement ''dimensional'' ''fail'' (1 / 4) (1 - 1 / 2 ^ 53)) = Some 10"
    unfolding sample_low_last .
  have "fst (measurement ''dimensional'' ''fail'' (1 / 4) (127 / 128)) =
      Some (float_uniform (fl (10.0 - fl 0.2)) 10.0 (127 / 128))"
    by (simp add: measurement_dimensional)
  then show "fst (measurement ''dimensional'' ''fail'' (1 / 4) (127 / 128))
      = Some (5628619924910899 / 2 ^ 49)"
    unfolding sample_low_near .
qed

lemma example_band:
  "qc_tolerance_min (qc_record t b l (example_qc_draws ''dimensional'' ru su u)) = Some 10"
  "qc_tolerance_max (qc_record t b l (example_qc_draws ''dimensional'' ru su u)) = Some 10.5"
  "qc_tolerance_min (qc_record_csv t b l (example_qc_draws ''dimensional'' ru su u)) = Some 10"
  "qc_tolerance_max (qc_record_csv t b l (example_qc_draws ''dimensional'' ru su u)) = Some 10.5"
  by (simp_all add: qc_record_fields qc_record_csv_fields example_qc_draws_def
      measurement_dimensional)

lemma example_fail:
  "qc_test_result (qc_record t b l (example_qc_draws ty (63 / 64) su u)) = ''fail''"
  "qc_test_result (qc_record_csv t b l (example_qc_draws ty (63 / 64) su u)) = ''fail''"
  by (simp_all add: qc_record_fields qc_record_csv_fields example_qc_draws_def)

lemma edge_records:
  "qc_measurement (qc_record t b l (example_qc_draws ''dimensional'' (63 / 64) (3 / 4) 0))
     = Some 10.5"
  "qc_measurement (qc_record t b l
      (example_qc_draws ''dimensional'' (63 / 64) (1 / 4) (1 - 1 / 2 ^ 53))) = Some 10"
  using failing_samples(1, 2) by (simp_all add: qc_record_fields example_qc_draws_def)

text \<open>
  C3 (amended). For a quality-control record of test type dimensional or electrical, the
  result is pass or fail; if it is pass, the measurement lies strictly within the tolerance
  band; if it is fail, the measurement does not lie strictly within it: it is at most
  \<open>tolerance_min\<close> or at least \<open>tolerance_max\<close>, and a failing measurement can be either end
  of the band. This holds of the record of every draw in the full generator and in the CSV
  variant, which writes the measurement rounded to two decimals, and of every record of a run
  of the full generator.
\<close>

theorem tolerance_band_by_result:
  "(unit_draw (qd_measure_u dr)
      \<and> (qd_test_type dr = ''dimensional'' \<or> qd_test_type dr = ''electrical'')
    \<longrightarrow> (qc_test_result (qc_record t b l dr) = ''pass''
            \<and> qc_test_result (qc_record_csv t b l dr) = ''pass''
            \<and> strictly_within (qc_record t b l dr)
            \<and> strictly_within (qc_record_csv t b l dr))
       \<or> (qc_test_result (qc_record t b l dr) = ''fail''
            \<and> qc_test_result (qc_record_csv t b l dr) = ''fail''
            \<and> not_inside (qc_record t b l dr)
            \<and> not_inside (qc_record_csv t b l dr)))
   \<and> ((\<forall>k i. unit_draw (qd_measure_u (draws k i)))
      \<and> generate_quality_control_data gap draws start_time end_time = Some out
      \<and> r \<in> set out
      \<and> (qc_test_type r = ''dimensional'' \<or> qc_test_type r = ''electrical'')
    \<longrightarrow> (qc_test_result r = ''pass'' \<and> strictly_within r)
       \<or> (qc_test_result r = ''fail'' \<and> not_inside r))
   \<and> (\<exists>d. unit_draw (qd_measure_u d) \<and> qd_test_type d = ''dimensional''
          \<and> qc_test_result (qc_record t b l d) = ''fail''
          \<and> qc_measurement (qc_record t b l d) = qc_tolerance_min (qc_record t b l d))
   \<and> (\<exists>d. unit_draw (qd_measure_u d) \<and> qd_test_type d = ''dimensional''
          \<and> qc_test_result (qc_record t b l d) = ''fail''
          \<and> qc_measurement (qc_record t b l d) = qc_tolerance_max (qc_record t b l d))"
proof (intro conjI impI)
  show "\<exists>d. unit_draw (qd_measure_u d) \<and> qd_test_type d = ''dimensional''
          \<and> qc_test_result (qc_record t b l d) = ''fail''
          \<and> qc_measurement (qc_record t b l d) = qc_tolerance_min (qc_record t b l d)"
  proof -
    let ?d = "example_qc_draws ''dimensional'' (63 / 64) (1 / 4) (1 - 1 / 2 ^ 53)"
    have "unit_draw (qd_measure_u ?d)" "qd_test_type ?d = ''dimensional''"
      by (simp_all add: example_qc_draws_def unit_draw_def)
    moreover have "qc_test_result (qc_record t b l ?d) = ''fail''" by (rule example_fail)
    moreover have "qc_measurement (qc_record t b l ?d) = qc_tolerance_min (qc_record t b l ?d)"
      unfolding edge_records example_band ..
    ultimately show ?thesis by blast
  qed
  show "\<exists>d. unit_draw (qd_measure_u d) \<and> qd_test_type d = ''dimensional''
          \<and> qc_test_result (qc_record t b l d) = ''fail''
          \<and> qc_measurement (qc_record t b l d) = qc_tolerance_max (qc_record t b l d)"
  proof -
    let ?d = "example_qc_draws ''dimensional'' (63 / 64) (3 / 4) 0"
    have "unit_draw (qd_measure_u ?d)" "qd_test_type ?d = ''dimensional''"
      by (simp_all add: example_qc_draws_def unit_draw_def)
    moreover have "qc_test_result (qc_record t b l ?d) = ''fail''" by (rule example_fail)
    moreover have "qc_measurement (qc_record t b l ?d) = qc_tolerance_max (qc_record t b l ?d)"
      unfolding edge_records example_band ..
    ultimately show ?thesis by blast
  qed
next
  assume a: "unit_draw (qd_measure_u dr)
      \<and> (qd_test_type dr = ''dimensional'' \<or> qd_test_type dr = ''electrical'')"
  then have u: "unit_draw (qd_measure_u dr)"
    and ty: "qd_test_type dr = ''dimensional'' \<or> qd_test_type dr = ''electrical''" by simp_all
  show "(qc_test_result (qc_record t b l dr) = ''pass''
            \<and> qc_test_result (qc_record_csv t b l dr) = ''pass''
            \<and> strictly_within (qc_record t b l dr)
            \<and> strictly_within (qc_record_csv t b l dr))
       \<or> (qc_test_result (qc_record t b l dr) = ''fail''
            \<and> qc_test_result (qc_record_csv t b l dr) = ''fail''
            \<and> not_inside (qc_record t b l dr)
            \<and> not_inside (qc_record_csv t b l dr))"
    using qc_record_band [OF u ty, of t b l] qc_record_csv_band [OF u ty, of t b l]
    by (cases "qd_result_u dr < fl 0.95") simp_all
next
  assume a: "(\<forall>k i. unit_draw (qd_measure_u (draws k i)))
      \<and> generate_quality_control_data gap draws start_time end_time = Some out
      \<and> r \<in> set out
      \<and> (qc_test_type r = ''dimensional'' \<or> qc_test_type r = ''electrical'')"
  then obtain t' b' l' k i where r: "r = qc_record t' b' l' (draws k i)"
    by (blast elim: generate_quality_control_data_rows)
  have u: "unit_draw (qd_measure_u (draws k i))" using a by simp
  have ty: "qd_test_type (draws k i) = ''dimensional'' \<or> qd_test_type (draws k i) = ''electrical''"
    using a unfolding r qc_test_type_record by simp
  show "(qc_test_result r = ''pass'' \<and> strictly_within r)
       \<or> (qc_test_result r = ''fail'' \<and> not_inside r)"
    unfolding r using qc_record_band [OF u ty, of t' b' l']
    by (cases "qd_result_u (draws k i) < fl 0.95") simp_all
qed

theorem tolerance_band_by_result_witness:
  "unit_draw (qd_measure_u (example_qc_draws ''dimensional'' 0 0 (1 / 2)))
   \<and> qd_test_type (example_qc_draws ''dimensional'' 0 0 (1 / 2)) = ''dimensional''
   \<and> qc_test_result (qc_record 0 ''BATCH_001000'' ''Line 1''
        (example_qc_draws ''dimensional'' 0 0 (1 / 2))) = ''pass''
   \<and> qc_measurement (qc_record 0 ''BATCH_001000'' ''Line 1''
        (example_qc_draws ''dimensional'' 0 0 (1 / 2))) = Some 10.25
   \<and> strictly_within (qc_record 0 ''BATCH_001000'' ''Line 1''
        (example_qc_draws ''dimensional'' 0 0 (1 / 2)))
   \<and> generate_quality_control_data example_gap
        (\<lambda>k i. example_qc_draws ''dimensional'' 0 0 (1 / 2)) 0 (timedelta 0 1 0)
      = Some [qc_record (timedelta 0 1 0) (batch_id_of 1000) ''Line 1''
                (example_qc_draws ''dimensional'' 0 0 (1 / 2)),
              qc_record (timedelta 0 1 0) (batch_id_of 1001) ''Line 2''
                (example_qc_draws ''dimensional'' 0 0 (1 / 2))]
   \<and> strictly_within (qc_record (timedelta 0 1 0) (batch_id_of 1000) ''Line 1''
        (example_qc_draws ''dimensional'' 0 0 (1 / 2)))"
proof -
  let ?d = "example_qc_draws ''dimensional'' 0 0 (1 / 2)"
  let ?r = "qc_record (timedelta 0 1 0) (batch_id_of 1000) ''Line 1'' ?d"
  have u: "unit_draw (qd_measure_u ?d)"
    by (simp add: example_qc_draws_def unit_draw_def)
  have ty: "qd_test_type ?d = ''dimensional''"
    by (simp add: example_qc_draws_def)
  have res: "qc_test_result (qc_record t b l ?d) = ''pass''" for t b l
    by (simp add: qc_record_fields example_qc_draws_def)
  have "qc_measurement (qc_record 0 ''BATCH_001000'' ''Line 1'' ?d) =
      Some (float_uniform (fl (10.0 + fl 0.05)) (fl (10.5 - fl 0.05)) (1 / 2))"
    by (simp add: qc_record_fields example_qc_draws_def measurement_dimensional)
  then have m: "qc_measurement (qc_record 0 ''BATCH_001000'' ''Line 1'' ?d) = Some 10.25"
    unfolding sample_pass_half .
  note run = example_qc_run [of "''dimensional''" 0 0 "1 / 2"]
  note inst = tolerance_band_by_result [where dr = ?d and t = 0 and b = "''BATCH_001000''"
      and l = "''Line 1''" and draws = "\<lambda>k i. ?d" and gap = example_gap and start_time = 0
      and end_time = "timedelta 0 1 0" and r = ?r
      and out = "[?r, qc_record (timedelta 0 1 0) (batch_id_of 1001) ''Line 2'' ?d]"]
  from inst u ty res have one: "strictly_within (qc_record 0 ''BATCH_001000'' ''Line 1'' ?d)"
    by simp
  from inst u run have two: "strictly_within ?r"
    by (simp add: qc_test_type_record ty res)
  show ?thesis using u ty res m run one two by simp
qed

text \<open>
  C3 as stated fails for failing tests: a failing measurement can be an end of the band. The
  upper side is sampled from \<^verbatim>\<open>random.uniform(tolerance_max, tolerance_max + 0.2)\<close>, which is
  \<open>tolerance_max\<close> itself when \<^verbatim>\<open>random()\<close> returns 0. The lower side is sampled from
  \<^verbatim>\<open>random.uniform(tolerance_min - 0.2, tolerance_min)\<close>, and for the largest outcome of
  \<^verbatim>\<open>random()\<close> the float sum is \<open>tolerance_min\<close> itself. In the CSV variant the failing
  9.9984375 (for the outcome 127/128) is written as 10.0.
\<close>

theorem fail_at_band_edge_counterexample:
  "qc_test_result (qc_record 0 ''BATCH_001000'' ''Line 1''
        (example_qc_draws ''dimensional'' (63 / 64) (3 / 4) 0)) = ''fail''
   \<and> qc_measurement (qc_record 0 ''BATCH_001000'' ''Line 1''
        (example_qc_draws ''dimensional'' (63 / 64) (3 / 4) 0)) = Some 10.5
   \<and> qc_tolerance_max (qc_record 0 ''BATCH_001000'' ''Line 1''
        (example_qc_draws ''dimensional'' (63 / 64) (3 / 4) 0)) = Some 10.5
   \<and> \<not> strictly_outside (qc_record 0 ''BATCH_001000'' ''Line 1''
        (example_qc_draws ''dimensional'' (63 / 64) (3 / 4) 0))
   \<and> qc_test_result (qc_record 0 ''BATCH_001000'' ''Line 1''
        (example_qc_draws ''dimensional'' (63 / 64) (1 / 4) (1 - 1 / 2 ^ 53))) = ''fail''
   \<and> qc_measurement (qc_record 0 ''BATCH_001000'' ''Line 1''
        (example_qc_draws ''dimensional'' (63 / 64) (1 / 4) (1 - 1 / 2 ^ 53))) = Some 10
   \<and> qc_tolerance_min (qc_record 0 ''BATCH_001000'' ''Line 1''
        (example_qc_draws ''dimensional'' (63 / 64) (1 / 4) (1 - 1 / 2 ^ 53))) = Some 10
   \<and> \<not> strictly_outside (qc_record 0 ''BATCH_001000'' ''Line 1''
        (example_qc_draws ''dimensional'' (63 / 64) (1 / 4) (1 - 1 / 2 ^ 53)))
   \<and> qc_test_result (qc_record_csv 0 ''BATCH_001000'' ''Line 1''
        (example_qc_draws ''dimensional'' (63 / 64) (1 / 4) (127 / 128))) = ''fail''
   \<and> fst (measurement ''dimensional'' ''fail'' (1 / 4) (127 / 128))
        = Some (5628619924910899 / 2 ^ 49)
   \<and> qc_measurement (qc_record_csv 0 ''BATCH_001000'' ''Line 1''
        (example_qc_draws ''dimensional'' (63 / 64) (1 / 4) (127 / 128))) = Some 10
   \<and> qc_tolerance_min (qc_record_csv 0 ''BATCH_001000'' ''Line 1''
        (example_qc_draws ''dimensional'' (63 / 64) (1 / 4) (127 / 128))) = Some 10
   \<and> \<not> strictly_outside (qc_record_csv 0 ''BATCH_001000'' ''Line 1''
        (example_qc_draws ''dimensional'' (63 / 64) (1 / 4) (127 / 128)))"
proof -
  note near = failing_samples(3)
  have written: "written_measurement (Some (5628619924910899 / 2 ^ 49)) = Some 10"
    by (simp add: written_measurement_def py_round_def round_half_even_def)
  have r3: "qc_measurement (qc_record_csv 0 ''BATCH_001000'' ''Line 1''
        (example_qc_draws ''dimensional'' (63 / 64) (1 / 4) (127 / 128))) = Some 10"
    using near written by (simp add: qc_record_csv_fields example_qc_draws_def)
  show ?thesis
    using near r3 edge_records [of 0 "''BATCH_001000''" "''Line 1''"]
    by (simp add: example_band example_fail strictly_outside_def band_test_def)
qed

end
